theory Spec2Isabelle
  imports Complex_Main "HOL-Library.AList" "HOL-Library.Log_Nat"
begin

section \<open>Data model (shared/schema.ts)\<close>

text \<open>
  Rows of the tables of \<^verbatim>\<open>shared/schema.ts\<close> as records. Text and decimal columns are
  strings, nullable columns are options, timestamps are the millisecond count that
  \<^verbatim>\<open>Date.getTime()\<close> returns. Status columns stay strings, as in the code, which compares
  them against string literals. Columns that are null when a row is created and that no
  operation below writes are left out: close price, profit, close time and error text of
  a trade, and the raw response of an execution result.
\<close>

type_synonym uuid = string
type_synonym millis = int

record Signal =
  sig_id :: uuid
  sig_type :: string
  sig_symbol :: string
  sig_price :: "string option"
  sig_timestamp :: millis
  sig_source :: string
  sig_status :: string
  sig_errorMessage :: "string option"
  sig_indicatorType :: "string option"
  sig_entryPrice :: "string option"
  sig_stopLoss :: "string option"
  sig_takeProfit :: "string option"

record InsertSignal =
  ins_type :: string
  ins_symbol :: string
  ins_price :: "string option"
  ins_source :: "string option"
  ins_status :: "string option"
  ins_errorMessage :: "string option"
  ins_indicatorType :: "string option"
  ins_entryPrice :: "string option"
  ins_stopLoss :: "string option"
  ins_takeProfit :: "string option"

record Trade =
  trade_id :: uuid
  trade_signalId :: "string option"
  trade_symbol :: string
  trade_type :: string
  trade_volume :: string
  trade_openPrice :: "string option"
  trade_stopLoss :: "string option"
  trade_takeProfit :: "string option"
  trade_status :: string
  trade_mt5OrderId :: "string option"
  trade_mt5PositionId :: "string option"
  trade_openTime :: millis

record Mt5Command =
  cmd_id :: uuid
  cmd_action :: string
  cmd_symbol :: "string option"
  cmd_type :: "string option"
  cmd_volume :: "string option"
  cmd_stopLoss :: "string option"
  cmd_takeProfit :: "string option"
  cmd_positionId :: "string option"
  cmd_signalId :: "string option"
  cmd_status :: string
  cmd_createdAt :: millis
  cmd_sentAt :: "millis option"
  cmd_acknowledgedAt :: "millis option"
  cmd_errorMessage :: "string option"

record InsertMt5Command =
  icmd_action :: string
  icmd_symbol :: "string option"
  icmd_type :: "string option"
  icmd_volume :: "string option"
  icmd_stopLoss :: "string option"
  icmd_takeProfit :: "string option"
  icmd_positionId :: "string option"
  icmd_signalId :: "string option"
  icmd_errorMessage :: "string option"

record Mt5ExecutionResult =
  res_id :: uuid
  res_commandId :: "string option"
  res_success :: string
  res_orderId :: "string option"
  res_positionId :: "string option"
  res_executedAt :: millis
  res_errorMessage :: "string option"

record Settings =
  set_id :: string
  set_mt5ApiSecret :: "string option"
  set_accountBalance :: string
  set_autoTrade :: string
  set_lastMt5Heartbeat :: "millis option"

section \<open>The in-memory store (server/storage.ts, class MemStorage)\<close>

text \<open>
  A JavaScript \<^verbatim>\<open>Map\<close> iterates in insertion order and \<^verbatim>\<open>set\<close> on a present key keeps
  the key's place, so each map is an association list updated with \<^const>\<open>AList.update\<close>
  (replace in place, else append). The value drawn by \<^verbatim>\<open>randomUUID()\<close> and the instant
  read by \<^verbatim>\<open>new Date()\<close> are parameters of the operation that draws them.
\<close>

record MemStorage =
  signals :: "(uuid \<times> Signal) list"
  trades :: "(uuid \<times> Trade) list"
  settings :: "Settings option"
  mt5Commands :: "(uuid \<times> Mt5Command) list"
  mt5ExecutionResults :: "(uuid \<times> Mt5ExecutionResult) list"

definition emptyStorage :: MemStorage where
  "emptyStorage = \<lparr> signals = [], trades = [], settings = None, mt5Commands = [],
     mt5ExecutionResults = [] \<rparr>"

text \<open>JavaScript truthiness of a nullable string: neither null/undefined nor empty.\<close>

fun truthy :: "string option \<Rightarrow> bool" where
  "truthy None = False"
| "truthy (Some s) = (s \<noteq> [])"

text \<open>\<^verbatim>\<open>a || b\<close> on nullable strings.\<close>

definition or_else :: "string option \<Rightarrow> string option \<Rightarrow> string option" where
  "or_else a b = (if truthy a then a else b)"

definition or_default :: "string option \<Rightarrow> string \<Rightarrow> string" where
  "or_default a d = (case a of None \<Rightarrow> d | Some s \<Rightarrow> if s = [] then d else s)"

subsection \<open>Signals\<close>

definition createSignal :: "MemStorage \<Rightarrow> InsertSignal \<Rightarrow> uuid \<Rightarrow> millis \<Rightarrow> MemStorage \<times> Signal" where
  "createSignal st ins uid now =
     (let signal = \<lparr> sig_id = uid, sig_type = ins_type ins, sig_symbol = ins_symbol ins,
            sig_price = ins_price ins, sig_timestamp = now,
            sig_source = or_default (ins_source ins) ''tradingview'',
            sig_status = or_default (ins_status ins) ''pending'',
            sig_errorMessage = ins_errorMessage ins,
            sig_indicatorType = ins_indicatorType ins,
            sig_entryPrice = ins_entryPrice ins, sig_stopLoss = ins_stopLoss ins,
            sig_takeProfit = ins_takeProfit ins \<rparr>
      in (st\<lparr> signals := AList.update uid signal (signals st) \<rparr>, signal))"

text \<open>\<^verbatim>\<open>sort((a, b) => b.timestamp - a.timestamp)\<close> is a stable sort, newest first.\<close>

definition newest_first :: "Signal list \<Rightarrow> Signal list" where
  "newest_first xs = sort_key (\<lambda>s. - sig_timestamp s) xs"

definition getSignals :: "MemStorage \<Rightarrow> nat \<Rightarrow> Signal list" where
  "getSignals st limit = take limit (newest_first (map snd (signals st)))"

definition getSignalById :: "MemStorage \<Rightarrow> uuid \<Rightarrow> Signal option" where
  "getSignalById st sid = map_of (signals st) sid"

text \<open>
  The optional parameter \<^verbatim>\<open>errorMessage?: string | null\<close>: \<open>None\<close> is an omitted
  argument (the stored text is kept), \<open>Some None\<close> is \<^verbatim>\<open>null\<close>, \<open>Some (Some m)\<close> a text.
\<close>

definition updateSignalStatus ::
  "MemStorage \<Rightarrow> uuid \<Rightarrow> string \<Rightarrow> string option option \<Rightarrow> MemStorage" where
  "updateSignalStatus st sid status errorMessage =
     (case map_of (signals st) sid of
        None \<Rightarrow> st
      | Some signal \<Rightarrow>
          (let s1 = signal\<lparr> sig_status := status \<rparr>;
               s2 = (case errorMessage of None \<Rightarrow> s1
                     | Some m \<Rightarrow> s1\<lparr> sig_errorMessage := m \<rparr>)
           in st\<lparr> signals := AList.update sid s2 (signals st) \<rparr>))"

definition getPendingSignals :: "MemStorage \<Rightarrow> nat \<Rightarrow> Signal list" where
  "getPendingSignals st limit =
     take limit (newest_first (filter (\<lambda>s. sig_status s = ''pending'') (map snd (signals st))))"

subsection \<open>Trades\<close>

record InsertTrade =
  itrade_signalId :: "string option"
  itrade_symbol :: string
  itrade_type :: string
  itrade_volume :: string
  itrade_openPrice :: "string option"
  itrade_stopLoss :: "string option"
  itrade_takeProfit :: "string option"
  itrade_status :: "string option"
  itrade_mt5OrderId :: "string option"
  itrade_mt5PositionId :: "string option"

definition createTrade :: "MemStorage \<Rightarrow> InsertTrade \<Rightarrow> uuid \<Rightarrow> millis \<Rightarrow> MemStorage" where
  "createTrade st ins uid now =
     (let trade = \<lparr> trade_id = uid, trade_signalId = itrade_signalId ins,
            trade_symbol = itrade_symbol ins, trade_type = itrade_type ins,
            trade_volume = itrade_volume ins, trade_openPrice = itrade_openPrice ins,
            trade_stopLoss = itrade_stopLoss ins, trade_takeProfit = itrade_takeProfit ins,
            trade_status = or_default (itrade_status ins) ''open'',
            trade_mt5OrderId = itrade_mt5OrderId ins,
            trade_mt5PositionId = itrade_mt5PositionId ins, trade_openTime = now \<rparr>
      in st\<lparr> trades := AList.update uid trade (trades st) \<rparr>)"

subsection \<open>Settings\<close>

definition defaultSettings :: "millis option \<Rightarrow> Settings" where
  "defaultSettings hb = \<lparr> set_id = ''default'', set_mt5ApiSecret = None,
     set_accountBalance = ''10000'', set_autoTrade = ''true'', set_lastMt5Heartbeat = hb \<rparr>"

text \<open>\<^verbatim>\<open>getSettings\<close> installs the default settings when none exist, and returns them.\<close>

definition getSettings :: "MemStorage \<Rightarrow> MemStorage \<times> Settings" where
  "getSettings st =
     (case settings st of
        None \<Rightarrow> (st\<lparr> settings := Some (defaultSettings None) \<rparr>, defaultSettings None)
      | Some s \<Rightarrow> (st, s))"

definition updateMt5Heartbeat :: "MemStorage \<Rightarrow> millis \<Rightarrow> MemStorage" where
  "updateMt5Heartbeat st now =
     (case settings st of
        None \<Rightarrow> st\<lparr> settings := Some (defaultSettings (Some now)) \<rparr>
      | Some s \<Rightarrow> st\<lparr> settings := Some (s\<lparr> set_lastMt5Heartbeat := Some now \<rparr>) \<rparr>)"

subsection \<open>The command queue\<close>

definition enqueueCommand ::
  "MemStorage \<Rightarrow> InsertMt5Command \<Rightarrow> uuid \<Rightarrow> millis \<Rightarrow> MemStorage \<times> Mt5Command" where
  "enqueueCommand st ins uid now =
     (let command = \<lparr> cmd_id = uid, cmd_action = icmd_action ins, cmd_symbol = icmd_symbol ins,
            cmd_type = icmd_type ins, cmd_volume = icmd_volume ins,
            cmd_stopLoss = icmd_stopLoss ins, cmd_takeProfit = icmd_takeProfit ins,
            cmd_positionId = icmd_positionId ins, cmd_signalId = icmd_signalId ins,
            cmd_status = ''pending'', cmd_createdAt = now, cmd_sentAt = None,
            cmd_acknowledgedAt = None, cmd_errorMessage = icmd_errorMessage ins \<rparr>
      in (st\<lparr> mt5Commands := AList.update uid command (mt5Commands st) \<rparr>, command))"

definition getCommandById :: "MemStorage \<Rightarrow> uuid \<Rightarrow> Mt5Command option" where
  "getCommandById st cid = map_of (mt5Commands st) cid"

text \<open>
  The filter of \<^verbatim>\<open>retryTimedOutCommands\<close>: status \<^verbatim>\<open>sent\<close>, a sent time, and strictly
  more than 60000 ms elapsed.
\<close>

definition timeout :: int where
  "timeout = 60000"

definition timedOut :: "millis \<Rightarrow> Mt5Command \<Rightarrow> bool" where
  "timedOut now c =
     (if cmd_status c = ''sent'' \<and> cmd_sentAt c \<noteq> None
      then now - the (cmd_sentAt c) > timeout else False)"

definition failTimedOut :: "Mt5Command \<Rightarrow> Mt5Command" where
  "failTimedOut c = c\<lparr> cmd_status := ''failed'',
     cmd_errorMessage := Some ''Command timeout - no acknowledgement received'' \<rparr>"

text \<open>
  The loop sets every timed-out command, under its own key, to its failed version. Each
  command is stored under its identifier, so the loop is a map over the entries.
\<close>

fun retryLoop :: "MemStorage \<Rightarrow> Mt5Command list \<Rightarrow> MemStorage" where
  "retryLoop st [] = st"
| "retryLoop st (c # cs) =
     retryLoop (st\<lparr> mt5Commands := AList.update (cmd_id c) (failTimedOut c) (mt5Commands st) \<rparr>) cs"

definition retryTimedOutCommands :: "MemStorage \<Rightarrow> millis \<Rightarrow> MemStorage" where
  "retryTimedOutCommands st now =
     retryLoop st (filter (timedOut now) (map snd (mt5Commands st)))"

definition markCommandAsSent :: "MemStorage \<Rightarrow> uuid \<Rightarrow> millis \<Rightarrow> MemStorage" where
  "markCommandAsSent st cid now =
     (case map_of (mt5Commands st) cid of
        None \<Rightarrow> st
      | Some c \<Rightarrow> st\<lparr> mt5Commands :=
          AList.update cid (c\<lparr> cmd_status := ''sent'', cmd_sentAt := Some now \<rparr>) (mt5Commands st) \<rparr>)"

definition markCommandAsAcknowledged :: "MemStorage \<Rightarrow> uuid \<Rightarrow> millis \<Rightarrow> MemStorage" where
  "markCommandAsAcknowledged st cid now =
     (case map_of (mt5Commands st) cid of
        None \<Rightarrow> st
      | Some c \<Rightarrow> st\<lparr> mt5Commands :=
          AList.update cid (c\<lparr> cmd_status := ''acknowledged'', cmd_acknowledgedAt := Some now \<rparr>)
            (mt5Commands st) \<rparr>)"

definition markCommandAsFailed :: "MemStorage \<Rightarrow> uuid \<Rightarrow> string \<Rightarrow> MemStorage" where
  "markCommandAsFailed st cid errorMessage =
     (case map_of (mt5Commands st) cid of
        None \<Rightarrow> st
      | Some c \<Rightarrow> st\<lparr> mt5Commands :=
          AList.update cid (c\<lparr> cmd_status := ''failed'', cmd_errorMessage := Some errorMessage \<rparr>)
            (mt5Commands st) \<rparr>)"

definition getPendingCommands :: "MemStorage \<Rightarrow> Mt5Command list" where
  "getPendingCommands st =
     filter (\<lambda>c. cmd_status c = ''pending'' \<or> cmd_status c = ''sent'') (map snd (mt5Commands st))"

definition getNextPendingCommand :: "MemStorage \<Rightarrow> millis \<Rightarrow> MemStorage \<times> Mt5Command option" where
  "getNextPendingCommand st now =
     (let st1 = retryTimedOutCommands st now;
          pendingCommands = sort_key cmd_createdAt
            (filter (\<lambda>c. cmd_status c = ''pending'') (map snd (mt5Commands st1)))
      in (st1, case pendingCommands of [] \<Rightarrow> None | c # _ \<Rightarrow> Some c))"

subsection \<open>Execution results\<close>

definition createExecutionResult ::
  "MemStorage \<Rightarrow> string \<Rightarrow> string option \<Rightarrow> string option \<Rightarrow> string option \<Rightarrow> string option
     \<Rightarrow> uuid \<Rightarrow> millis \<Rightarrow> MemStorage" where
  "createExecutionResult st success commandId orderId positionId errorMessage uid now =
     (let result = \<lparr> res_id = uid, res_commandId = commandId, res_success = success,
            res_orderId = orderId, res_positionId = positionId, res_executedAt = now,
            res_errorMessage = errorMessage \<rparr>
      in st\<lparr> mt5ExecutionResults := AList.update uid result (mt5ExecutionResults st) \<rparr>)"


section \<open>The relay channel and the handlers (server/routes.ts)\<close>

text \<open>
  The message pushed to the agent. The numeric fields are \<^verbatim>\<open>parseFloat\<close> of the stored
  decimal text; the conversion itself is left uninterpreted, as a constructor.
\<close>

datatype number = parseFloat string

record WireCommand =
  w_id :: string
  w_action :: string
  w_symbol :: "string option"
  w_type :: "string option"
  w_volume :: "number option"
  w_stopLoss :: "number option"
  w_takeProfit :: "number option"
  w_positionId :: "string option"

text \<open>\<^verbatim>\<open>v ? parseFloat(v) : undefined\<close>\<close>

definition parseIfTruthy :: "string option \<Rightarrow> number option" where
  "parseIfTruthy v = (case v of None \<Rightarrow> None
     | Some s \<Rightarrow> if s = [] then None else Some (parseFloat s))"

text \<open>
  The process state of \<^verbatim>\<open>routes.ts\<close>: the store, the set \<^verbatim>\<open>mt5WsClients\<close> (a client
  handle with whether its \<^verbatim>\<open>readyState\<close> is \<^verbatim>\<open>OPEN\<close>, in insertion order) and the log
  of every \<^verbatim>\<open>client.send\<close> of a command.
\<close>

record Server =
  storage :: MemStorage
  mt5WsClients :: "(nat \<times> bool) list"
  delivered :: "(nat \<times> WireCommand) list"

definition openClients :: "Server \<Rightarrow> nat list" where
  "openClients sv = map fst (filter snd (mt5WsClients sv))"

definition sendCommandToMT5 :: "Server \<Rightarrow> WireCommand \<Rightarrow> Server \<times> bool" where
  "sendCommandToMT5 sv command =
     (sv\<lparr> delivered := delivered sv @ map (\<lambda>client. (client, command)) (openClients sv) \<rparr>,
      openClients sv \<noteq> [])"

text \<open>\<^verbatim>\<open>/^[A-Za-z0-9._-]{3,30}$/\<close>\<close>

definition symbolChar :: "char \<Rightarrow> bool" where
  "symbolChar c = (let n = (of_char c :: nat) in
     (65 \<le> n \<and> n \<le> 90) \<or> (97 \<le> n \<and> n \<le> 122) \<or> (48 \<le> n \<and> n \<le> 57)
     \<or> n = 46 \<or> n = 95 \<or> n = 45)"

definition isValidSymbol :: "string \<Rightarrow> bool" where
  "isValidSymbol symbol = (3 \<le> length symbol \<and> length symbol \<le> 30 \<and> list_all symbolChar symbol)"

subsection \<open>The webhook, from the validated signal on (routes.ts, lines 290 to 457)\<close>

text \<open>
  The input is \<^verbatim>\<open>validatedSignal\<close>: its symbol is the broker symbol that
  \<^verbatim>\<open>storage.mapSymbol\<close> resolved. One instant \<open>now\<close> stands for the clock readings of
  one run of a handler.
\<close>

datatype WebhookResponse =
    DuplicateIgnored
  | PendingMt5Connection uuid
  | InvalidSymbolFormat uuid
  | CommandAlreadyExists uuid
  | Queued uuid
  | AutoTradeDisabled uuid

definition isDuplicate :: "Signal list \<Rightarrow> InsertSignal \<Rightarrow> millis \<Rightarrow> bool" where
  "isDuplicate recentSignals validatedSignal now =
     (let sixtySecondsAgo = now - 60000 in
      list_ex (\<lambda>s. sig_symbol s = ins_symbol validatedSignal \<and>
                    sig_type s = ins_type validatedSignal \<and>
                    sig_timestamp s \<ge> sixtySecondsAgo \<and>
                    sig_status s \<noteq> ''failed'') recentSignals)"

definition tradeInsert :: "Signal \<Rightarrow> string option \<Rightarrow> string option \<Rightarrow> InsertMt5Command" where
  "tradeInsert signal slValue tpValue =
     \<lparr> icmd_action = ''TRADE'', icmd_symbol = Some (sig_symbol signal),
       icmd_type = Some (sig_type signal), icmd_volume = Some ''0.01'',
       icmd_stopLoss = slValue, icmd_takeProfit = tpValue, icmd_positionId = None,
       icmd_signalId = Some (sig_id signal), icmd_errorMessage = None \<rparr>"

definition wireOf :: "Mt5Command \<Rightarrow> string option \<Rightarrow> WireCommand" where
  "wireOf command positionId =
     \<lparr> w_id = cmd_id command, w_action = cmd_action command, w_symbol = cmd_symbol command,
       w_type = cmd_type command, w_volume = parseIfTruthy (cmd_volume command),
       w_stopLoss = parseIfTruthy (cmd_stopLoss command),
       w_takeProfit = parseIfTruthy (cmd_takeProfit command), w_positionId = positionId \<rparr>"

text \<open>
  Lines 358 to 438: the levels to send, the guard against a second command for the
  signal, the enqueue, the push and the mark.
\<close>

definition webhookEnqueue :: "Server \<Rightarrow> Signal \<Rightarrow> uuid \<Rightarrow> millis \<Rightarrow> Server \<times> WebhookResponse" where
  "webhookEnqueue sv signal cmdUid now =
     (let useIndicatorLevels = (truthy (sig_stopLoss signal) \<and> truthy (sig_takeProfit signal));
          slValue = (if useIndicatorLevels then sig_stopLoss signal else None);
          tpValue = (if useIndicatorLevels then sig_takeProfit signal else None);
          st1 = updateSignalStatus (storage sv) (sig_id signal) ''pending'' None;
          pendingCommands = getPendingCommands st1
      in case find (\<lambda>cmd. cmd_signalId cmd = Some (sig_id signal)) pendingCommands of
           Some existingCommand \<Rightarrow> (sv\<lparr> storage := st1 \<rparr>, CommandAlreadyExists (sig_id signal))
         | None \<Rightarrow>
             (let (st2, tradeCommand) = enqueueCommand st1 (tradeInsert signal slValue tpValue) cmdUid now;
                  (sv1, tradeSent) = sendCommandToMT5 (sv\<lparr> storage := st2 \<rparr>) (wireOf tradeCommand None)
              in if tradeSent
                 then (sv1\<lparr> storage := markCommandAsSent (storage sv1) (cmd_id tradeCommand) now \<rparr>,
                       Queued (sig_id signal))
                 else (sv1, Queued (sig_id signal))))"

definition isMt5Connected :: "Settings \<Rightarrow> millis \<Rightarrow> bool" where
  "isMt5Connected s now =
     (case set_lastMt5Heartbeat s of None \<Rightarrow> False | Some hb \<Rightarrow> now - hb < 90000)"

definition webhook ::
  "Server \<Rightarrow> InsertSignal \<Rightarrow> uuid \<Rightarrow> uuid \<Rightarrow> millis \<Rightarrow> Server \<times> WebhookResponse" where
  "webhook sv validatedSignal sigUid cmdUid now =
     (let recentSignals = getSignals (storage sv) 100 in
      if isDuplicate recentSignals validatedSignal now then (sv, DuplicateIgnored)
      else
        (let (st1, signal) = createSignal (storage sv) validatedSignal sigUid now;
             (st2, s) = getSettings st1
         in if set_autoTrade s = ''true'' then
              (if \<not> isMt5Connected s now then
                 (sv\<lparr> storage := updateSignalStatus st2 (sig_id signal) ''pending''
                      (Some (Some ''MT5 not connected - signal will execute when MT5 connects'')) \<rparr>,
                  PendingMt5Connection (sig_id signal))
               else if \<not> isValidSymbol (sig_symbol signal) then
                 (sv\<lparr> storage := updateSignalStatus st2 (sig_id signal) ''failed''
                      (Some (Some ''Invalid symbol format'')) \<rparr>,
                  InvalidSymbolFormat (sig_id signal))
               else webhookEnqueue (sv\<lparr> storage := st2 \<rparr>) signal cmdUid now)
            else
              (sv\<lparr> storage := updateSignalStatus st2 (sig_id signal) ''pending''
                   (Some (Some ''Auto-trade is disabled - enable it in settings to execute trades'')) \<rparr>,
               AutoTradeDisabled (sig_id signal))))"

subsection \<open>The agent connects (routes.ts, lines 614 to 717)\<close>

text \<open>Lines 643 to 662: the replay loop over \<^verbatim>\<open>commandsToResend\<close>.\<close>

fun replayLoop :: "Server \<Rightarrow> millis \<Rightarrow> Mt5Command list \<Rightarrow> Server" where
  "replayLoop sv now [] = sv"
| "replayLoop sv now (command # rest) =
     (let (sv1, sent) = sendCommandToMT5 sv (wireOf command (cmd_positionId command));
          st1 = markCommandAsSent (storage sv1) (cmd_id command) now;
          st2 = (if truthy (cmd_signalId command)
                 then updateSignalStatus st1 (the (cmd_signalId command)) ''pending''
                        (Some (Some ''Executing after MT5 reconnection''))
                 else st1)
      in replayLoop (sv1\<lparr> storage := st2 \<rparr>) now rest)"

text \<open>
  Lines 682 to 712: a command for every pending signal that has none. \<open>fresh i\<close> is the
  value of the \<open>i\<close>-th \<^verbatim>\<open>randomUUID()\<close> of the pass.
\<close>

definition retrySignal :: "Server \<Rightarrow> millis \<Rightarrow> uuid \<Rightarrow> Signal \<Rightarrow> Server" where
  "retrySignal sv now uid signal =
     (let (st1, tradeCommand) = enqueueCommand (storage sv)
             (tradeInsert signal (or_else (sig_stopLoss signal) None)
                (or_else (sig_takeProfit signal) None)) uid now;
          (sv1, sent) = sendCommandToMT5 (sv\<lparr> storage := st1 \<rparr>) (wireOf tradeCommand None)
      in if sent
         then sv1\<lparr> storage := updateSignalStatus
                (markCommandAsSent (storage sv1) (cmd_id tradeCommand) now)
                (sig_id signal) ''pending'' (Some (Some ''Executing after MT5 reconnection'')) \<rparr>
         else sv1)"

fun retrySignalsLoop :: "Server \<Rightarrow> millis \<Rightarrow> (nat \<Rightarrow> uuid) \<Rightarrow> nat \<Rightarrow> Signal list \<Rightarrow> Server" where
  "retrySignalsLoop sv now fresh i [] = sv"
| "retrySignalsLoop sv now fresh i (signal # rest) =
     retrySignalsLoop (retrySignal sv now (fresh i) signal) now fresh (Suc i) rest"

definition commandsToResend :: "MemStorage \<Rightarrow> Mt5Command list" where
  "commandsToResend st = filter (\<lambda>cmd. cmd_status cmd = ''pending'') (getPendingCommands st)"

text \<open>
  Lines 616 to 619: the new socket joins \<^verbatim>\<open>mt5WsClients\<close> (at the connection event it
  is open) and the heartbeat is updated.
\<close>

definition connectionOpen :: "Server \<Rightarrow> nat \<Rightarrow> millis \<Rightarrow> Server" where
  "connectionOpen sv ws now =
     sv\<lparr> mt5WsClients := AList.update ws True (mt5WsClients sv),
         storage := updateMt5Heartbeat (storage sv) now \<rparr>"

definition mt5Connection :: "Server \<Rightarrow> nat \<Rightarrow> millis \<Rightarrow> (nat \<Rightarrow> uuid) \<Rightarrow> Server" where
  "mt5Connection sv ws now fresh =
     (let sv0 = connectionOpen sv ws now;
          allPendingCommands = getPendingCommands (storage sv0);
          sv1 = replayLoop sv0 now (commandsToResend (storage sv0));
          pendingSignals = getPendingSignals (storage sv1) 100;
          signalsWithoutCommands = filter
            (\<lambda>signal. \<not> list_ex (\<lambda>cmd. cmd_signalId cmd = Some (sig_id signal)) allPendingCommands)
            pendingSignals;
          (st2, s) = getSettings (storage sv1);
          sv2 = sv1\<lparr> storage := st2 \<rparr>
      in if set_autoTrade s = ''true'' \<and> signalsWithoutCommands \<noteq> []
         then retrySignalsLoop sv2 now fresh 0 signalsWithoutCommands
         else sv2)"

subsection \<open>A message from the agent (routes.ts, lines 720 to 794)\<close>

record Report =
  rep_type :: "string option"
  rep_commandId :: "string option"
  rep_success :: bool
  rep_orderId :: "string option"
  rep_positionId :: "string option"
  rep_error :: "string option"

datatype Reply = NoReply | ReplyCommandNotFound | ReplySuccess

definition tradeOf :: "Mt5Command \<Rightarrow> Signal \<Rightarrow> Report \<Rightarrow> InsertTrade" where
  "tradeOf command signal report =
     \<lparr> itrade_signalId = cmd_signalId command, itrade_symbol = sig_symbol signal,
       itrade_type = sig_type signal, itrade_volume = or_default (cmd_volume command) ''0'',
       itrade_openPrice = Some (or_default (sig_price signal) ''0''),
       itrade_stopLoss = cmd_stopLoss command, itrade_takeProfit = cmd_takeProfit command,
       itrade_status = Some ''open'', itrade_mt5OrderId = rep_orderId report,
       itrade_mt5PositionId = or_else (rep_positionId report) (rep_orderId report) \<rparr>"

definition mt5Message :: "Server \<Rightarrow> Report \<Rightarrow> uuid \<Rightarrow> uuid \<Rightarrow> millis \<Rightarrow> Server \<times> Reply" where
  "mt5Message sv report resUid tradeUid now =
     (let st0 = updateMt5Heartbeat (storage sv) now in
      if rep_type report = Some ''HEARTBEAT'' then (sv\<lparr> storage := st0 \<rparr>, NoReply)
      else if \<not> truthy (rep_commandId report) then (sv\<lparr> storage := st0 \<rparr>, NoReply)
      else
        (let commandId = the (rep_commandId report) in
         case getCommandById st0 commandId of
           None \<Rightarrow> (sv\<lparr> storage := st0 \<rparr>, ReplyCommandNotFound)
         | Some command \<Rightarrow>
             (let st1 = createExecutionResult st0
                          (if rep_success report then ''true'' else ''false'')
                          (Some commandId) (or_else (rep_orderId report) None)
                          (or_else (rep_positionId report) None)
                          (or_else (rep_error report) None) resUid now;
                  st2 = markCommandAsAcknowledged st1 commandId now;
                  st3 =
                    (if truthy (cmd_signalId command) then
                       (let signalId = the (cmd_signalId command) in
                        if rep_success report \<and> truthy (rep_orderId report) then
                          (let st' = updateSignalStatus st2 signalId ''executed'' (Some None) in
                           case getSignalById st' signalId of
                             None \<Rightarrow> st'
                           | Some signal \<Rightarrow>
                               if cmd_action command = ''TRADE''
                               then createTrade st' (tradeOf command signal report) tradeUid now
                               else st')
                        else updateSignalStatus st2 signalId ''failed''
                               (Some (Some (or_default (rep_error report)
                                  ''Trade execution failed in MT5''))))
                     else st2)
              in (sv\<lparr> storage := st3 \<rparr>, ReplySuccess))))"

section \<open>The remote agent (mt5-files/TradingViewWebSocket_EA.mq5)\<close>

text \<open>
  A division by zero stops the agent with a runtime error; it is the value \<open>None\<close>. Calls
  into the trading terminal (symbol properties, the account, the open positions,
  \<^verbatim>\<open>OrderSend\<close>, the conversions between numbers and text) are not code of the repository:
  their results are the fields of a record \<open>Terminal\<close> that every function takes.
\<close>

subsection \<open>The arithmetic of \<^verbatim>\<open>double\<close>\<close>

text \<open>
  A \<^verbatim>\<open>double\<close> is a real number of the IEEE 754 binary64 format: an integer multiple of
  \<open>2 ^ (e - 52)\<close> of magnitude below \<open>2 ^ (e + 1)\<close>, with \<open>e\<close> from \<open>-1022\<close> upwards. Every
  \<^verbatim>\<open>+\<close>, \<^verbatim>\<open>-\<close>, \<^verbatim>\<open>*\<close> and \<^verbatim>\<open>/\<close> of the source returns the exact result rounded to the
  nearest such number, ties to the even multiple, and a decimal literal such as \<^verbatim>\<open>0.01\<close>
  is the nearest such number to the decimal. Not modelled: the overflow to infinity at
  \<open>2 ^ 1024\<close> and the values that are not numbers; the values the terminal hands in
  (prices, volumes, the balance, the inputs) are taken to be doubles.
\<close>

definition pow2 :: "int \<Rightarrow> real" where
  "pow2 e = (if e \<ge> 0 then 2 ^ nat e else 1 / 2 ^ nat (- e))"

text \<open>The binary exponent of a positive real: \<open>pow2 e \<le> x < pow2 (e + 1)\<close>.\<close>

definition exponent :: "real \<Rightarrow> int" where
  "exponent x = (if x \<ge> 1 then bitlen \<lfloor>x\<rfloor> - 1 else - bitlen (\<lceil>1 / x\<rceil> - 1))"

text \<open>Rounding to the nearest integer, a tie to the even one.\<close>

definition roundEven :: "real \<Rightarrow> int" where
  "roundEven y = (let f = \<lfloor>y\<rfloor>; r = y - of_int f
                  in if r < 1 / 2 then f else if r > 1 / 2 then f + 1
                     else if even f then f else f + 1)"

definition binary64 :: "real \<Rightarrow> real" where
  "binary64 x = (if x = 0 then 0
                 else (let e = max (exponent \<bar>x\<bar>) (- 1022); u = pow2 (e - 52)
                       in of_int (roundEven (x / u)) * u))"

definition dadd :: "real \<Rightarrow> real \<Rightarrow> real" where
  "dadd x y = binary64 (x + y)"

definition dsub :: "real \<Rightarrow> real \<Rightarrow> real" where
  "dsub x y = binary64 (x - y)"

definition dmul :: "real \<Rightarrow> real \<Rightarrow> real" where
  "dmul x y = binary64 (x * y)"

definition ddiv :: "real \<Rightarrow> real \<Rightarrow> real" where
  "ddiv x y = binary64 (x / y)"

subsection \<open>Requests and the terminal\<close>

datatype position_type = POSITION_TYPE_BUY | POSITION_TYPE_SELL
datatype order_type = ORDER_TYPE_BUY | ORDER_TYPE_SELL
datatype trade_action = TRADE_ACTION_ZERO | TRADE_ACTION_DEAL | TRADE_ACTION_SLTP

record SymbolInfo =
  SYMBOL_ASK :: real
  SYMBOL_BID :: real
  SYMBOL_TRADE_TICK_SIZE :: real
  SYMBOL_TRADE_TICK_VALUE :: real
  SYMBOL_POINT :: real
  SYMBOL_DIGITS :: nat
  SYMBOL_VOLUME_MIN :: real
  SYMBOL_VOLUME_MAX :: real
  SYMBOL_VOLUME_STEP :: real

record Position =
  POSITION_TICKET :: nat
  POSITION_SYMBOL :: string
  POSITION_TYPE :: position_type
  POSITION_PRICE_OPEN :: real
  POSITION_VOLUME :: real
  POSITION_COMMENT :: string

record MqlTradeRequest =
  req_action :: trade_action
  req_magic :: nat
  req_symbol :: string
  req_volume :: real
  req_price :: real
  req_sl :: real
  req_tp :: real
  req_deviation :: int
  req_type :: order_type
  req_position :: nat
  req_comment :: string

text \<open>
  \<^verbatim>\<open>MqlTradeRequest request = {}\<close>: every field zero. The filling mode, which every
  request copies from \<^verbatim>\<open>brokerFillingMode\<close>, is not a field of the record.
\<close>

definition zeroRequest :: MqlTradeRequest where
  "zeroRequest = \<lparr> req_action = TRADE_ACTION_ZERO, req_magic = 0, req_symbol = [],
     req_volume = 0, req_price = 0, req_sl = 0, req_tp = 0, req_deviation = 0,
     req_type = ORDER_TYPE_BUY, req_position = 0, req_comment = [] \<rparr>"

record MqlTradeResult =
  sendOk :: bool
  retcode :: nat
  resultOrder :: nat
  lastError :: int

definition TRADE_RETCODE_DONE :: nat where
  "TRADE_RETCODE_DONE = 10009"

record Terminal =
  SymbolInfoOf :: "string \<Rightarrow> SymbolInfo"
  symbolReady :: "string \<Rightarrow> bool"
  ACCOUNT_BALANCE :: real
  positions :: "Position list"
  positionsAfterHedging :: "Position list"
  OrderSend :: "MqlTradeRequest \<Rightarrow> MqlTradeResult"
  PositionSelectAfterClose :: "nat \<Rightarrow> bool"
  DoubleToString :: "real \<Rightarrow> nat \<Rightarrow> string"
  StringToDouble :: "string \<Rightarrow> real"
  IntegerToString :: "int \<Rightarrow> string"

text \<open>The input parameters of the agent, with their defaults.\<close>

record Inputs =
  MaxSlippagePercent :: real
  Hedging :: bool
  Pyramiding :: int
  UseRiskBasedLotSize :: bool
  RiskPercentPerTrade :: real
  FixedLotSize :: real
  UseFixedPartialExit :: bool
  PartialExitPercent :: real
  PartialExitPips :: real

definition defaultInputs :: Inputs where
  "defaultInputs = \<lparr> MaxSlippagePercent = 1 / 2, Hedging = True, Pyramiding = 1,
     UseRiskBasedLotSize = True, RiskPercentPerTrade = 1, FixedLotSize = binary64 (1 / 100),
     UseFixedPartialExit = False, PartialExitPercent = 75, PartialExitPips = 50 \<rparr>"

subsection \<open>Helpers\<close>

text \<open>\<^verbatim>\<open>MathRound\<close> rounds to the nearest integer, halves away from zero.\<close>

definition MathRound :: "real \<Rightarrow> real" where
  "MathRound x = (if x \<ge> 0 then of_int \<lfloor>x + 1 / 2\<rfloor> else - of_int \<lfloor>- x + 1 / 2\<rfloor>)"

text \<open>
  \<^verbatim>\<open>NormalizeDouble(x, digits)\<close> rounds to \<open>digits\<close> decimal places: the value is scaled by
  \<open>10 ^ digits\<close>, rounded to an integer and scaled back, each step in \<^verbatim>\<open>double\<close>.
\<close>

definition NormalizeDouble :: "real \<Rightarrow> nat \<Rightarrow> real" where
  "NormalizeDouble x digits = ddiv (MathRound (dmul x (10 ^ digits))) (10 ^ digits)"

definition NormalizePrice :: "SymbolInfo \<Rightarrow> real \<Rightarrow> real option" where
  "NormalizePrice si price =
     (let tickSize = (if SYMBOL_TRADE_TICK_SIZE si = 0 then SYMBOL_POINT si
                      else SYMBOL_TRADE_TICK_SIZE si)
      in if tickSize = 0 then None
         else Some (NormalizeDouble (dmul (MathRound (ddiv price tickSize)) tickSize)
                      (SYMBOL_DIGITS si)))"

definition NormalizeVolume :: "SymbolInfo \<Rightarrow> real \<Rightarrow> real" where
  "NormalizeVolume si volume =
     (let volumeStep = (if SYMBOL_VOLUME_STEP si = 0 then binary64 (1 / 100)
                        else SYMBOL_VOLUME_STEP si);
          v1 = dmul (MathRound (ddiv volume volumeStep)) volumeStep;
          v2 = (if v1 < SYMBOL_VOLUME_MIN si then SYMBOL_VOLUME_MIN si else v1);
          v3 = (if v2 > SYMBOL_VOLUME_MAX si then SYMBOL_VOLUME_MAX si else v2)
      in v3)"

text \<open>\<^verbatim>\<open>StringFind(s, sub)\<close>: the index of the first occurrence, or \<open>-1\<close>.\<close>

fun findFrom :: "string \<Rightarrow> string \<Rightarrow> nat \<Rightarrow> int" where
  "findFrom [] sub i = (if sub = [] then int i else - 1)"
| "findFrom (c # cs) sub i =
     (if take (length sub) (c # cs) = sub then int i else findFrom cs sub (Suc i))"

definition StringFind :: "string \<Rightarrow> string \<Rightarrow> int" where
  "StringFind s sub = findFrom s sub 0"

definition GetPipValue :: "string \<Rightarrow> real" where
  "GetPipValue symbol =
     (if StringFind symbol ''BTC'' \<ge> 0 \<or> StringFind symbol ''ETH'' \<ge> 0 \<or>
         StringFind symbol ''XRP'' \<ge> 0 \<or> StringFind symbol ''LTC'' \<ge> 0 then 1
      else if StringFind symbol ''XAU'' \<ge> 0 \<or> StringFind symbol ''GOLD'' \<ge> 0
        then binary64 (1 / 10)
      else if StringFind symbol ''XAG'' \<ge> 0 \<or> StringFind symbol ''SILVER'' \<ge> 0
        then binary64 (1 / 100)
      else if StringFind symbol ''JPY'' \<ge> 0 then binary64 (1 / 100)
      else binary64 (1 / 10000))"

definition CountPositionsForSymbol :: "Position list \<Rightarrow> string \<Rightarrow> int" where
  "CountPositionsForSymbol ps symbol =
     int (length (filter (\<lambda>p. POSITION_TICKET p > 0 \<and> POSITION_SYMBOL p = symbol) ps))"

text \<open>
  \<^verbatim>\<open>CloseOppositePositions\<close>: the close requests it sends, for the positions from the last
  index down to the first.
\<close>

definition closeRequest :: "Terminal \<Rightarrow> Position \<Rightarrow> MqlTradeRequest" where
  "closeRequest t p =
     (let ty = (if POSITION_TYPE p = POSITION_TYPE_BUY then ORDER_TYPE_SELL else ORDER_TYPE_BUY)
      in zeroRequest\<lparr> req_action := TRADE_ACTION_DEAL, req_position := POSITION_TICKET p,
           req_symbol := POSITION_SYMBOL p, req_volume := POSITION_VOLUME p, req_type := ty,
           req_price := (if ty = ORDER_TYPE_SELL then SYMBOL_BID (SymbolInfoOf t (POSITION_SYMBOL p))
                         else SYMBOL_ASK (SymbolInfoOf t (POSITION_SYMBOL p))),
           req_deviation := 10, req_magic := 123456 \<rparr>)"

definition CloseOppositePositions :: "Terminal \<Rightarrow> string \<Rightarrow> string \<Rightarrow> MqlTradeRequest list" where
  "CloseOppositePositions t symbol tradeType =
     map (closeRequest t)
       (filter (\<lambda>p. POSITION_TICKET p > 0 \<and> POSITION_SYMBOL p = symbol \<and>
                     ((tradeType = ''BUY'' \<and> POSITION_TYPE p = POSITION_TYPE_SELL) \<or>
                      (tradeType = ''SELL'' \<and> POSITION_TYPE p = POSITION_TYPE_BUY)))
          (rev (positions t)))"

subsection \<open>\<^verbatim>\<open>ExecuteTrade\<close>\<close>

text \<open>
  The outcome of one TRADE command: the close requests of the hedging step, the openOrder
  order if one was sent, and the report (success, order, position, error text), or
  \<open>None\<close> for the report when the agent stopped on a division by zero. The arguments are
  the fields that \<^verbatim>\<open>GetJsonValue\<close> and \<^verbatim>\<open>StringToDouble\<close> took from the command.
\<close>

record Execution =
  hedges :: "MqlTradeRequest list"
  openOrder :: "MqlTradeRequest option"
  sentReport :: "(bool \<times> string \<times> string \<times> string) option"

definition failReport :: "MqlTradeRequest list \<Rightarrow> string \<Rightarrow> Execution" where
  "failReport hs error = \<lparr> hedges = hs, openOrder = None, sentReport = Some (False, [], [], error) \<rparr>"

definition zeroDivide :: "MqlTradeRequest list \<Rightarrow> Execution" where
  "zeroDivide hs = \<lparr> hedges = hs, openOrder = None, sentReport = None \<rparr>"

text \<open>\<^verbatim>\<open>(ulong)\<close> of a real: truncated towards zero, modulo \<open>2 ^ 64\<close>.\<close>

definition to_ulong :: "real \<Rightarrow> int" where
  "to_ulong x = (if x \<ge> 0 then \<lfloor>x\<rfloor> else \<lceil>x\<rceil>) mod 2 ^ 64"

text \<open>Lines 824 to 864: the lot size; \<open>None\<close> is a division by zero.\<close>

definition lotSize :: "Inputs \<Rightarrow> Terminal \<Rightarrow> SymbolInfo \<Rightarrow> real \<Rightarrow> real \<Rightarrow> real \<Rightarrow> real option" where
  "lotSize inp t si pipValue currentPrice stopLoss =
     (if UseRiskBasedLotSize inp \<and> stopLoss > 0 then
        (let slDistance = \<bar>dsub currentPrice stopLoss\<bar>;
             slPips = ddiv slDistance pipValue;
             riskAmount = dmul (ACCOUNT_BALANCE t) (ddiv (RiskPercentPerTrade inp) 100)
         in if SYMBOL_TRADE_TICK_SIZE si = 0 then None
            else
              (let pipValuePerLot =
                     dmul (ddiv (SYMBOL_TRADE_TICK_VALUE si) (SYMBOL_TRADE_TICK_SIZE si)) pipValue
               in if dmul slPips pipValuePerLot = 0 then None
                  else Some (NormalizeVolume si
                         (NormalizeVolume si (ddiv riskAmount (dmul slPips pipValuePerLot))))))
      else Some (NormalizeVolume si (FixedLotSize inp)))"

text \<open>Lines 896 to 919: the openOrder order.\<close>

definition openRequest ::
  "Inputs \<Rightarrow> Terminal \<Rightarrow> SymbolInfo \<Rightarrow> string \<Rightarrow> string \<Rightarrow> real \<Rightarrow> real \<Rightarrow> real \<Rightarrow> real
     \<Rightarrow> MqlTradeRequest" where
  "openRequest inp t si symbol type volume currentPrice stopLoss takeProfit =
     zeroRequest\<lparr> req_action := TRADE_ACTION_DEAL, req_symbol := symbol, req_volume := volume,
       req_type := (if type = ''BUY'' then ORDER_TYPE_BUY else ORDER_TYPE_SELL),
       req_price := currentPrice, req_sl := stopLoss,
       req_tp := 0,
       req_comment := ''TradingView'' @
         (if takeProfit > 0 then ''|TP1:'' @ DoubleToString t takeProfit 5 else []),
       req_deviation := to_ulong
         (ddiv (ddiv (dmul currentPrice (MaxSlippagePercent inp)) 100) (SYMBOL_POINT si)),
       req_magic := 123456 \<rparr>"

text \<open>Lines 858 to 941: the checks of the volume and of the levels, and the order.\<close>

definition placeOrder ::
  "Inputs \<Rightarrow> Terminal \<Rightarrow> SymbolInfo \<Rightarrow> MqlTradeRequest list \<Rightarrow> string \<Rightarrow> string \<Rightarrow> real
     \<Rightarrow> real \<Rightarrow> real \<Rightarrow> real \<Rightarrow> Execution" where
  "placeOrder inp t si hs symbol type volume currentPrice stopLoss takeProfit =
     (if volume \<le> 0 then failReport hs ''Invalid calculated volume''
      else if type = ''BUY'' \<and> stopLoss > 0 \<and> stopLoss \<ge> currentPrice
        then failReport hs ''Invalid SL for BUY''
      else if type = ''BUY'' \<and> takeProfit > 0 \<and> takeProfit \<le> currentPrice
        then failReport hs ''Invalid TP for BUY''
      else if type \<noteq> ''BUY'' \<and> stopLoss > 0 \<and> stopLoss \<le> currentPrice
        then failReport hs ''Invalid SL for SELL''
      else if type \<noteq> ''BUY'' \<and> takeProfit > 0 \<and> takeProfit \<ge> currentPrice
        then failReport hs ''Invalid TP for SELL''
      else if SYMBOL_POINT si = 0 then zeroDivide hs
      else
        (let request = openRequest inp t si symbol type volume currentPrice stopLoss takeProfit;
             result = OrderSend t request
         in \<lparr> hedges = hs, openOrder = Some request,
              sentReport = Some
                (if \<not> sendOk result
                 then (False, [], [], ''OrderSend failed: '' @ IntegerToString t (lastError result))
                 else if retcode result \<noteq> TRADE_RETCODE_DONE
                 then (False, [], [], ''Trade failed: retcode='' @
                         IntegerToString t (int (retcode result)))
                 else (True, IntegerToString t (int (resultOrder result)),
                         IntegerToString t (int (resultOrder result)), [])) \<rparr>))"

text \<open>Lines 805 to 856: the price, the normalised levels and the lot size.\<close>

definition priceAndSize ::
  "Inputs \<Rightarrow> Terminal \<Rightarrow> MqlTradeRequest list \<Rightarrow> string \<Rightarrow> string \<Rightarrow> real \<Rightarrow> real \<Rightarrow> Execution" where
  "priceAndSize inp t hs symbol type stopLoss0 takeProfit0 =
     (let si = SymbolInfoOf t symbol;
          currentPrice = (if type = ''BUY'' then SYMBOL_ASK si else SYMBOL_BID si);
          pipValue = GetPipValue symbol
      in case (if stopLoss0 > 0 then NormalizePrice si stopLoss0 else Some stopLoss0) of
           None \<Rightarrow> zeroDivide hs
         | Some stopLoss \<Rightarrow>
             (case (if takeProfit0 > 0 then NormalizePrice si takeProfit0 else Some takeProfit0) of
                None \<Rightarrow> zeroDivide hs
              | Some takeProfit \<Rightarrow>
                  (case lotSize inp t si pipValue currentPrice stopLoss of
                     None \<Rightarrow> zeroDivide hs
                   | Some volume \<Rightarrow>
                       placeOrder inp t si hs symbol type volume currentPrice stopLoss takeProfit)))"

definition ExecuteTrade ::
  "Inputs \<Rightarrow> Terminal \<Rightarrow> string \<Rightarrow> string \<Rightarrow> real \<Rightarrow> real \<Rightarrow> Execution" where
  "ExecuteTrade inp t symbol type stopLoss0 takeProfit0 =
     (if symbol = [] \<or> type = [] then failReport [] ''Missing symbol or type''
      else if \<not> symbolReady t symbol then failReport [] (''Symbol not available: '' @ symbol)
      else
        (let hs = (if Hedging inp then CloseOppositePositions t symbol type else []);
             currentPositions = CountPositionsForSymbol (positionsAfterHedging t) symbol
         in if currentPositions \<ge> Pyramiding inp
            then failReport hs (''Max positions reached for '' @ symbol @ '' (limit: '' @
                   IntegerToString t (Pyramiding inp) @ '')'')
            else priceAndSize inp t hs symbol type stopLoss0 takeProfit0))"

subsection \<open>\<^verbatim>\<open>ManagePartialExits\<close>\<close>

definition GetTP1FromComment :: "Terminal \<Rightarrow> string \<Rightarrow> real" where
  "GetTP1FromComment t comment =
     (let startPos = StringFind comment ''|TP1:''
      in if startPos < 0 then 0
         else StringToDouble t (drop (nat (startPos + 5)) comment))"

text \<open>The two tracking arrays, and the requests sent so far.\<close>

record Tracking =
  partialExitedPositions :: "nat list"
  breakEvenPositions :: "nat list"
  requests :: "MqlTradeRequest list"

definition IsPositionTracked :: "nat \<Rightarrow> nat list \<Rightarrow> bool" where
  "IsPositionTracked ticket trackingArray = (ticket \<in> set trackingArray)"

definition AddPositionToTracking :: "nat \<Rightarrow> nat list \<Rightarrow> nat list" where
  "AddPositionToTracking ticket trackingArray = trackingArray @ [ticket]"

definition accepted :: "MqlTradeResult \<Rightarrow> bool" where
  "accepted r = (sendOk r \<and> retcode r = TRADE_RETCODE_DONE)"

text \<open>
  Lines 1107 to 1170: after a partial close, the second target and the break-even stop,
  sent in one modify request.
\<close>

definition stageTwo ::
  "Inputs \<Rightarrow> Terminal \<Rightarrow> Tracking \<Rightarrow> Position \<Rightarrow> real \<Rightarrow> real \<Rightarrow> Tracking option" where
  "stageTwo inp t tr p tp1Price pipValue =
     (let si = SymbolInfoOf t (POSITION_SYMBOL p);
          openPrice = POSITION_PRICE_OPEN p;
          buy = (POSITION_TYPE p = POSITION_TYPE_BUY);
          newTP =
            (if tp1Price > 0 then
               (let tpDistance = (if buy then dsub tp1Price openPrice else dsub openPrice tp1Price)
                in NormalizePrice si (if buy then dadd openPrice (dmul 2 tpDistance)
                                      else dsub openPrice (dmul 2 tpDistance)))
             else if UseFixedPartialExit inp then
               (let tp2Distance = dmul (dmul (PartialExitPips inp) 2) pipValue
                in NormalizePrice si (if buy then dadd openPrice tp2Distance
                                      else dsub openPrice tp2Distance))
             else Some 0)
      in case (newTP, NormalizePrice si openPrice) of
           (Some tp, Some newSL) \<Rightarrow>
             (let modifyRequest = zeroRequest\<lparr> req_action := TRADE_ACTION_SLTP,
                    req_position := POSITION_TICKET p, req_symbol := POSITION_SYMBOL p,
                    req_sl := newSL, req_tp := tp \<rparr>;
                  tr1 = tr\<lparr> requests := requests tr @ [modifyRequest] \<rparr>
              in Some (if accepted (OrderSend t modifyRequest)
                       then tr1\<lparr> breakEvenPositions :=
                              AddPositionToTracking (POSITION_TICKET p) (breakEvenPositions tr1) \<rparr>
                       else tr1))
         | _ \<Rightarrow> None)"

text \<open>The body of the loop of \<^verbatim>\<open>ManagePartialExits\<close> for one position.\<close>

definition managePosition :: "Inputs \<Rightarrow> Terminal \<Rightarrow> Tracking \<Rightarrow> Position \<Rightarrow> Tracking option" where
  "managePosition inp t tr p =
     (if \<not> POSITION_TICKET p > 0 then Some tr
      else if IsPositionTracked (POSITION_TICKET p) (partialExitedPositions tr) then Some tr
      else
        (let symbol = POSITION_SYMBOL p;
             si = SymbolInfoOf t symbol;
             buy = (POSITION_TYPE p = POSITION_TYPE_BUY);
             openPrice = POSITION_PRICE_OPEN p;
             currentPrice = (if buy then SYMBOL_BID si else SYMBOL_ASK si);
             volume = POSITION_VOLUME p;
             pipValue = GetPipValue symbol;
             priceDiff = (if buy then dsub currentPrice openPrice else dsub openPrice currentPrice);
             profitPips = ddiv priceDiff pipValue;
             tp1Price = (if UseFixedPartialExit inp then 0
                         else GetTP1FromComment t (POSITION_COMMENT p));
             exitTriggerPips =
               (if UseFixedPartialExit inp then PartialExitPips inp
                else ddiv (if buy then dsub tp1Price openPrice else dsub openPrice tp1Price)
                       pipValue)
         in if \<not> UseFixedPartialExit inp \<and> \<not> tp1Price > 0 then Some tr
            else if exitTriggerPips > 0 \<and> profitPips \<ge> exitTriggerPips then
              (let exitVolume =
                     NormalizeVolume si (ddiv (dmul volume (PartialExitPercent inp)) 100)
               in if exitVolume > 0 \<and> exitVolume < volume then
                    (let request = zeroRequest\<lparr> req_action := TRADE_ACTION_DEAL,
                           req_position := POSITION_TICKET p, req_symbol := symbol,
                           req_volume := exitVolume,
                           req_type := (if buy then ORDER_TYPE_SELL else ORDER_TYPE_BUY),
                           req_price := currentPrice, req_deviation := 10,
                           req_magic := 123456, req_comment := ''Partial Exit'' \<rparr>;
                         tr1 = tr\<lparr> requests := requests tr @ [request] \<rparr>
                     in if accepted (OrderSend t request) then
                          (let tr2 = tr1\<lparr> partialExitedPositions :=
                                 AddPositionToTracking (POSITION_TICKET p) (partialExitedPositions tr1) \<rparr>
                           in if PositionSelectAfterClose t (POSITION_TICKET p)
                              then stageTwo inp t tr2 p tp1Price pipValue
                              else Some tr2)
                        else Some tr1)
                  else Some tr)
            else Some tr))"

text \<open>The loop over the open positions; a runtime error ends it.\<close>

fun ManagePartialExits :: "Inputs \<Rightarrow> Terminal \<Rightarrow> Tracking \<Rightarrow> Position list \<Rightarrow> Tracking option" where
  "ManagePartialExits inp t tr [] = Some tr"
| "ManagePartialExits inp t tr (p # ps) =
     (case managePosition inp t tr p of
        None \<Rightarrow> None
      | Some tr1 \<Rightarrow> ManagePartialExits inp t tr1 ps)"

section \<open>Well-formed stores and example states\<close>

text \<open>
  Every command is stored under its own identifier, once: \<^verbatim>\<open>enqueueCommand\<close> is the only
  writer of a new key, and the key is the command's \<^verbatim>\<open>id\<close>.
\<close>

definition wf_commands :: "MemStorage \<Rightarrow> bool" where
  "wf_commands st = (distinct (map fst (mt5Commands st)) \<and>
     list_all (\<lambda>(k, c). cmd_id c = k) (mt5Commands st))"

definition exampleInsert :: "string \<Rightarrow> InsertMt5Command" where
  "exampleInsert sid = \<lparr> icmd_action = ''TRADE'', icmd_symbol = Some ''EURUSD'',
     icmd_type = Some ''BUY'', icmd_volume = Some ''0.01'', icmd_stopLoss = Some ''1.08500'',
     icmd_takeProfit = Some ''1.08800'', icmd_positionId = None, icmd_signalId = Some sid,
     icmd_errorMessage = None \<rparr>"

text \<open>Two commands, sent at 1000 ms and at 1002 ms.\<close>

definition sweepExample :: MemStorage where
  "sweepExample =
     markCommandAsSent
       (fst (enqueueCommand
          (markCommandAsSent (fst (enqueueCommand emptyStorage (exampleInsert ''s1'') ''c1'' 0))
             ''c1'' 1000)
          (exampleInsert ''s2'') ''c2'' 1001))
       ''c2'' 1002"

text \<open>Three commands in creation order: pending, sent, pending; no client connected.\<close>

definition replayExample :: Server where
  "replayExample =
     \<lparr> storage =
         fst (enqueueCommand
           (markCommandAsSent
              (fst (enqueueCommand
                 (fst (enqueueCommand emptyStorage (exampleInsert ''s1'') ''c1'' 0))
                 (exampleInsert ''s2'') ''c2'' 10))
              ''c2'' 11)
           (exampleInsert ''s3'') ''c3'' 20),
       mt5WsClients = [], delivered = [] \<rparr>"

text \<open>The server before any request: an empty store, no client.\<close>

definition emptyServer :: Server where
  "emptyServer = \<lparr> storage = emptyStorage, mt5WsClients = [], delivered = [] \<rparr>"

text \<open>The signal of the scenario: BUY EURUSD, stop 1.08500, target 1.08800.\<close>

definition exampleSignal :: InsertSignal where
  "exampleSignal = \<lparr> ins_type = ''BUY'', ins_symbol = ''EURUSD'', ins_price = None,
     ins_source = Some ''tradingview'', ins_status = Some ''pending'', ins_errorMessage = None,
     ins_indicatorType = None, ins_entryPrice = None, ins_stopLoss = Some ''1.08500'',
     ins_takeProfit = Some ''1.08800'' \<rparr>"

subsection \<open>Sequences of queue operations\<close>

datatype StoreOp =
    Enqueue InsertMt5Command uuid millis
  | MarkSent uuid millis
  | MarkAcknowledged uuid millis
  | MarkFailed uuid string
  | RetryTimedOut millis

fun applyOp :: "MemStorage \<Rightarrow> StoreOp \<Rightarrow> MemStorage" where
  "applyOp st (Enqueue ins uid now) = fst (enqueueCommand st ins uid now)"
| "applyOp st (MarkSent cid now) = markCommandAsSent st cid now"
| "applyOp st (MarkAcknowledged cid now) = markCommandAsAcknowledged st cid now"
| "applyOp st (MarkFailed cid m) = markCommandAsFailed st cid m"
| "applyOp st (RetryTimedOut now) = retryTimedOutCommands st now"

definition applyOps :: "MemStorage \<Rightarrow> StoreOp list \<Rightarrow> MemStorage" where
  "applyOps st ops = foldl applyOp st ops"

text \<open>An enqueue whose drawn identifier is \<open>cid\<close> (a collision of \<^verbatim>\<open>randomUUID()\<close>).\<close>

fun enqueuesUnder :: "uuid \<Rightarrow> StoreOp \<Rightarrow> bool" where
  "enqueuesUnder cid (Enqueue ins uid now) = (uid = cid)"
| "enqueuesUnder cid _ = False"

definition leftPending :: "string \<Rightarrow> bool" where
  "leftPending status = (status = ''sent'' \<or> status = ''acknowledged'' \<or> status = ''failed'')"

subsection \<open>One live command per signal\<close>

text \<open>
  The signals referenced by the commands that are pending or sent, each at most once.
\<close>

definition oneActivePerSignal :: "MemStorage \<Rightarrow> bool" where
  "oneActivePerSignal st = distinct (List.map_filter cmd_signalId (getPendingCommands st))"

text \<open>A sequence of attempts of the webhook to enqueue: the signal, the drawn identifier, the time.\<close>

fun webhookEnqueueAll :: "Server \<Rightarrow> (Signal \<times> uuid \<times> millis) list \<Rightarrow> Server" where
  "webhookEnqueueAll sv [] = sv"
| "webhookEnqueueAll sv ((signal, cmdUid, now) # rest) =
     webhookEnqueueAll (fst (webhookEnqueue sv signal cmdUid now)) rest"

text \<open>The server after one signal arrived at 1000 ms with no agent connected.\<close>

definition firstSignalServer :: Server where
  "firstSignalServer = fst (webhook emptyServer exampleSignal ''s1'' ''c1'' 1000)"

text \<open>The command that the webhook enqueues for a signal (lines 361 to 418).\<close>

definition newCommand :: "Signal \<Rightarrow> uuid \<Rightarrow> millis \<Rightarrow> Mt5Command" where
  "newCommand signal uid now =
     snd (enqueueCommand emptyStorage
       (tradeInsert signal
          (if truthy (sig_stopLoss signal) \<and> truthy (sig_takeProfit signal)
           then sig_stopLoss signal else None)
          (if truthy (sig_stopLoss signal) \<and> truthy (sig_takeProfit signal)
           then sig_takeProfit signal else None)) uid now)"

text \<open>A command that was enqueued, sent and acknowledged.\<close>

definition acknowledgedExample :: MemStorage where
  "acknowledgedExample = applyOps emptyStorage
     [Enqueue (exampleInsert ''s1'') ''c1'' 0, MarkSent ''c1'' 1, MarkAcknowledged ''c1'' 2]"

text \<open>Two calls of \<^verbatim>\<open>enqueueCommand\<close> for the same signal.\<close>

definition doubleEnqueue :: "MemStorage \<times> Mt5Command" where
  "doubleEnqueue = enqueueCommand
     (fst (enqueueCommand emptyStorage (exampleInsert ''s1'') ''c1'' 0))
     (exampleInsert ''s1'') ''c2'' 1"

text \<open>The signal of the scenario as stored under identifier \<open>sid\<close>.\<close>

definition storedSignal :: "uuid \<Rightarrow> Signal" where
  "storedSignal sid = snd (createSignal emptyStorage exampleSignal sid 0)"

subsection \<open>Reports for a command that exists\<close>

text \<open>
  The report is an execution report (not a heartbeat) whose \<^verbatim>\<open>commandId\<close> is \<open>cid\<close>, and
  the store holds \<open>command\<close> under \<open>cid\<close>.
\<close>

definition reportKnown :: "Server \<Rightarrow> Report \<Rightarrow> uuid \<Rightarrow> Mt5Command \<Rightarrow> bool" where
  "reportKnown sv report cid command =
     (rep_type report \<noteq> Some ''HEARTBEAT'' \<and> rep_commandId report = Some cid \<and> cid \<noteq> []
      \<and> getCommandById (storage sv) cid = Some command)"

text \<open>
  A run: the agent (client 7) connects at 500 ms, the scenario's signal arrives at
  1000 ms and its command is sent; then reports arrive.
\<close>

definition connectedServer :: Server where
  "connectedServer = connectionOpen emptyServer 7 500"

definition tradeQueued :: Server where
  "tradeQueued = fst (webhook connectedServer exampleSignal ''s1'' ''c1'' 1000)"

definition successReport :: Report where
  "successReport = \<lparr> rep_type = None, rep_commandId = Some ''c1'', rep_success = True,
     rep_orderId = Some ''555'', rep_positionId = Some ''555'', rep_error = None \<rparr>"

definition failureReport :: Report where
  "failureReport = \<lparr> rep_type = None, rep_commandId = Some ''c1'', rep_success = False,
     rep_orderId = None, rep_positionId = None, rep_error = Some ''Invalid SL for BUY'' \<rparr>"

definition afterFirstReport :: Server where
  "afterFirstReport = fst (mt5Message tradeQueued successReport ''r1'' ''t1'' 2000)"

definition afterSecondReport :: Server where
  "afterSecondReport = fst (mt5Message afterFirstReport successReport ''r2'' ''t2'' 9000)"

definition afterFailure :: Server where
  "afterFailure = fst (mt5Message tradeQueued failureReport ''r1'' ''t1'' 2000)"

subsection \<open>The command of a retried signal\<close>

text \<open>The command that the connection handler enqueues for a pending signal.\<close>

definition retryCommand :: "Signal \<Rightarrow> uuid \<Rightarrow> millis \<Rightarrow> Mt5Command" where
  "retryCommand signal uid now =
     snd (enqueueCommand emptyStorage
       (tradeInsert signal (or_else (sig_stopLoss signal) None)
          (or_else (sig_takeProfit signal) None)) uid now)"

definition asSent :: "Mt5Command \<Rightarrow> millis \<Rightarrow> Mt5Command" where
  "asSent c now = c\<lparr> cmd_status := ''sent'', cmd_sentAt := Some now \<rparr>"

text \<open>The scenario: the signal arrives at 1000 ms with no agent, the agent connects at 5000 ms.\<close>

definition scenarioIngested :: Server where
  "scenarioIngested = fst (webhook emptyServer exampleSignal ''s1'' ''c0'' 1000)"

definition scenarioConnected :: Server where
  "scenarioConnected = mt5Connection scenarioIngested 7 5000 (\<lambda>i. replicate (Suc i) CHR ''u'')"

text \<open>The signal as the webhook leaves it when the agent is not connected.\<close>

definition notConnectedText :: string where
  "notConnectedText = ''MT5 not connected - signal will execute when MT5 connects''"

definition ingestedSignal :: "InsertSignal \<Rightarrow> uuid \<Rightarrow> millis \<Rightarrow> Signal" where
  "ingestedSignal v sigUid now =
     (snd (createSignal emptyStorage v sigUid now))
       \<lparr> sig_status := ''pending'', sig_errorMessage := Some notConnectedText \<rparr>"

subsection \<open>An example terminal\<close>

text \<open>
  EURUSD on a five-digit broker: tick 0.00001, lots from 0.01 to 100 in steps of 0.01,
  every decimal as the nearest \<^verbatim>\<open>double\<close>. The terminal accepts every order, and prints and
  reads the two prices of the examples.
\<close>

definition exampleSymbol :: "real \<Rightarrow> real \<Rightarrow> SymbolInfo" where
  "exampleSymbol ask bid = \<lparr> SYMBOL_ASK = ask, SYMBOL_BID = bid,
     SYMBOL_TRADE_TICK_SIZE = binary64 (1 / 100000), SYMBOL_TRADE_TICK_VALUE = 1,
     SYMBOL_POINT = binary64 (1 / 100000), SYMBOL_DIGITS = 5,
     SYMBOL_VOLUME_MIN = binary64 (1 / 100), SYMBOL_VOLUME_MAX = 100,
     SYMBOL_VOLUME_STEP = binary64 (1 / 100) \<rparr>"

definition exampleTerminal :: "real \<Rightarrow> real \<Rightarrow> Terminal" where
  "exampleTerminal ask bid = \<lparr> SymbolInfoOf = (\<lambda>symbol. exampleSymbol ask bid),
     symbolReady = (\<lambda>symbol. True), ACCOUNT_BALANCE = 10000, positions = [],
     positionsAfterHedging = [],
     OrderSend = (\<lambda>request. \<lparr> sendOk = True, retcode = 10009, resultOrder = 555, lastError = 0 \<rparr>),
     PositionSelectAfterClose = (\<lambda>ticket. True),
     DoubleToString = (\<lambda>x digits. if x = binary64 (1088 / 1000) then ''1.08800'' else ''1.10500''),
     StringToDouble = (\<lambda>s. if s = ''1.10500'' then binary64 (1105 / 1000) else 0),
     IntegerToString = (\<lambda>n. if n = 555 then ''555'' else ''0'') \<rparr>"

text \<open>A long position opened at 1.10000 with first target 1.10500 in its comment.\<close>

definition examplePosition :: "real \<Rightarrow> Position" where
  "examplePosition volume = \<lparr> POSITION_TICKET = 555, POSITION_SYMBOL = ''EURUSD'',
     POSITION_TYPE = POSITION_TYPE_BUY, POSITION_PRICE_OPEN = binary64 (11 / 10),
     POSITION_VOLUME = volume, POSITION_COMMENT = ''TradingView|TP1:1.10500'' \<rparr>"


text \<open>The level that \<^verbatim>\<open>ExecuteTrade\<close> works with: normalised when it is positive.\<close>

definition usedLevel :: "SymbolInfo \<Rightarrow> real \<Rightarrow> real option" where
  "usedLevel si level = (if level > 0 then NormalizePrice si level else Some level)"

text \<open>The scenario's TRADE command, executed at ask 1.08650 and bid 1.08640.\<close>

definition exampleExecution :: Execution where
  "exampleExecution =
     ExecuteTrade defaultInputs
       (exampleTerminal (binary64 (108650 / 100000)) (binary64 (108640 / 100000)))
       ''EURUSD'' ''BUY'' (binary64 (1085 / 1000)) (binary64 (1088 / 1000))"

subsection \<open>The quantities of the staged exit\<close>

text \<open>
  The profit of a position in pips as \<^verbatim>\<open>ManagePartialExits\<close> computes it (lines 1041 to
  1043): the difference between the price the position can be closed at and the open
  price, divided by the pip size, each step in \<^verbatim>\<open>double\<close>.
\<close>

definition profitPips :: "Terminal \<Rightarrow> Position \<Rightarrow> real" where
  "profitPips t p =
     ddiv (if POSITION_TYPE p = POSITION_TYPE_BUY
           then dsub (SYMBOL_BID (SymbolInfoOf t (POSITION_SYMBOL p))) (POSITION_PRICE_OPEN p)
           else dsub (POSITION_PRICE_OPEN p) (SYMBOL_ASK (SymbolInfoOf t (POSITION_SYMBOL p))))
       (GetPipValue (POSITION_SYMBOL p))"

text \<open>
  The first-stage distance of a position as a price difference (lines 1061 and 1110):
  from the open price to the target in the comment.
\<close>

definition stageOneDistance :: "Terminal \<Rightarrow> Position \<Rightarrow> real" where
  "stageOneDistance t p =
     (if POSITION_TYPE p = POSITION_TYPE_BUY
      then dsub (GetTP1FromComment t (POSITION_COMMENT p)) (POSITION_PRICE_OPEN p)
      else dsub (POSITION_PRICE_OPEN p) (GetTP1FromComment t (POSITION_COMMENT p)))"

text \<open>
  The first-stage trigger in pips (lines 1049 to 1070): the fixed number of pips, or the
  first-stage distance divided by the pip size.
\<close>

definition exitTriggerPips :: "Inputs \<Rightarrow> Terminal \<Rightarrow> Position \<Rightarrow> real" where
  "exitTriggerPips inp t p =
     (if UseFixedPartialExit inp then PartialExitPips inp
      else ddiv (stageOneDistance t p) (GetPipValue (POSITION_SYMBOL p)))"



text \<open>The exit volume (line 1075).\<close>

definition exitVolume :: "Inputs \<Rightarrow> Terminal \<Rightarrow> Position \<Rightarrow> real" where
  "exitVolume inp t p =
     NormalizeVolume (SymbolInfoOf t (POSITION_SYMBOL p))
       (ddiv (dmul (POSITION_VOLUME p) (PartialExitPercent inp)) 100)"


text \<open>The market when the long position has reached its first target: bid 1.10500.\<close>

definition targetReached :: Terminal where
  "targetReached = exampleTerminal (binary64 (11051 / 10000)) (binary64 (1105 / 1000))"


subsection \<open>A busy minute\<close>

text \<open>
  One hundred symbols other than EURUSD. After the scenario's signal (BUY EURUSD at
  1000 ms) a signal for each of them is stored, 10 ms apart from 1010 ms to 2000 ms.
\<close>

definition crowdSymbols :: "string list" where
  "crowdSymbols = concat (map (\<lambda>a. map (\<lambda>b. a @ b)
       [''JPY'', ''HUF'', ''PLN'', ''CZK'', ''MXN'', ''ZAR'', ''TRY'', ''SGD'', ''HKD'', ''CNH''])
       [''EUR'', ''GBP'', ''AUD'', ''NZD'', ''USD'', ''CAD'', ''CHF'', ''SEK'', ''NOK'', ''DKK''])"

fun createAll :: "MemStorage \<Rightarrow> millis \<Rightarrow> string list \<Rightarrow> MemStorage" where
  "createAll st t [] = st"
| "createAll st t (symbol # rest) =
     createAll (fst (createSignal st (exampleSignal\<lparr> ins_symbol := symbol \<rparr>) symbol t))
       (t + 10) rest"

text \<open>The entries that \<^verbatim>\<open>createSignal\<close> adds for the symbols.\<close>

fun created :: "millis \<Rightarrow> string list \<Rightarrow> (uuid \<times> Signal) list" where
  "created t [] = []"
| "created t (symbol # rest) =
     (symbol, snd (createSignal emptyStorage (exampleSignal\<lparr> ins_symbol := symbol \<rparr>) symbol t))
       # created (t + 10) rest"

definition crowded :: Server where
  "crowded = firstSignalServer\<lparr> storage :=
     createAll (storage firstSignalServer) 1010 crowdSymbols \<rparr>"

text \<open>
  The four conditions of the claim on a stored signal \<open>S1\<close> and a new signal \<open>S2\<close>
  arriving at \<open>now\<close>: same resolved symbol, same direction, at most 60000 ms apart, and
  \<open>S1\<close> not failed.
\<close>

definition matches :: "Signal \<Rightarrow> InsertSignal \<Rightarrow> millis \<Rightarrow> bool" where
  "matches s1 s2 now =
     (sig_symbol s1 = ins_symbol s2 \<and> sig_type s1 = ins_type s2 \<and>
      now - sig_timestamp s1 \<le> 60000 \<and> sig_status s1 \<noteq> ''failed'')"

subsection \<open>The history of the queue\<close>

text \<open>
  The identifier and the clock reading of every enqueue in a sequence of queue
  operations, in the order of the sequence.
\<close>

fun enqueuedBy :: "StoreOp \<Rightarrow> (uuid \<times> millis) list" where
  "enqueuedBy (Enqueue ins uid now) = [(uid, now)]"
| "enqueuedBy _ = []"

definition enqueued :: "StoreOp list \<Rightarrow> (uuid \<times> millis) list" where
  "enqueued ops = concat (map enqueuedBy ops)"

text \<open>The identifier and the creation time of the commands of the queue, in queue order.\<close>

definition queueOrder :: "(uuid \<times> Mt5Command) list \<Rightarrow> (uuid \<times> millis) list" where
  "queueOrder xs = map (\<lambda>c. (cmd_id c, cmd_createdAt c)) (map snd xs)"

text \<open>The operations that built the queue of \<open>replayExample\<close>.\<close>

definition replayHistory :: "StoreOp list" where
  "replayHistory = [Enqueue (exampleInsert ''s1'') ''c1'' 0, Enqueue (exampleInsert ''s2'') ''c2'' 10,
     MarkSent ''c2'' 11, Enqueue (exampleInsert ''s3'') ''c3'' 20]"

text \<open>
  Two commands enqueued while the wall clock was set back in between: the first at
  5000 ms, the second at 4000 ms. Client 3 is connected and open.
\<close>

definition clockBack :: Server where
  "clockBack = \<lparr> storage = applyOps emptyStorage
       [Enqueue (exampleInsert ''s1'') ''c1'' 5000, Enqueue (exampleInsert ''s2'') ''c2'' 4000],
     mt5WsClients = [(3, True)], delivered = [] \<rparr>"

subsection \<open>The agent's socket is closed, its last heartbeat is recent\<close>

text \<open>
  The agent sent its last heartbeat at 500 ms and its socket has closed since: no client
  is in \<^verbatim>\<open>mt5WsClients\<close>. The scenario's signal arrives at 1000 ms, the agent connects
  again at 5000 ms.
\<close>

definition droppedServer :: Server where
  "droppedServer = emptyServer\<lparr> storage := updateMt5Heartbeat emptyStorage 500 \<rparr>"

definition droppedIngested :: Server where
  "droppedIngested = fst (webhook droppedServer exampleSignal ''s1'' ''c1'' 1000)"

definition droppedConnected :: Server where
  "droppedConnected = mt5Connection droppedIngested 7 5000 (\<lambda>i. replicate (Suc i) CHR ''u'')"


section \<open>Frame lemmas: what each store operation leaves alone\<close>

lemma updateSignalStatus_frame [simp]:
  "mt5Commands (updateSignalStatus st sid status e) = mt5Commands st"
  "trades (updateSignalStatus st sid status e) = trades st"
  "settings (updateSignalStatus st sid status e) = settings st"
  "mt5ExecutionResults (updateSignalStatus st sid status e) = mt5ExecutionResults st"
  by (simp_all add: updateSignalStatus_def Let_def split: option.splits)

lemma markCommandAsSent_frame [simp]:
  "signals (markCommandAsSent st cid now) = signals st"
  "trades (markCommandAsSent st cid now) = trades st"
  "settings (markCommandAsSent st cid now) = settings st"
  "mt5ExecutionResults (markCommandAsSent st cid now) = mt5ExecutionResults st"
  by (simp_all add: markCommandAsSent_def split: option.splits)

lemma updateMt5Heartbeat_frame [simp]:
  "mt5Commands (updateMt5Heartbeat st now) = mt5Commands st"
  "signals (updateMt5Heartbeat st now) = signals st"
  "trades (updateMt5Heartbeat st now) = trades st"
  "mt5ExecutionResults (updateMt5Heartbeat st now) = mt5ExecutionResults st"
  by (simp_all add: updateMt5Heartbeat_def split: option.splits)

lemma markCommandAsSent_lookup:
  "map_of (mt5Commands (markCommandAsSent st cid now)) k =
     (if k = cid then map_option (\<lambda>c. c\<lparr> cmd_status := ''sent'', cmd_sentAt := Some now \<rparr>)
                        (map_of (mt5Commands st) k)
      else map_of (mt5Commands st) k)"
  by (simp add: markCommandAsSent_def update_conv' split: option.splits)

lemma markCommandAsSent_keys:
  "map fst (mt5Commands (markCommandAsSent st cid now)) = map fst (mt5Commands st)"
  by (auto simp: markCommandAsSent_def update_keys map_of_eq_None_iff split: option.splits)

lemma wf_lookup:
  "wf_commands st \<Longrightarrow> c \<in> snd ` set (mt5Commands st) \<Longrightarrow>
   map_of (mt5Commands st) (cmd_id c) = Some c"
  by (force simp: wf_commands_def list_all_iff)

lemma wf_ids:
  "distinct (map fst xs) \<Longrightarrow> list_all (\<lambda>(k, c). cmd_id c = k) xs \<Longrightarrow>
   map cmd_id (map snd xs) = map fst xs"
  by (induction xs) auto

section \<open>The timeout sweep\<close>

lemma retryLoop_frame [simp]:
  "signals (retryLoop st cs) = signals st"
  "trades (retryLoop st cs) = trades st"
  "settings (retryLoop st cs) = settings st"
  "mt5ExecutionResults (retryLoop st cs) = mt5ExecutionResults st"
  by (induction cs arbitrary: st) auto

lemma retryLoop_lookup:
  "distinct (map cmd_id cs) \<Longrightarrow>
   map_of (mt5Commands (retryLoop st cs)) k =
     (case find (\<lambda>c. cmd_id c = k) cs of
        Some c \<Rightarrow> Some (failTimedOut c)
      | None \<Rightarrow> map_of (mt5Commands st) k)"
proof (induction cs arbitrary: st)
  case Nil
  then show ?case by simp
next
  case (Cons c cs)
  have nf: "cmd_id c = k \<Longrightarrow> find (\<lambda>c. cmd_id c = k) cs = None"
  proof -
    assume k: "cmd_id c = k"
    have "cmd_id c \<notin> cmd_id ` set cs" using Cons.prems by simp
    then have "\<forall>x\<in>set cs. cmd_id x \<noteq> k" using k by blast
    then show ?thesis by (simp add: find_None_iff)
  qed
  show ?case using Cons nf
    by (auto simp: update_conv' split: option.splits)
qed

lemma retryLoop_keys:
  "cmd_id ` set cs \<subseteq> fst ` set (mt5Commands st) \<Longrightarrow>
   map fst (mt5Commands (retryLoop st cs)) = map fst (mt5Commands st)"
proof (induction cs arbitrary: st)
  case Nil
  then show ?case by simp
next
  case (Cons c cs)
  have "map fst (mt5Commands (retryLoop (st\<lparr>mt5Commands :=
      AList.update (cmd_id c) (failTimedOut c) (mt5Commands st)\<rparr>) cs)) =
    map fst (AList.update (cmd_id c) (failTimedOut c) (mt5Commands st))"
    using Cons.prems by (subst Cons.IH) (auto simp: dom_update)
  also have "\<dots> = map fst (mt5Commands st)"
    using Cons.prems by (simp add: update_keys)
  finally show ?case by simp
qed

lemma wf_find:
  "distinct (map fst xs) \<Longrightarrow> list_all (\<lambda>(k, c). cmd_id c = k) xs \<Longrightarrow>
   map_of xs k = Some c \<Longrightarrow>
   find (\<lambda>c. cmd_id c = k) (filter P (map snd xs)) = (if P c then Some c else None)"
proof (induction xs)
  case Nil
  then show ?case by simp
next
  case (Cons x xs)
  obtain k' c' where x: "x = (k', c')" by (cases x)
  show ?case
  proof (cases "k' = k")
    case True
    then have "c' = c" using Cons.prems x by simp
    moreover have "find (\<lambda>c. cmd_id c = k) (filter P (map snd xs)) = None"
      using Cons.prems x True
      by (force simp: find_None_iff list_all_iff)
    ultimately show ?thesis using x True Cons.prems by auto
  next
    case False
    then show ?thesis using Cons x by auto
  qed
qed

lemma retryTimedOutCommands_lookup:
  assumes "wf_commands st" and "getCommandById st cid = Some c"
  shows "getCommandById (retryTimedOutCommands st now) cid =
           Some (if timedOut now c then failTimedOut c else c)"
proof -
  let ?xs = "mt5Commands st"
  have d: "distinct (map fst ?xs)" and a: "list_all (\<lambda>(k, c). cmd_id c = k) ?xs"
    using assms(1) by (simp_all add: wf_commands_def)
  have "distinct (map cmd_id (map snd ?xs))"
    using d a by (simp only: wf_ids)
  then have dc: "distinct (map cmd_id (filter (timedOut now) (map snd ?xs)))"
    by (simp only: distinct_map_filter)
  have f: "find (\<lambda>c. cmd_id c = cid) (filter (timedOut now) (map snd ?xs)) =
      (if timedOut now c then Some c else None)"
    using wf_find [OF d a] assms(2) by (simp add: getCommandById_def)
  show ?thesis
    using assms(2)
    by (simp add: getCommandById_def retryTimedOutCommands_def retryLoop_lookup [OF dc] f)
qed

lemma retryTimedOutCommands_keys:
  assumes "wf_commands st"
  shows "map fst (mt5Commands (retryTimedOutCommands st now)) = map fst (mt5Commands st)"
proof -
  let ?xs = "mt5Commands st"
  have d: "distinct (map fst ?xs)" and a: "list_all (\<lambda>(k, c). cmd_id c = k) ?xs"
    using assms(1) by (simp_all add: wf_commands_def)
  have "cmd_id ` set (map snd ?xs) = fst ` set ?xs"
    using wf_ids [OF d a] by (metis list.set_map)
  then have "cmd_id ` set (filter (timedOut now) (map snd ?xs)) \<subseteq> fst ` set ?xs"
    by auto
  then show ?thesis
    by (simp only: retryTimedOutCommands_def retryLoop_keys)
qed

lemma sweepExample_wf: "wf_commands sweepExample"
  by (simp add: wf_commands_def sweepExample_def markCommandAsSent_def enqueueCommand_def
      emptyStorage_def exampleInsert_def Let_def)

text \<open>
  Claim C8. The timeout sweep \<^verbatim>\<open>retryTimedOutCommands\<close> moves every command that is in
  status sent with a sent time strictly more than 60000 ms before the sweep to status
  failed, with a reason text that is not empty. A sent command at most 60000 ms old (so
  also one that is 59999 ms old) and a command in any other status are left as they are.
  The sweep adds no command: the identifiers in the queue are the same, in the same order.
\<close>

theorem retryTimedOutCommands_sweep:
  assumes "wf_commands st" and "getCommandById st cid = Some c"
  shows "(cmd_status c = ''sent'' \<and> (\<exists>t. cmd_sentAt c = Some t \<and> now - t > 60000) \<longrightarrow>
            (\<exists>c' m. getCommandById (retryTimedOutCommands st now) cid = Some c' \<and>
               cmd_status c' = ''failed'' \<and> cmd_errorMessage c' = Some m \<and> m \<noteq> []))
       \<and> (cmd_status c = ''sent'' \<and> (\<exists>t. cmd_sentAt c = Some t \<and> now - t \<le> 60000) \<longrightarrow>
            getCommandById (retryTimedOutCommands st now) cid = Some c)
       \<and> (cmd_status c \<noteq> ''sent'' \<longrightarrow>
            getCommandById (retryTimedOutCommands st now) cid = Some c)
       \<and> map fst (mt5Commands (retryTimedOutCommands st now)) = map fst (mt5Commands st)"
  using retryTimedOutCommands_lookup [OF assms, of now]
    retryTimedOutCommands_keys [OF assms(1), of now]
  by (auto simp: timedOut_def timeout_def failTimedOut_def)

text \<open>
  At 61001 ms the command sent at 1000 ms (60001 ms ago) fails and the one sent at
  1002 ms (59999 ms ago) stays sent.
\<close>

theorem retryTimedOutCommands_sweep_witness:
  "cmd_status (the (getCommandById (retryTimedOutCommands sweepExample 61001) ''c1'')) = ''failed''
   \<and> cmd_status (the (getCommandById (retryTimedOutCommands sweepExample 61001) ''c2'')) = ''sent''
   \<and> map fst (mt5Commands (retryTimedOutCommands sweepExample 61001)) = [''c1'', ''c2'']"
proof -
  have c1: "getCommandById sweepExample ''c1'' =
      Some (snd (enqueueCommand emptyStorage (exampleInsert ''s1'') ''c1'' 0)
        \<lparr> cmd_status := ''sent'', cmd_sentAt := Some 1000 \<rparr>)"
    by (simp add: getCommandById_def sweepExample_def markCommandAsSent_def enqueueCommand_def
        emptyStorage_def exampleInsert_def Let_def)
  have c2: "getCommandById sweepExample ''c2'' =
      Some (snd (enqueueCommand emptyStorage (exampleInsert ''s2'') ''c2'' 1001)
        \<lparr> cmd_status := ''sent'', cmd_sentAt := Some 1002 \<rparr>)"
    by (simp add: getCommandById_def sweepExample_def markCommandAsSent_def enqueueCommand_def
        emptyStorage_def exampleInsert_def Let_def)
  have k: "map fst (mt5Commands sweepExample) = [''c1'', ''c2'']"
    by (simp add: sweepExample_def markCommandAsSent_def enqueueCommand_def
        emptyStorage_def exampleInsert_def Let_def)
  show ?thesis
    using retryTimedOutCommands_sweep [OF sweepExample_wf c1, of 61001]
      retryTimedOutCommands_sweep [OF sweepExample_wf c2, of 61001] k
    by (auto simp: enqueueCommand_def Let_def)
qed

section \<open>Replay on connection\<close>

lemma sendCommandToMT5_frame [simp]:
  "storage (fst (sendCommandToMT5 sv m)) = storage sv"
  "mt5WsClients (fst (sendCommandToMT5 sv m)) = mt5WsClients sv"
  "openClients (fst (sendCommandToMT5 sv m)) = openClients sv"
  "delivered (fst (sendCommandToMT5 sv m)) = delivered sv @ map (\<lambda>k. (k, m)) (openClients sv)"
  "snd (sendCommandToMT5 sv m) = (openClients sv \<noteq> [])"
  by (simp_all add: sendCommandToMT5_def openClients_def)

lemma replayLoop_clients [simp]:
  "mt5WsClients (replayLoop sv now cs) = mt5WsClients sv"
  by (induction cs arbitrary: sv) (simp_all add: Let_def split_beta)

lemma replayLoop_delivered:
  "delivered (replayLoop sv now cs) =
     delivered sv @ concat (map (\<lambda>c. map (\<lambda>k. (k, wireOf c (cmd_positionId c))) (openClients sv)) cs)"
proof (induction cs arbitrary: sv)
  case Nil
  then show ?case by simp
next
  case (Cons c cs)
  show ?case
    by (simp add: Let_def split_beta Cons.IH openClients_def)
qed

lemma replayLoop_lookup:
  "map_of (mt5Commands (storage (replayLoop sv now cs))) k =
     (if k \<in> cmd_id ` set cs
      then map_option (\<lambda>c. c\<lparr> cmd_status := ''sent'', cmd_sentAt := Some now \<rparr>)
             (map_of (mt5Commands (storage sv)) k)
      else map_of (mt5Commands (storage sv)) k)"
proof (induction cs arbitrary: sv)
  case Nil
  then show ?case by simp
next
  case (Cons c cs)
  show ?case
    by (simp add: Let_def split_beta Cons.IH markCommandAsSent_lookup option.map_comp comp_def)
qed

lemma replayLoop_keys:
  "map fst (mt5Commands (storage (replayLoop sv now cs))) = map fst (mt5Commands (storage sv))"
  by (induction cs arbitrary: sv) (simp_all add: Let_def split_beta markCommandAsSent_keys)

lemma commandsToResend_eq:
  "commandsToResend st = filter (\<lambda>c. cmd_status c = ''pending'') (map snd (mt5Commands st))"
  by (simp add: commandsToResend_def getPendingCommands_def conj_commute cong: conj_cong)

lemma update_True_open:
  "filter snd cl = [] \<Longrightarrow> map fst (filter snd (AList.update ws True cl)) = [ws]"
  by (induction cl) (auto split: if_splits)

lemma connectionOpen_single:
  "openClients sv = [] \<Longrightarrow> openClients (connectionOpen sv ws now) = [ws]"
  by (simp add: openClients_def connectionOpen_def update_True_open)

lemma connectionOpen_frame [simp]:
  "mt5Commands (storage (connectionOpen sv ws now)) = mt5Commands (storage sv)"
  "signals (storage (connectionOpen sv ws now)) = signals (storage sv)"
  "delivered (connectionOpen sv ws now) = delivered sv"
  by (simp_all add: connectionOpen_def)

section \<open>The status of a command under the store operations\<close>


lemma list_all_update:
  "list_all P xs \<Longrightarrow> P (k, v) \<Longrightarrow> list_all P (AList.update k v xs)"
  by (induction xs) auto

lemma wf_update:
  "wf_commands st \<Longrightarrow> cmd_id c = k \<Longrightarrow>
   wf_commands (st\<lparr> mt5Commands := AList.update k c (mt5Commands st) \<rparr>)"
  by (simp add: wf_commands_def distinct_update list_all_update)

lemma wf_entry: "wf_commands st \<Longrightarrow> map_of (mt5Commands st) k = Some c \<Longrightarrow> cmd_id c = k"
  by (auto simp: wf_commands_def list_all_iff dest!: map_of_SomeD)

lemma wf_enqueueCommand: "wf_commands st \<Longrightarrow> wf_commands (fst (enqueueCommand st ins uid now))"
  by (simp add: enqueueCommand_def Let_def wf_update)

lemma wf_markCommandAsSent: "wf_commands st \<Longrightarrow> wf_commands (markCommandAsSent st cid now)"
  by (auto simp: markCommandAsSent_def wf_update wf_entry split: option.splits)

lemma wf_markCommandAsAcknowledged:
  "wf_commands st \<Longrightarrow> wf_commands (markCommandAsAcknowledged st cid now)"
  by (auto simp: markCommandAsAcknowledged_def wf_update wf_entry split: option.splits)

lemma wf_markCommandAsFailed: "wf_commands st \<Longrightarrow> wf_commands (markCommandAsFailed st cid m)"
  by (auto simp: markCommandAsFailed_def wf_update wf_entry split: option.splits)

lemma wf_retryLoop: "wf_commands st \<Longrightarrow> wf_commands (retryLoop st cs)"
proof (induction cs arbitrary: st)
  case Nil
  then show ?case by simp
next
  case (Cons c cs)
  have "wf_commands (st\<lparr> mt5Commands := AList.update (cmd_id c) (failTimedOut c) (mt5Commands st) \<rparr>)"
    by (rule wf_update [OF Cons.prems]) (simp add: failTimedOut_def)
  then show ?case by (simp add: Cons.IH)
qed

lemma wf_applyOp: "wf_commands st \<Longrightarrow> wf_commands (applyOp st op)"
  by (cases op)
    (simp_all add: wf_enqueueCommand wf_markCommandAsSent wf_markCommandAsAcknowledged
      wf_markCommandAsFailed retryTimedOutCommands_def wf_retryLoop)

lemma markCommandAsAcknowledged_lookup:
  "map_of (mt5Commands (markCommandAsAcknowledged st cid now)) k =
     (if k = cid
      then map_option (\<lambda>c. c\<lparr> cmd_status := ''acknowledged'', cmd_acknowledgedAt := Some now \<rparr>)
             (map_of (mt5Commands st) k)
      else map_of (mt5Commands st) k)"
  by (simp add: markCommandAsAcknowledged_def update_conv' split: option.splits)

lemma markCommandAsFailed_lookup:
  "map_of (mt5Commands (markCommandAsFailed st cid m)) k =
     (if k = cid
      then map_option (\<lambda>c. c\<lparr> cmd_status := ''failed'', cmd_errorMessage := Some m \<rparr>)
             (map_of (mt5Commands st) k)
      else map_of (mt5Commands st) k)"
  by (simp add: markCommandAsFailed_def update_conv' split: option.splits)

lemma enqueueCommand_lookup:
  "k \<noteq> uid \<Longrightarrow>
   map_of (mt5Commands (fst (enqueueCommand st ins uid now))) k = map_of (mt5Commands st) k"
  by (simp add: enqueueCommand_def Let_def update_conv')

lemma applyOp_status:
  assumes "wf_commands st" and "getCommandById st cid = Some c" and "\<not> enqueuesUnder cid op"
  shows "\<exists>c'. getCommandById (applyOp st op) cid = Some c' \<and>
           (cmd_status c' = cmd_status c \<or> leftPending (cmd_status c'))"
proof (cases op)
  case (Enqueue ins uid now)
  then show ?thesis using assms by (simp add: getCommandById_def enqueueCommand_lookup)
next
  case (MarkSent k now)
  then show ?thesis using assms
    by (auto simp: getCommandById_def markCommandAsSent_lookup leftPending_def)
next
  case (MarkAcknowledged k now)
  then show ?thesis using assms
    by (auto simp: getCommandById_def markCommandAsAcknowledged_lookup leftPending_def)
next
  case (MarkFailed k m)
  then show ?thesis using assms
    by (auto simp: getCommandById_def markCommandAsFailed_lookup leftPending_def)
next
  case (RetryTimedOut now)
  then show ?thesis
    using retryTimedOutCommands_lookup [OF assms(1,2), of now]
    by (simp add: failTimedOut_def leftPending_def)
qed

lemma applyOps_status:
  assumes "wf_commands st" and "getCommandById st cid = Some c"
    and "\<not> list_ex (enqueuesUnder cid) ops"
  shows "\<exists>c'. getCommandById (applyOps st ops) cid = Some c' \<and>
           (cmd_status c' = cmd_status c \<or> leftPending (cmd_status c'))"
  using assms
proof (induction ops arbitrary: st c)
  case Nil
  then show ?case by (simp add: applyOps_def)
next
  case (Cons op ops)
  from Cons.prems have no: "\<not> enqueuesUnder cid op" and rest: "\<not> list_ex (enqueuesUnder cid) ops"
    by simp_all
  from applyOp_status [OF Cons.prems(1,2) no]
  obtain c1 where c1: "getCommandById (applyOp st op) cid = Some c1"
    and s1: "cmd_status c1 = cmd_status c \<or> leftPending (cmd_status c1)"
    by blast
  from Cons.IH [OF wf_applyOp [OF Cons.prems(1)] c1 rest]
  obtain c' where c': "getCommandById (applyOps (applyOp st op) ops) cid = Some c'"
    and s': "cmd_status c' = cmd_status c1 \<or> leftPending (cmd_status c')"
    by blast
  have "cmd_status c' = cmd_status c \<or> leftPending (cmd_status c')"
    using s1 s' by auto
  then show ?case using c' by (simp add: applyOps_def)
qed

text \<open>
  The store operations are not guarded by the current status: a command that is
  acknowledged becomes failed under \<^verbatim>\<open>markCommandAsFailed\<close>, and sent again under
  \<^verbatim>\<open>markCommandAsSent\<close>.
\<close>

theorem command_status_terminal_counterexample:
  "map_option cmd_status (getCommandById acknowledgedExample ''c1'') = Some ''acknowledged''
   \<and> map_option cmd_status
        (getCommandById (markCommandAsFailed acknowledgedExample ''c1'' ''late report'') ''c1'')
       = Some ''failed''
   \<and> map_option cmd_status
        (getCommandById (markCommandAsSent acknowledgedExample ''c1'' 3) ''c1'') = Some ''sent''"
  by (simp add: acknowledgedExample_def applyOps_def getCommandById_def markCommandAsSent_def
      markCommandAsAcknowledged_def markCommandAsFailed_def enqueueCommand_def emptyStorage_def
      exampleInsert_def Let_def)

text \<open>
  Claim C1, as the code has it. Each of \<^verbatim>\<open>markCommandAsSent\<close>,
  \<^verbatim>\<open>markCommandAsAcknowledged\<close> and \<^verbatim>\<open>markCommandAsFailed\<close> sets the status of an
  existing command to its own target whatever the status was, and \<^verbatim>\<open>enqueueCommand\<close>
  creates a command in status pending. Over every sequence of store operations (none of
  which draws the command's identifier again) the status of a command either is what it
  was or is one of sent, acknowledged, failed: a command that has left pending never
  returns to it.
\<close>

theorem command_status_store_level:
  assumes "wf_commands st" and "getCommandById st cid = Some c"
    and "\<not> list_ex (enqueuesUnder cid) ops"
  shows "(\<exists>c'. getCommandById (applyOps st ops) cid = Some c' \<and>
            (cmd_status c' = cmd_status c \<or> leftPending (cmd_status c')))
       \<and> map_option cmd_status (getCommandById (markCommandAsSent st cid now) cid) = Some ''sent''
       \<and> map_option cmd_status (getCommandById (markCommandAsAcknowledged st cid now) cid)
            = Some ''acknowledged''
       \<and> map_option cmd_status (getCommandById (markCommandAsFailed st cid reason) cid)
            = Some ''failed''
       \<and> map_option cmd_status (getCommandById (fst (enqueueCommand st ins uid now)) uid)
            = Some ''pending''"
  using applyOps_status [OF assms] assms(2)
  by (simp add: getCommandById_def markCommandAsSent_lookup markCommandAsAcknowledged_lookup
      markCommandAsFailed_lookup enqueueCommand_def Let_def update_conv')

theorem command_status_store_level_witness:
  "leftPending (cmd_status (the (getCommandById
     (applyOps acknowledgedExample
        [MarkFailed ''c1'' ''late report'', Enqueue (exampleInsert ''s2'') ''c2'' 5,
         RetryTimedOut 100000]) ''c1'')))"
proof -
  have wf: "wf_commands acknowledgedExample"
    by (simp add: wf_commands_def acknowledgedExample_def applyOps_def markCommandAsSent_def
      markCommandAsAcknowledged_def enqueueCommand_def emptyStorage_def exampleInsert_def Let_def)
  have c: "getCommandById acknowledgedExample ''c1'' =
      Some (snd (enqueueCommand emptyStorage (exampleInsert ''s1'') ''c1'' 0)
        \<lparr> cmd_status := ''acknowledged'', cmd_sentAt := Some 1, cmd_acknowledgedAt := Some 2 \<rparr>)"
    by (simp add: getCommandById_def acknowledgedExample_def applyOps_def markCommandAsSent_def
      markCommandAsAcknowledged_def enqueueCommand_def emptyStorage_def exampleInsert_def Let_def)
  have n: "\<not> list_ex (enqueuesUnder ''c1'')
      [MarkFailed ''c1'' ''late report'', Enqueue (exampleInsert ''s2'') ''c2'' 5,
       RetryTimedOut 100000]"
    by simp
  show ?thesis
    using command_status_store_level [OF wf c n, THEN conjunct1]
    by (auto simp: leftPending_def enqueueCommand_def Let_def)
qed

section \<open>The guard against a second command for a signal\<close>


lemma update_fresh: "k \<notin> fst ` set xs \<Longrightarrow> AList.update k v xs = xs @ [(k, v)]"
  by (induction xs) auto

lemma update_append_last:
  "k \<notin> fst ` set xs \<Longrightarrow> AList.update k v (xs @ [(k, w)]) = xs @ [(k, v)]"
  by (induction xs) auto

lemma map_of_append_last:
  "k \<notin> fst ` set xs \<Longrightarrow> map_of (xs @ [(k, w)]) k = Some w"
  by (induction xs) auto

lemma find_None_list_ex: "(find P xs = None) = (\<not> list_ex P xs)"
  by (induction xs) auto

lemma newCommand_fields [simp]:
  "cmd_id (newCommand signal uid now) = uid"
  "cmd_signalId (newCommand signal uid now) = Some (sig_id signal)"
  "cmd_status (newCommand signal uid now) = ''pending''"
  by (simp_all add: newCommand_def enqueueCommand_def tradeInsert_def Let_def)

lemma webhookEnqueue_commands:
  assumes "uid \<notin> fst ` set (mt5Commands (storage sv))"
  shows "mt5Commands (storage (fst (webhookEnqueue sv signal uid now))) =
     (if list_ex (\<lambda>cmd. cmd_signalId cmd = Some (sig_id signal)) (getPendingCommands (storage sv))
      then mt5Commands (storage sv)
      else mt5Commands (storage sv) @
        [(uid, if openClients sv = [] then newCommand signal uid now
               else (newCommand signal uid now)\<lparr> cmd_status := ''sent'', cmd_sentAt := Some now \<rparr>)])"
proof -
  have g: "getPendingCommands (updateSignalStatus (storage sv) (sig_id signal) ''pending'' None)
      = getPendingCommands (storage sv)"
    by (simp add: getPendingCommands_def)
  show ?thesis
  proof (cases "find (\<lambda>cmd. cmd_signalId cmd = Some (sig_id signal)) (getPendingCommands (storage sv))")
    case None
    then have n: "\<not> list_ex (\<lambda>cmd. cmd_signalId cmd = Some (sig_id signal)) (getPendingCommands (storage sv))"
      by (simp add: find_None_list_ex)
    let ?st1 = "updateSignalStatus (storage sv) (sig_id signal) ''pending'' None"
    let ?ins = "tradeInsert signal
          (if truthy (sig_stopLoss signal) \<and> truthy (sig_takeProfit signal)
           then sig_stopLoss signal else None)
          (if truthy (sig_stopLoss signal) \<and> truthy (sig_takeProfit signal)
           then sig_takeProfit signal else None)"
    have nc: "snd (enqueueCommand ?st1 ?ins uid now) = newCommand signal uid now"
      by (simp add: enqueueCommand_def newCommand_def Let_def)
    have e: "mt5Commands (fst (enqueueCommand ?st1 ?ins uid now)) =
        mt5Commands (storage sv) @ [(uid, newCommand signal uid now)]"
      using assms by (simp add: enqueueCommand_def newCommand_def Let_def update_fresh)
    have m: "mt5Commands (markCommandAsSent (fst (enqueueCommand ?st1 ?ins uid now)) uid now) =
        mt5Commands (storage sv) @
          [(uid, (newCommand signal uid now)\<lparr> cmd_status := ''sent'', cmd_sentAt := Some now \<rparr>)]"
      using assms unfolding markCommandAsSent_def e
      by (simp add: map_of_append_last update_append_last del: map_of_append)
    have w: "fst (webhookEnqueue sv signal uid now) =
        (if openClients sv = []
         then fst (sendCommandToMT5 (sv\<lparr> storage := fst (enqueueCommand ?st1 ?ins uid now) \<rparr>)
                (wireOf (newCommand signal uid now) None))
         else (fst (sendCommandToMT5 (sv\<lparr> storage := fst (enqueueCommand ?st1 ?ins uid now) \<rparr>)
                (wireOf (newCommand signal uid now) None)))
              \<lparr> storage := markCommandAsSent (fst (enqueueCommand ?st1 ?ins uid now)) uid now \<rparr>)"
      using None
      by (simp add: webhookEnqueue_def g Let_def split_beta nc openClients_def)
    show ?thesis
      using n by (simp add: w e m)
  next
    case (Some a)
    then have "list_ex (\<lambda>cmd. cmd_signalId cmd = Some (sig_id signal)) (getPendingCommands (storage sv))"
      using find_None_list_ex [of "\<lambda>cmd. cmd_signalId cmd = Some (sig_id signal)"
          "getPendingCommands (storage sv)"] by simp
    then show ?thesis using Some by (simp add: webhookEnqueue_def g Let_def)
  qed
qed

lemma webhookEnqueue_invariant:
  assumes wf: "wf_commands (storage sv)" and inv: "oneActivePerSignal (storage sv)"
    and fresh: "uid \<notin> fst ` set (mt5Commands (storage sv))"
  shows "wf_commands (storage (fst (webhookEnqueue sv signal uid now)))
       \<and> oneActivePerSignal (storage (fst (webhookEnqueue sv signal uid now)))
       \<and> fst ` set (mt5Commands (storage (fst (webhookEnqueue sv signal uid now))))
           \<subseteq> insert uid (fst ` set (mt5Commands (storage sv)))"
proof (cases "list_ex (\<lambda>cmd. cmd_signalId cmd = Some (sig_id signal)) (getPendingCommands (storage sv))")
  case True
  then have "mt5Commands (storage (fst (webhookEnqueue sv signal uid now))) = mt5Commands (storage sv)"
    by (simp add: webhookEnqueue_commands [OF fresh])
  then show ?thesis
    using wf inv by (auto simp: wf_commands_def oneActivePerSignal_def getPendingCommands_def)
next
  case False
  then have notin: "sig_id signal \<notin> set (List.map_filter cmd_signalId (getPendingCommands (storage sv)))"
    by (auto simp: list_ex_iff map_filter_def)
  let ?c = "if openClients sv = [] then newCommand signal uid now
            else (newCommand signal uid now)\<lparr> cmd_status := ''sent'', cmd_sentAt := Some now \<rparr>"
  have eq: "mt5Commands (storage (fst (webhookEnqueue sv signal uid now))) =
      mt5Commands (storage sv) @ [(uid, ?c)]"
    using False by (simp add: webhookEnqueue_commands [OF fresh])
  have c: "cmd_id ?c = uid" "cmd_signalId ?c = Some (sig_id signal)"
    "cmd_status ?c = ''pending'' \<or> cmd_status ?c = ''sent''"
    by simp_all
  have "getPendingCommands (storage (fst (webhookEnqueue sv signal uid now))) =
      getPendingCommands (storage sv) @ [?c]"
    using c(3) unfolding getPendingCommands_def eq by auto
  then have "oneActivePerSignal (storage (fst (webhookEnqueue sv signal uid now)))"
    using inv notin c(2) by (simp add: oneActivePerSignal_def map_filter_def)
  moreover have "wf_commands (storage (fst (webhookEnqueue sv signal uid now)))"
    using wf fresh c(1) unfolding wf_commands_def eq by auto
  ultimately show ?thesis unfolding eq by auto
qed

lemma webhookEnqueueAll_invariant:
  assumes "wf_commands (storage sv)" and "oneActivePerSignal (storage sv)"
    and "distinct (map (fst \<circ> snd) attempts)"
    and "set (map (fst \<circ> snd) attempts) \<inter> fst ` set (mt5Commands (storage sv)) = {}"
  shows "oneActivePerSignal (storage (webhookEnqueueAll sv attempts))"
  using assms
proof (induction attempts arbitrary: sv)
  case Nil
  then show ?case by simp
next
  case (Cons a attempts)
  obtain signal uid now where a: "a = (signal, uid, now)" by (cases a)
  let ?sv1 = "fst (webhookEnqueue sv signal uid now)"
  have fresh: "uid \<notin> fst ` set (mt5Commands (storage sv))"
    using Cons.prems(4) a by auto
  note step = webhookEnqueue_invariant [OF Cons.prems(1,2) fresh, of signal now]
  have "set (map (fst \<circ> snd) attempts) \<inter> fst ` set (mt5Commands (storage ?sv1)) = {}"
  proof -
    have k: "fst ` set (mt5Commands (storage ?sv1)) \<subseteq> insert uid (fst ` set (mt5Commands (storage sv)))"
      using step by simp
    have "uid \<notin> set (map (fst \<circ> snd) attempts)"
      using Cons.prems(3) a by simp
    moreover have "set (map (fst \<circ> snd) attempts) \<inter> fst ` set (mt5Commands (storage sv)) = {}"
      using Cons.prems(4) by auto
    ultimately show ?thesis using k by blast
  qed
  then have "oneActivePerSignal (storage (webhookEnqueueAll ?sv1 attempts))"
    using Cons.IH step Cons.prems(3) by simp
  then show ?case using a by simp
qed

text \<open>
  \<^verbatim>\<open>enqueueCommand\<close> itself has no guard: called twice for one signal it stores two
  pending commands and returns the second.
\<close>

theorem enqueueCommand_no_guard_counterexample:
  "cmd_id (snd doubleEnqueue) = ''c2''
   \<and> map (cmd_signalId \<circ> snd) (mt5Commands (fst doubleEnqueue)) = [Some ''s1'', Some ''s1'']
   \<and> map (cmd_status \<circ> snd) (mt5Commands (fst doubleEnqueue)) = [''pending'', ''pending'']
   \<and> \<not> oneActivePerSignal (fst doubleEnqueue)"
  by (simp add: doubleEnqueue_def enqueueCommand_def emptyStorage_def exampleInsert_def Let_def
      oneActivePerSignal_def getPendingCommands_def map_filter_def)

text \<open>
  Claim C4, as the code has it. The guard is in the webhook, not in
  \<^verbatim>\<open>enqueueCommand\<close>: when a pending or sent command already references the signal, the
  webhook creates no command, sends nothing and answers that a command already exists
  (it does not return that command); otherwise it appends exactly one command for the
  signal, pending or sent. So every sequence of such attempts, with identifiers that are
  new, keeps at most one pending-or-sent command per signal.
\<close>

theorem webhook_enqueue_guard:
  assumes "wf_commands (storage sv)" and "oneActivePerSignal (storage sv)"
    and "distinct (map (fst \<circ> snd) attempts)"
    and "set (map (fst \<circ> snd) attempts) \<inter> fst ` set (mt5Commands (storage sv)) = {}"
    and "cmdUid \<notin> fst ` set (mt5Commands (storage sv))"
  shows "oneActivePerSignal (storage (webhookEnqueueAll sv attempts))
       \<and> (list_ex (\<lambda>cmd. cmd_signalId cmd = Some (sig_id signal)) (getPendingCommands (storage sv)) \<longrightarrow>
            mt5Commands (storage (fst (webhookEnqueue sv signal cmdUid now))) = mt5Commands (storage sv)
          \<and> delivered (fst (webhookEnqueue sv signal cmdUid now)) = delivered sv
          \<and> snd (webhookEnqueue sv signal cmdUid now) = CommandAlreadyExists (sig_id signal))
       \<and> (\<not> list_ex (\<lambda>cmd. cmd_signalId cmd = Some (sig_id signal)) (getPendingCommands (storage sv)) \<longrightarrow>
            (\<exists>c. mt5Commands (storage (fst (webhookEnqueue sv signal cmdUid now))) =
                   mt5Commands (storage sv) @ [(cmdUid, c)]
                 \<and> cmd_signalId c = Some (sig_id signal)
                 \<and> (cmd_status c = ''pending'' \<or> cmd_status c = ''sent'')))"
proof -
  have g: "getPendingCommands (updateSignalStatus (storage sv) (sig_id signal) ''pending'' None)
      = getPendingCommands (storage sv)"
    by (simp add: getPendingCommands_def)
  have a: "oneActivePerSignal (storage (webhookEnqueueAll sv attempts))"
    by (rule webhookEnqueueAll_invariant [OF assms(1-4)])
  have b: "delivered (fst (webhookEnqueue sv signal cmdUid now)) = delivered sv
      \<and> snd (webhookEnqueue sv signal cmdUid now) = CommandAlreadyExists (sig_id signal)"
    if "list_ex (\<lambda>cmd. cmd_signalId cmd = Some (sig_id signal)) (getPendingCommands (storage sv))"
  proof -
    from that obtain e where
      "find (\<lambda>cmd. cmd_signalId cmd = Some (sig_id signal)) (getPendingCommands (storage sv)) = Some e"
      using find_None_list_ex [of "\<lambda>cmd. cmd_signalId cmd = Some (sig_id signal)"
          "getPendingCommands (storage sv)"] by auto
    then show ?thesis by (simp add: webhookEnqueue_def g Let_def)
  qed
  show ?thesis
    using a b webhookEnqueue_commands [OF assms(5), of signal now] by auto
qed

theorem webhook_enqueue_guard_witness:
  "oneActivePerSignal (storage (webhookEnqueueAll emptyServer
      [(storedSignal ''s1'', ''c1'', 10), (storedSignal ''s1'', ''c2'', 11),
       (storedSignal ''s2'', ''c3'', 12)]))
   \<and> map fst (mt5Commands (storage (webhookEnqueueAll emptyServer
      [(storedSignal ''s1'', ''c1'', 10), (storedSignal ''s1'', ''c2'', 11),
       (storedSignal ''s2'', ''c3'', 12)]))) = [''c1'', ''c3'']"
proof -
  have wf: "wf_commands (storage emptyServer)" and inv: "oneActivePerSignal (storage emptyServer)"
    by (simp_all add: wf_commands_def oneActivePerSignal_def getPendingCommands_def
        emptyServer_def emptyStorage_def map_filter_def)
  have d: "distinct (map (fst \<circ> snd)
      [(storedSignal ''s1'', ''c1'', 10), (storedSignal ''s1'', ''c2'', 11),
       (storedSignal ''s2'', ''c3'', 12)])"
    by simp
  have f: "set (map (fst \<circ> snd)
      [(storedSignal ''s1'', ''c1'', (10::int)), (storedSignal ''s1'', ''c2'', 11),
       (storedSignal ''s2'', ''c3'', 12)]) \<inter> fst ` set (mt5Commands (storage emptyServer)) = {}"
    and g: "''c9'' \<notin> fst ` set (mt5Commands (storage emptyServer))"
    by (simp_all add: emptyServer_def emptyStorage_def)
  have a: "oneActivePerSignal (storage (webhookEnqueueAll emptyServer
      [(storedSignal ''s1'', ''c1'', 10), (storedSignal ''s1'', ''c2'', 11),
       (storedSignal ''s2'', ''c3'', 12)]))"
    using webhook_enqueue_guard [OF wf inv d f g] by (rule conjunct1)
  have b: "map fst (mt5Commands (storage (webhookEnqueueAll emptyServer
      [(storedSignal ''s1'', ''c1'', 10), (storedSignal ''s1'', ''c2'', 11),
       (storedSignal ''s2'', ''c3'', 12)]))) = [''c1'', ''c3'']"
    by (simp add: webhookEnqueue_def emptyServer_def emptyStorage_def storedSignal_def
        createSignal_def exampleSignal_def updateSignalStatus_def getPendingCommands_def
        enqueueCommand_def tradeInsert_def sendCommandToMT5_def openClients_def or_default_def
        Let_def)
  show ?thesis using a b by simp
qed

section \<open>Execution reports\<close>

lemma createExecutionResult_frame [simp]:
  "mt5Commands (createExecutionResult st s c oid pid e uid now) = mt5Commands st"
  "signals (createExecutionResult st s c oid pid e uid now) = signals st"
  "trades (createExecutionResult st s c oid pid e uid now) = trades st"
  "settings (createExecutionResult st s c oid pid e uid now) = settings st"
  by (simp_all add: createExecutionResult_def Let_def)

lemma markCommandAsAcknowledged_frame [simp]:
  "signals (markCommandAsAcknowledged st cid now) = signals st"
  "trades (markCommandAsAcknowledged st cid now) = trades st"
  "settings (markCommandAsAcknowledged st cid now) = settings st"
  "mt5ExecutionResults (markCommandAsAcknowledged st cid now) = mt5ExecutionResults st"
  by (simp_all add: markCommandAsAcknowledged_def split: option.splits)

lemma createTrade_frame [simp]:
  "mt5Commands (createTrade st ins uid now) = mt5Commands st"
  "signals (createTrade st ins uid now) = signals st"
  "settings (createTrade st ins uid now) = settings st"
  "mt5ExecutionResults (createTrade st ins uid now) = mt5ExecutionResults st"
  by (simp_all add: createTrade_def Let_def)

lemma updateSignalStatus_lookup:
  "map_of (signals (updateSignalStatus st sid status e)) k =
     (if k = sid
      then map_option (\<lambda>s. case e of None \<Rightarrow> s\<lparr> sig_status := status \<rparr>
                              | Some m \<Rightarrow> s\<lparr> sig_status := status, sig_errorMessage := m \<rparr>)
             (map_of (signals st) k)
      else map_of (signals st) k)"
  by (simp add: updateSignalStatus_def Let_def update_conv' split: option.splits)

lemma mt5Message_known:
  assumes "reportKnown sv report cid command"
  shows "fst (mt5Message sv report resUid tradeUid now) =
     sv\<lparr> storage :=
       (let st1 = createExecutionResult (updateMt5Heartbeat (storage sv) now)
                    (if rep_success report then ''true'' else ''false'')
                    (Some cid) (or_else (rep_orderId report) None)
                    (or_else (rep_positionId report) None)
                    (or_else (rep_error report) None) resUid now;
            st2 = markCommandAsAcknowledged st1 cid now
        in if truthy (cmd_signalId command) then
             (if rep_success report \<and> truthy (rep_orderId report) then
                (let st' = updateSignalStatus st2 (the (cmd_signalId command)) ''executed'' (Some None) in
                 case getSignalById st' (the (cmd_signalId command)) of
                   None \<Rightarrow> st'
                 | Some signal \<Rightarrow>
                     if cmd_action command = ''TRADE''
                     then createTrade st' (tradeOf command signal report) tradeUid now
                     else st')
              else updateSignalStatus st2 (the (cmd_signalId command)) ''failed''
                     (Some (Some (or_default (rep_error report) ''Trade execution failed in MT5''))))
           else st2) \<rparr>"
  using assms
  by (simp add: reportKnown_def mt5Message_def getCommandById_def Let_def)

lemma mt5Message_command:
  assumes "reportKnown sv report cid command"
  shows "getCommandById (storage (fst (mt5Message sv report resUid tradeUid now))) cid =
     Some (command\<lparr> cmd_status := ''acknowledged'', cmd_acknowledgedAt := Some now \<rparr>)"
proof -
  have "getCommandById (storage sv) cid = Some command"
    using assms by (simp add: reportKnown_def)
  then show ?thesis
    unfolding mt5Message_known [OF assms]
    by (simp add: getCommandById_def Let_def markCommandAsAcknowledged_lookup
        split: option.splits)
qed

lemma mt5Message_results:
  assumes "reportKnown sv report cid command"
  shows "mt5ExecutionResults (storage (fst (mt5Message sv report resUid tradeUid now))) =
     AList.update resUid
       \<lparr> res_id = resUid, res_commandId = Some cid,
         res_success = (if rep_success report then ''true'' else ''false''),
         res_orderId = or_else (rep_orderId report) None,
         res_positionId = or_else (rep_positionId report) None,
         res_executedAt = now, res_errorMessage = or_else (rep_error report) None \<rparr>
       (mt5ExecutionResults (storage sv))"
  unfolding mt5Message_known [OF assms]
  by (simp add: Let_def split: option.splits)
    (simp add: createExecutionResult_def)

lemma tradeOf_status [simp]:
  "tradeOf command (signal\<lparr> sig_status := s, sig_errorMessage := m \<rparr>) report =
   tradeOf command signal report"
  by (simp add: tradeOf_def)

lemma mt5Message_trades:
  assumes "reportKnown sv report cid command"
  shows "trades (storage (fst (mt5Message sv report resUid tradeUid now))) =
     (if truthy (cmd_signalId command) \<and> rep_success report \<and> truthy (rep_orderId report)
         \<and> cmd_action command = ''TRADE''
      then case getSignalById (storage sv) (the (cmd_signalId command)) of
             None \<Rightarrow> trades (storage sv)
           | Some signal \<Rightarrow>
               trades (createTrade (storage sv) (tradeOf command signal report) tradeUid now)
      else trades (storage sv))"
  unfolding mt5Message_known [OF assms]
  by (simp add: Let_def updateSignalStatus_lookup getSignalById_def createTrade_def
      split: option.splits)

lemma mt5Message_signal:
  assumes "reportKnown sv report cid command" and "cmd_signalId command = Some sid" and "sid \<noteq> []"
  shows "getSignalById (storage (fst (mt5Message sv report resUid tradeUid now))) sid =
     map_option (\<lambda>s. if rep_success report \<and> truthy (rep_orderId report)
                      then s\<lparr> sig_status := ''executed'', sig_errorMessage := None \<rparr>
                      else s\<lparr> sig_status := ''failed'',
                             sig_errorMessage := Some (or_default (rep_error report)
                               ''Trade execution failed in MT5'') \<rparr>)
       (getSignalById (storage sv) sid)"
  unfolding mt5Message_known [OF assms(1)]
  using assms(2,3)
  by (auto simp: Let_def updateSignalStatus_lookup getSignalById_def split: option.splits)


lemma tradeQueued_eval:
  "tradeQueued =
     \<lparr> storage =
         \<lparr> signals = [(''s1'', (storedSignal ''s1'')\<lparr> sig_timestamp := 1000 \<rparr>)],
           trades = [],
           settings = Some (defaultSettings (Some 500)),
           mt5Commands = [(''c1'',
              (newCommand (storedSignal ''s1'') ''c1'' 1000)
                \<lparr> cmd_status := ''sent'', cmd_sentAt := Some 1000 \<rparr>)],
           mt5ExecutionResults = [] \<rparr>,
       mt5WsClients = [(7, True)],
       delivered = [(7, wireOf (newCommand (storedSignal ''s1'') ''c1'' 1000) None)] \<rparr>"
  by (simp add: tradeQueued_def connectedServer_def connectionOpen_def emptyServer_def
      emptyStorage_def updateMt5Heartbeat_def webhook_def getSignals_def newest_first_def
      isDuplicate_def createSignal_def exampleSignal_def or_default_def getSettings_def
      defaultSettings_def isMt5Connected_def isValidSymbol_def symbolChar_def
      webhookEnqueue_def updateSignalStatus_def getPendingCommands_def enqueueCommand_def
      tradeInsert_def sendCommandToMT5_def openClients_def markCommandAsSent_def wireOf_def
      storedSignal_def newCommand_def Let_def)


lemma storedSignal_fields [simp]:
  "sig_id (storedSignal sid) = sid"
  "sig_type (storedSignal sid) = ''BUY''"
  "sig_symbol (storedSignal sid) = ''EURUSD''"
  "sig_price (storedSignal sid) = None"
  "sig_status (storedSignal sid) = ''pending''"
  "sig_stopLoss (storedSignal sid) = Some ''1.08500''"
  "sig_takeProfit (storedSignal sid) = Some ''1.08800''"
  by (simp_all add: storedSignal_def createSignal_def exampleSignal_def or_default_def Let_def)

lemma tradeQueued_known:
  "reportKnown tradeQueued successReport ''c1''
     ((newCommand (storedSignal ''s1'') ''c1'' 1000)\<lparr> cmd_status := ''sent'', cmd_sentAt := Some 1000 \<rparr>)"
  "reportKnown tradeQueued failureReport ''c1''
     ((newCommand (storedSignal ''s1'') ''c1'' 1000)\<lparr> cmd_status := ''sent'', cmd_sentAt := Some 1000 \<rparr>)"
  by (simp_all add: reportKnown_def tradeQueued_eval successReport_def failureReport_def
      getCommandById_def)

lemma afterFirstReport_command:
  "getCommandById (storage afterFirstReport) ''c1'' =
     Some ((newCommand (storedSignal ''s1'') ''c1'' 1000)
       \<lparr> cmd_status := ''acknowledged'', cmd_sentAt := Some 1000, cmd_acknowledgedAt := Some 2000 \<rparr>)"
  unfolding afterFirstReport_def
  by (simp add: mt5Message_command [OF tradeQueued_known(1)])

lemma afterFirstReport_signal:
  "getSignalById (storage afterFirstReport) ''s1'' =
     Some ((storedSignal ''s1'')\<lparr> sig_timestamp := 1000, sig_status := ''executed'' \<rparr>)"
  unfolding afterFirstReport_def
  by (subst mt5Message_signal [OF tradeQueued_known(1)])
    (simp_all add: successReport_def tradeQueued_eval getSignalById_def storedSignal_def
      createSignal_def exampleSignal_def Let_def)

lemma afterFirstReport_trades:
  "map fst (trades (storage afterFirstReport)) = [''t1'']"
  unfolding afterFirstReport_def
  by (subst mt5Message_trades [OF tradeQueued_known(1)])
    (simp add: successReport_def tradeQueued_eval getSignalById_def createTrade_def Let_def
      newCommand_def enqueueCommand_def tradeInsert_def)

lemma afterFirstReport_known:
  "reportKnown afterFirstReport successReport ''c1''
     ((newCommand (storedSignal ''s1'') ''c1'' 1000)
       \<lparr> cmd_status := ''acknowledged'', cmd_sentAt := Some 1000, cmd_acknowledgedAt := Some 2000 \<rparr>)"
  by (simp add: reportKnown_def afterFirstReport_command successReport_def)

text \<open>
  The same success report handled twice, at 2000 ms and at 9000 ms: the acknowledged
  time moves from 2000 to 9000 and a second open trade is recorded for the signal.
\<close>

theorem report_replay_counterexample:
  "map_option cmd_status (getCommandById (storage afterFirstReport) ''c1'') = Some ''acknowledged''
   \<and> map_option cmd_acknowledgedAt (getCommandById (storage afterFirstReport) ''c1'') = Some (Some 2000)
   \<and> map_option cmd_acknowledgedAt (getCommandById (storage afterSecondReport) ''c1'') = Some (Some 9000)
   \<and> map fst (trades (storage afterFirstReport)) = [''t1'']
   \<and> map (\<lambda>(k, t). (k, trade_signalId t, trade_status t)) (trades (storage afterSecondReport)) =
       [(''t1'', Some ''s1'', ''open''), (''t2'', Some ''s1'', ''open'')]"
proof -
  have a: "map_option cmd_acknowledgedAt (getCommandById (storage afterSecondReport) ''c1'') = Some (Some 9000)"
    unfolding afterSecondReport_def
    by (simp add: mt5Message_command [OF afterFirstReport_known])
  have t1: "trades (storage afterFirstReport) =
      trades (createTrade (storage tradeQueued)
        (tradeOf ((newCommand (storedSignal ''s1'') ''c1'' 1000)\<lparr> cmd_status := ''sent'', cmd_sentAt := Some 1000 \<rparr>)
           ((storedSignal ''s1'')\<lparr> sig_timestamp := 1000 \<rparr>) successReport) ''t1'' 2000)"
    unfolding afterFirstReport_def
    by (subst mt5Message_trades [OF tradeQueued_known(1)])
      (simp add: successReport_def tradeQueued_eval getSignalById_def
        newCommand_def enqueueCommand_def tradeInsert_def Let_def)
  have b: "map (\<lambda>(k, t). (k, trade_signalId t, trade_status t)) (trades (storage afterSecondReport)) =
       [(''t1'', Some ''s1'', ''open''), (''t2'', Some ''s1'', ''open'')]"
    unfolding afterSecondReport_def
    by (subst mt5Message_trades [OF afterFirstReport_known])
      (simp add: afterFirstReport_signal t1 successReport_def tradeQueued_eval createTrade_def
        tradeOf_def newCommand_def enqueueCommand_def tradeInsert_def or_default_def Let_def)
  show ?thesis
    using a b afterFirstReport_trades by (simp add: afterFirstReport_command)
qed

text \<open>
  Claim C2, as the code has it. Handling a report for a command that is already
  acknowledged leaves its status acknowledged but is not idempotent: the acknowledged
  time is overwritten with the time of the later report, one more execution result is
  recorded, and a success report that carries an order identifier, for a TRADE command
  whose signal exists, creates a further open trade record; any other report creates
  none.
\<close>

theorem report_replay_acknowledged:
  assumes "reportKnown sv report cid command" and "cmd_status command = ''acknowledged''"
  shows "getCommandById (storage (fst (mt5Message sv report resUid tradeUid now))) cid =
           Some (command\<lparr> cmd_acknowledgedAt := Some now \<rparr>)
       \<and> mt5ExecutionResults (storage (fst (mt5Message sv report resUid tradeUid now))) =
           AList.update resUid
             \<lparr> res_id = resUid, res_commandId = Some cid,
               res_success = (if rep_success report then ''true'' else ''false''),
               res_orderId = or_else (rep_orderId report) None,
               res_positionId = or_else (rep_positionId report) None,
               res_executedAt = now, res_errorMessage = or_else (rep_error report) None \<rparr>
             (mt5ExecutionResults (storage sv))
       \<and> trades (storage (fst (mt5Message sv report resUid tradeUid now))) =
           (if truthy (cmd_signalId command) \<and> rep_success report \<and> truthy (rep_orderId report)
               \<and> cmd_action command = ''TRADE''
            then case getSignalById (storage sv) (the (cmd_signalId command)) of
                   None \<Rightarrow> trades (storage sv)
                 | Some signal \<Rightarrow>
                     trades (createTrade (storage sv) (tradeOf command signal report) tradeUid now)
            else trades (storage sv))"
proof -
  have "command\<lparr> cmd_status := ''acknowledged'', cmd_acknowledgedAt := Some now \<rparr> =
      command\<lparr> cmd_acknowledgedAt := Some now \<rparr>"
    using assms(2) by simp
  then show ?thesis
    using mt5Message_command [OF assms(1), of resUid tradeUid now]
      mt5Message_results [OF assms(1), of resUid tradeUid now]
      mt5Message_trades [OF assms(1), of resUid tradeUid now]
    by simp
qed

text \<open>The second report of the run above.\<close>

theorem report_replay_acknowledged_witness:
  "map_option cmd_acknowledgedAt (getCommandById (storage afterSecondReport) ''c1'') = Some (Some 9000)
   \<and> map fst (mt5ExecutionResults (storage afterSecondReport)) = [''r1'', ''r2'']"
proof -
  have s: "cmd_status ((newCommand (storedSignal ''s1'') ''c1'' 1000)
       \<lparr> cmd_status := ''acknowledged'', cmd_sentAt := Some 1000, cmd_acknowledgedAt := Some 2000 \<rparr>)
       = ''acknowledged''"
    by simp
  note t = report_replay_acknowledged [OF afterFirstReport_known s, of "''r2''" "''t2''" 9000,
      folded afterSecondReport_def]
  have r1: "map fst (mt5ExecutionResults (storage afterFirstReport)) = [''r1'']"
    unfolding afterFirstReport_def
    by (subst mt5Message_results [OF tradeQueued_known(1)])
      (simp add: tradeQueued_eval)
  have a: "map_option cmd_acknowledgedAt (getCommandById (storage afterSecondReport) ''c1'') = Some (Some 9000)"
    using t by simp
  have b: "map fst (mt5ExecutionResults (storage afterSecondReport)) = [''r1'', ''r2'']"
    using t r1 by (simp add: update_keys)
  show ?thesis using a b by simp
qed

text \<open>
  A failure report for the sent command of the run: the command becomes acknowledged,
  not failed, and its own error text stays empty.
\<close>

theorem failure_report_counterexample:
  "map_option cmd_status (getCommandById (storage tradeQueued) ''c1'') = Some ''sent''
   \<and> map_option cmd_status (getCommandById (storage afterFailure) ''c1'') = Some ''acknowledged''
   \<and> map_option cmd_errorMessage (getCommandById (storage afterFailure) ''c1'') = Some None"
  unfolding afterFailure_def
  by (simp add: mt5Message_command [OF tradeQueued_known(2)])
    (simp add: tradeQueued_eval getCommandById_def newCommand_def enqueueCommand_def
      tradeInsert_def Let_def)

text \<open>
  Claim C3, as the code has it. For every report with \<^verbatim>\<open>success = false\<close> for an
  existing command the handler records an execution result with success \<^verbatim>\<open>false\<close> and
  the broker's reason, marks the command acknowledged (it calls
  \<^verbatim>\<open>markCommandAsAcknowledged\<close> for every report and never \<^verbatim>\<open>markCommandAsFailed\<close>; the
  command's error text is unchanged), creates no trade, and marks the originating signal
  failed with the broker's reason, or with a default text when the report has none.
\<close>

theorem failure_report_handling:
  assumes "reportKnown sv report cid command" and "\<not> rep_success report"
  shows "getCommandById (storage (fst (mt5Message sv report resUid tradeUid now))) cid =
           Some (command\<lparr> cmd_status := ''acknowledged'', cmd_acknowledgedAt := Some now \<rparr>)
       \<and> map_of (mt5ExecutionResults (storage (fst (mt5Message sv report resUid tradeUid now)))) resUid =
           Some \<lparr> res_id = resUid, res_commandId = Some cid, res_success = ''false'',
                  res_orderId = or_else (rep_orderId report) None,
                  res_positionId = or_else (rep_positionId report) None,
                  res_executedAt = now, res_errorMessage = or_else (rep_error report) None \<rparr>
       \<and> trades (storage (fst (mt5Message sv report resUid tradeUid now))) = trades (storage sv)
       \<and> (truthy (cmd_signalId command) \<longrightarrow>
            getSignalById (storage (fst (mt5Message sv report resUid tradeUid now)))
                (the (cmd_signalId command)) =
              map_option (\<lambda>s. s\<lparr> sig_status := ''failed'',
                                   sig_errorMessage := Some (or_default (rep_error report)
                                     ''Trade execution failed in MT5'') \<rparr>)
                (getSignalById (storage sv) (the (cmd_signalId command))))"
proof -
  have sig: "getSignalById (storage (fst (mt5Message sv report resUid tradeUid now)))
                (the (cmd_signalId command)) =
              map_option (\<lambda>s. s\<lparr> sig_status := ''failed'',
                                   sig_errorMessage := Some (or_default (rep_error report)
                                     ''Trade execution failed in MT5'') \<rparr>)
                (getSignalById (storage sv) (the (cmd_signalId command)))"
    if "truthy (cmd_signalId command)"
  proof -
    from that obtain sid where sid: "cmd_signalId command = Some sid" "sid \<noteq> []"
      by (cases "cmd_signalId command") auto
    show ?thesis
      using mt5Message_signal [OF assms(1) sid, of resUid tradeUid now] assms(2) sid by simp
  qed
  show ?thesis
    using mt5Message_command [OF assms(1), of resUid tradeUid now]
      mt5Message_results [OF assms(1), of resUid tradeUid now]
      mt5Message_trades [OF assms(1), of resUid tradeUid now] assms(2) sig
    by (simp add: update_conv')
qed

text \<open>The failure report of the run above.\<close>

theorem failure_report_handling_witness:
  "map_option cmd_status (getCommandById (storage afterFailure) ''c1'') = Some ''acknowledged''
   \<and> map_option sig_status (getSignalById (storage afterFailure) ''s1'') = Some ''failed''
   \<and> map_option sig_errorMessage (getSignalById (storage afterFailure) ''s1'')
        = Some (Some ''Invalid SL for BUY'')"
proof -
  have f: "\<not> rep_success failureReport"
    by (simp add: failureReport_def)
  note t = failure_report_handling [OF tradeQueued_known(2) f, of "''r1''" "''t1''" 2000,
      folded afterFailure_def]
  have a: "map_option cmd_status (getCommandById (storage afterFailure) ''c1'') = Some ''acknowledged''"
    using t by simp
  have "getSignalById (storage afterFailure) ''s1'' =
      map_option (\<lambda>s. s\<lparr> sig_status := ''failed'',
                          sig_errorMessage := Some (or_default (rep_error failureReport)
                            ''Trade execution failed in MT5'') \<rparr>)
        (getSignalById (storage tradeQueued) ''s1'')"
    using t by simp
  then have b: "map_option sig_status (getSignalById (storage afterFailure) ''s1'') = Some ''failed''
      \<and> map_option sig_errorMessage (getSignalById (storage afterFailure) ''s1'')
        = Some (Some ''Invalid SL for BUY'')"
    by (simp add: tradeQueued_eval getSignalById_def failureReport_def or_default_def)
  show ?thesis using a b by simp
qed

section \<open>The opening order of the agent\<close>

lemma closeRequest_tp [simp]: "req_tp (closeRequest t p) = 0"
  by (simp add: closeRequest_def zeroRequest_def Let_def)

lemma hedges_tp: "r \<in> set (CloseOppositePositions t symbol type) \<Longrightarrow> req_tp r = 0"
  by (auto simp: CloseOppositePositions_def)

lemma openRequest_fields [simp]:
  "req_tp (openRequest inp t si symbol type volume currentPrice stopLoss takeProfit) = 0"
  "req_comment (openRequest inp t si symbol type volume currentPrice stopLoss takeProfit) =
     ''TradingView'' @ (if takeProfit > 0 then ''|TP1:'' @ DoubleToString t takeProfit 5 else [])"
  "req_sl (openRequest inp t si symbol type volume currentPrice stopLoss takeProfit) = stopLoss"
  by (simp_all add: openRequest_def zeroRequest_def)

lemma placeOrder_hedges [simp]:
  "hedges (placeOrder inp t si hs symbol type volume currentPrice stopLoss takeProfit) = hs"
  by (simp add: placeOrder_def failReport_def zeroDivide_def Let_def)

lemma placeOrder_openOrder:
  "openOrder (placeOrder inp t si hs symbol type volume currentPrice stopLoss takeProfit) = Some r
   \<Longrightarrow> r = openRequest inp t si symbol type volume currentPrice stopLoss takeProfit"
  by (simp add: placeOrder_def failReport_def zeroDivide_def Let_def split: if_splits)

lemma priceAndSize_hedges [simp]:
  "hedges (priceAndSize inp t hs symbol type sl tp) = hs"
  by (simp add: priceAndSize_def zeroDivide_def Let_def split: option.splits)

lemma priceAndSize_openOrder:
  assumes "openOrder (priceAndSize inp t hs symbol type sl tp) = Some r"
  shows "\<exists>volume stopLoss takeProfit.
           usedLevel (SymbolInfoOf t symbol) tp = Some takeProfit \<and>
           usedLevel (SymbolInfoOf t symbol) sl = Some stopLoss \<and>
           r = openRequest inp t (SymbolInfoOf t symbol) symbol type volume
                 (if type = ''BUY'' then SYMBOL_ASK (SymbolInfoOf t symbol)
                  else SYMBOL_BID (SymbolInfoOf t symbol)) stopLoss takeProfit"
proof -
  let ?si = "SymbolInfoOf t symbol"
  let ?price = "if type = ''BUY'' then SYMBOL_ASK ?si else SYMBOL_BID ?si"
  obtain stopLoss where sl: "usedLevel ?si sl = Some stopLoss"
    using assms by (cases "usedLevel ?si sl")
      (simp_all add: priceAndSize_def usedLevel_def zeroDivide_def Let_def)
  obtain takeProfit where tp: "usedLevel ?si tp = Some takeProfit"
    using assms sl by (cases "usedLevel ?si tp")
      (simp_all add: priceAndSize_def usedLevel_def zeroDivide_def Let_def)
  obtain volume where v: "lotSize inp t ?si (GetPipValue symbol) ?price stopLoss = Some volume"
    using assms sl tp by (cases "lotSize inp t ?si (GetPipValue symbol) ?price stopLoss")
      (simp_all add: priceAndSize_def usedLevel_def zeroDivide_def Let_def)
  have "priceAndSize inp t hs symbol type sl tp =
      placeOrder inp t ?si hs symbol type volume ?price stopLoss takeProfit"
    using sl tp v by (simp add: priceAndSize_def usedLevel_def Let_def)
  then have "r = openRequest inp t ?si symbol type volume ?price stopLoss takeProfit"
    using assms placeOrder_openOrder by simp
  then show ?thesis using sl tp by blast
qed

lemma ExecuteTrade_hedges:
  "set (hedges (ExecuteTrade inp t symbol type sl tp)) \<subseteq> set (CloseOppositePositions t symbol type)"
  by (auto simp: ExecuteTrade_def failReport_def Let_def)

lemma ExecuteTrade_openOrder:
  assumes "openOrder (ExecuteTrade inp t symbol type sl tp) = Some r"
  shows "\<exists>volume stopLoss takeProfit.
           usedLevel (SymbolInfoOf t symbol) tp = Some takeProfit \<and>
           usedLevel (SymbolInfoOf t symbol) sl = Some stopLoss \<and>
           r = openRequest inp t (SymbolInfoOf t symbol) symbol type volume
                 (if type = ''BUY'' then SYMBOL_ASK (SymbolInfoOf t symbol)
                  else SYMBOL_BID (SymbolInfoOf t symbol)) stopLoss takeProfit"
proof -
  have "\<exists>hs. openOrder (priceAndSize inp t hs symbol type sl tp) = Some r"
    using assms
    by (auto simp: ExecuteTrade_def failReport_def Let_def split: if_splits)
  then show ?thesis using priceAndSize_openOrder by blast
qed

text \<open>
  Claim C10. In every execution of \<^verbatim>\<open>ExecuteTrade\<close>, whatever the inputs, the terminal
  and the command, every request sent has take-profit field 0: the close requests of the
  hedging step, and the opening order when one is sent. The opening order carries the
  intended first target only in its comment, \<^verbatim>\<open>TradingView|TP1:\<close> followed by the target
  printed with five decimals, when the target (normalised to the tick size) is positive.
\<close>

theorem ExecuteTrade_no_native_take_profit:
  "(\<forall>r\<in>set (hedges (ExecuteTrade inp t symbol type sl tp)). req_tp r = 0)
   \<and> (\<forall>r. openOrder (ExecuteTrade inp t symbol type sl tp) = Some r \<longrightarrow>
         req_tp r = 0 \<and>
         (\<exists>takeProfit. usedLevel (SymbolInfoOf t symbol) tp = Some takeProfit \<and>
            req_comment r = ''TradingView'' @
              (if takeProfit > 0 then ''|TP1:'' @ DoubleToString t takeProfit 5 else [])))"
proof -
  have a: "\<forall>r\<in>set (hedges (ExecuteTrade inp t symbol type sl tp)). req_tp r = 0"
    using ExecuteTrade_hedges hedges_tp by blast
  have b: "req_tp r = 0 \<and>
         (\<exists>takeProfit. usedLevel (SymbolInfoOf t symbol) tp = Some takeProfit \<and>
            req_comment r = ''TradingView'' @
              (if takeProfit > 0 then ''|TP1:'' @ DoubleToString t takeProfit 5 else []))"
    if "openOrder (ExecuteTrade inp t symbol type sl tp) = Some r" for r
    using ExecuteTrade_openOrder [OF that] by auto
  show ?thesis using a b by blast
qed

lemmas double_defs = binary64_def exponent_def roundEven_def pow2_def dadd_def dsub_def
  dmul_def ddiv_def bitlen_def compute_floorlog

lemma exampleExecution_openOrder:
  "openOrder exampleExecution =
   Some (zeroRequest\<lparr> req_action := TRADE_ACTION_DEAL, req_symbol := ''EURUSD'',
      req_volume := binary64 (67 / 100), req_type := ORDER_TYPE_BUY,
      req_price := binary64 (108650 / 100000),
      req_sl := binary64 (1085 / 1000), req_tp := 0, req_comment := ''TradingView|TP1:1.08800'',
      req_deviation := 543, req_magic := 123456 \<rparr>)"
  by (simp add: exampleExecution_def ExecuteTrade_def priceAndSize_def placeOrder_def
      defaultInputs_def exampleTerminal_def exampleSymbol_def
      CloseOppositePositions_def CountPositionsForSymbol_def GetPipValue_def StringFind_def
      NormalizePrice_def NormalizeDouble_def MathRound_def NormalizeVolume_def lotSize_def
      openRequest_def to_ulong_def zeroRequest_def Let_def double_defs)

text \<open>
  The scenario's command reaches \<^verbatim>\<open>OrderSend\<close>: the order has stop 1.08500, no
  take-profit, and the target 1.08800 in its comment.
\<close>

theorem ExecuteTrade_no_native_take_profit_witness:
  "map_option req_tp (openOrder exampleExecution) = Some 0
   \<and> map_option req_comment (openOrder exampleExecution) = Some ''TradingView|TP1:1.08800''
   \<and> map_option req_sl (openOrder exampleExecution) = Some (binary64 (1085 / 1000))"
proof -
  note t = ExecuteTrade_no_native_take_profit [of defaultInputs
      "exampleTerminal (binary64 (108650 / 100000)) (binary64 (108640 / 100000))"
      "''EURUSD''" "''BUY''"
      "binary64 (1085 / 1000)" "binary64 (1088 / 1000)", folded exampleExecution_def,
      THEN conjunct2, rule_format, OF exampleExecution_openOrder]
  have "req_tp (zeroRequest\<lparr> req_action := TRADE_ACTION_DEAL, req_symbol := ''EURUSD'',
      req_volume := binary64 (67 / 100), req_type := ORDER_TYPE_BUY,
      req_price := binary64 (108650 / 100000),
      req_sl := binary64 (1085 / 1000), req_tp := 0, req_comment := ''TradingView|TP1:1.08800'',
      req_deviation := 543, req_magic := 123456 \<rparr>) = 0"
    using t by (rule conjunct1)
  then show ?thesis
    by (simp add: exampleExecution_openOrder)
qed

section \<open>The staged exit\<close>




lemma exampleTerminal_simps [simp]:
  "SymbolInfoOf (exampleTerminal ask bid) symbol = exampleSymbol ask bid"
  "PositionSelectAfterClose (exampleTerminal ask bid) k = True"
  "accepted (OrderSend (exampleTerminal ask bid) r)"
  "StringToDouble (exampleTerminal ask bid) ''1.10500'' = binary64 (1105 / 1000)"
  by (simp_all add: exampleTerminal_def accepted_def TRADE_RETCODE_DONE_def)

lemma examplePosition_simps [simp]:
  "POSITION_TICKET (examplePosition v) = 555"
  "POSITION_SYMBOL (examplePosition v) = ''EURUSD''"
  "POSITION_TYPE (examplePosition v) = POSITION_TYPE_BUY"
  "POSITION_PRICE_OPEN (examplePosition v) = binary64 (11 / 10)"
  "POSITION_VOLUME (examplePosition v) = v"
  "POSITION_COMMENT (examplePosition v) = ''TradingView|TP1:1.10500''"
  by (simp_all add: examplePosition_def)

lemma targetReached_simps [simp]:
  "SymbolInfoOf targetReached symbol =
     exampleSymbol (binary64 (11051 / 10000)) (binary64 (1105 / 1000))"
  "PositionSelectAfterClose targetReached k = True"
  "accepted (OrderSend targetReached r)"
  "GetTP1FromComment targetReached ''TradingView|TP1:1.10500'' = binary64 (1105 / 1000)"
  by (simp_all add: targetReached_def GetTP1FromComment_def StringFind_def Let_def)






section \<open>A signal that arrives while the agent is away\<close>

lemma markCommandAsSent_last:
  assumes "mt5Commands st = xs @ [(k, c)]" and "k \<notin> fst ` set xs"
  shows "mt5Commands (markCommandAsSent st k now) = xs @ [(k, asSent c now)]"
  using assms
  by (simp add: markCommandAsSent_def map_of_append_last update_append_last asSent_def
      del: map_of_append)

lemma openClients_storage [simp]: "openClients (sv\<lparr> storage := st \<rparr>) = openClients sv"
  by (simp add: openClients_def)

lemma retrySignal_commands:
  assumes "uid \<notin> fst ` set (mt5Commands (storage sv))"
  shows "mt5Commands (storage (retrySignal sv now uid signal)) =
     mt5Commands (storage sv) @
       [(uid, if openClients sv = [] then retryCommand signal uid now
              else asSent (retryCommand signal uid now) now)]"
proof -
  let ?ins = "tradeInsert signal (or_else (sig_stopLoss signal) None)
                (or_else (sig_takeProfit signal) None)"
  have nc: "snd (enqueueCommand (storage sv) ?ins uid now) = retryCommand signal uid now"
    by (simp add: enqueueCommand_def retryCommand_def Let_def)
  have id: "cmd_id (retryCommand signal uid now) = uid"
    by (simp add: enqueueCommand_def retryCommand_def Let_def)
  have e: "mt5Commands (fst (enqueueCommand (storage sv) ?ins uid now)) =
      mt5Commands (storage sv) @ [(uid, retryCommand signal uid now)]"
    using assms by (simp add: enqueueCommand_def retryCommand_def Let_def update_fresh)
  have m: "mt5Commands (markCommandAsSent (fst (enqueueCommand (storage sv) ?ins uid now)) uid now) =
      mt5Commands (storage sv) @ [(uid, asSent (retryCommand signal uid now) now)]"
    by (rule markCommandAsSent_last [OF e assms])
  show ?thesis
    by (simp add: retrySignal_def Let_def split_beta nc id e m)
qed

lemma retrySignal_frame [simp]:
  "mt5WsClients (retrySignal sv now uid signal) = mt5WsClients sv"
  "delivered (retrySignal sv now uid signal) =
     delivered sv @ map (\<lambda>k. (k, wireOf (retryCommand signal uid now) None)) (openClients sv)"
  by (simp_all add: retrySignal_def Let_def split_beta enqueueCommand_def retryCommand_def
      del: openClients_storage)
    (simp_all add: openClients_def)

lemma openClients_retrySignal [simp]:
  "openClients (retrySignal sv now uid signal) = openClients sv"
  by (simp add: openClients_def)

lemma retrySignalsLoop_clients [simp]:
  "openClients (retrySignalsLoop sv now fresh i L) = openClients sv"
  by (induction L arbitrary: sv i) simp_all

text \<open>Every signal handed to the loop gets its command, and the command is pushed.\<close>

lemma retrySignalsLoop_creates:
  assumes "\<forall>j\<ge>i. fresh j \<notin> fst ` set (mt5Commands (storage sv))" and "inj fresh"
    and "signal \<in> set L"
  shows "\<exists>j. (fresh j, if openClients sv = [] then retryCommand signal (fresh j) now
                        else asSent (retryCommand signal (fresh j) now) now)
               \<in> set (mt5Commands (storage (retrySignalsLoop sv now fresh i L)))
           \<and> (\<forall>k\<in>set (openClients sv).
                 (k, wireOf (retryCommand signal (fresh j) now) None)
                   \<in> set (delivered (retrySignalsLoop sv now fresh i L)))"
  using assms
proof (induction L arbitrary: sv i)
  case Nil
  then show ?case by simp
next
  case (Cons s L)
  let ?sv1 = "retrySignal sv now (fresh i) s"
  have fi: "fresh i \<notin> fst ` set (mt5Commands (storage sv))"
    using Cons.prems(1) by simp
  have cmds: "mt5Commands (storage ?sv1) = mt5Commands (storage sv) @
       [(fresh i, if openClients sv = [] then retryCommand s (fresh i) now
                  else asSent (retryCommand s (fresh i) now) now)]"
    by (rule retrySignal_commands [OF fi])
  have keep_c: "set (mt5Commands (storage ?sv1))
      \<subseteq> set (mt5Commands (storage (retrySignalsLoop ?sv1 now fresh (Suc i) L)))"
    and keep_d: "set (delivered ?sv1)
      \<subseteq> set (delivered (retrySignalsLoop ?sv1 now fresh (Suc i) L))"
    if "\<forall>j\<ge>Suc i. fresh j \<notin> fst ` set (mt5Commands (storage ?sv1))"
    using that
  proof (induction L arbitrary: sv i s)
    case Nil
    {
      case 1
      then show ?case by simp
    next
      case 2
      then show ?case by simp
    }
  next
    case (Cons a L)
    {
      case 1
      let ?sv2 = "retrySignal (retrySignal sv now (fresh i) s) now (fresh (Suc i)) a"
      have f2: "fresh (Suc i) \<notin> fst ` set (mt5Commands (storage (retrySignal sv now (fresh i) s)))"
        using 1 by simp
      have c2: "mt5Commands (storage ?sv2) =
          mt5Commands (storage (retrySignal sv now (fresh i) s)) @
            [(fresh (Suc i),
              if openClients (retrySignal sv now (fresh i) s) = []
              then retryCommand a (fresh (Suc i)) now
              else asSent (retryCommand a (fresh (Suc i)) now) now)]"
        by (rule retrySignal_commands [OF f2])
      have "\<forall>j\<ge>Suc (Suc i). fresh j \<notin> fst ` set (mt5Commands (storage ?sv2))"
        unfolding c2 using 1 \<open>inj fresh\<close> by (auto dest: injD)
      from Cons.IH(1) [OF this]
      have "set (mt5Commands (storage ?sv2))
          \<subseteq> set (mt5Commands (storage (retrySignalsLoop ?sv2 now fresh (Suc (Suc i)) L)))" .
      then show ?case unfolding c2 by auto
    next
      case 2
      let ?sv2 = "retrySignal (retrySignal sv now (fresh i) s) now (fresh (Suc i)) a"
      have f2: "fresh (Suc i) \<notin> fst ` set (mt5Commands (storage (retrySignal sv now (fresh i) s)))"
        using 2 by simp
      have c2: "mt5Commands (storage ?sv2) =
          mt5Commands (storage (retrySignal sv now (fresh i) s)) @
            [(fresh (Suc i),
              if openClients (retrySignal sv now (fresh i) s) = []
              then retryCommand a (fresh (Suc i)) now
              else asSent (retryCommand a (fresh (Suc i)) now) now)]"
        by (rule retrySignal_commands [OF f2])
      have "\<forall>j\<ge>Suc (Suc i). fresh j \<notin> fst ` set (mt5Commands (storage ?sv2))"
        unfolding c2 using 2 \<open>inj fresh\<close> by (auto dest: injD)
      from Cons.IH(2) [OF this]
      have "set (delivered ?sv2)
          \<subseteq> set (delivered (retrySignalsLoop ?sv2 now fresh (Suc (Suc i)) L))" .
      then show ?case by auto
    }
  qed
  have next_fresh: "\<forall>j\<ge>Suc i. fresh j \<notin> fst ` set (mt5Commands (storage ?sv1))"
    unfolding cmds using Cons.prems(1,2) by (auto dest: injD)
  show ?case
  proof (cases "signal = s")
    case True
    let ?final = "retrySignalsLoop ?sv1 now fresh (Suc i) L"
    have a: "(fresh i, if openClients sv = [] then retryCommand s (fresh i) now
                        else asSent (retryCommand s (fresh i) now) now)
        \<in> set (mt5Commands (storage ?sv1))"
      unfolding cmds by simp
    have b: "\<forall>k\<in>set (openClients sv).
        (k, wireOf (retryCommand s (fresh i) now) None) \<in> set (delivered ?sv1)"
      by auto
    have a': "(fresh i, if openClients sv = [] then retryCommand s (fresh i) now
                        else asSent (retryCommand s (fresh i) now) now)
        \<in> set (mt5Commands (storage ?final))"
      using a keep_c [OF next_fresh] by blast
    have b': "\<forall>k\<in>set (openClients sv).
        (k, wireOf (retryCommand s (fresh i) now) None) \<in> set (delivered ?final)"
      using b keep_d [OF next_fresh] by blast
    show ?thesis
      unfolding True using a' b' by (intro exI [of _ i]) simp
  next
    case False
    then have "signal \<in> set L" using Cons.prems(3) by simp
    from Cons.IH [OF next_fresh Cons.prems(2) this]
    show ?thesis by simp
  qed
qed


lemma createSignal_frame [simp]:
  "settings (fst (createSignal st v uid now)) = settings st"
  "mt5Commands (fst (createSignal st v uid now)) = mt5Commands st"
  "signals (fst (createSignal st v uid now)) =
     AList.update uid (snd (createSignal emptyStorage v uid now)) (signals st)"
  "sig_id (snd (createSignal st v uid now)) = uid"
  by (simp_all add: createSignal_def Let_def)

lemma createSignal_snd:
  "snd (createSignal st v uid now) = snd (createSignal emptyStorage v uid now)"
  by (simp add: createSignal_def Let_def)

lemma getSettings_frame [simp]:
  "mt5Commands (fst (getSettings st)) = mt5Commands st"
  "signals (fst (getSettings st)) = signals st"
  "settings (fst (getSettings st)) = Some (snd (getSettings st))"
  by (simp_all add: getSettings_def split: option.splits)

lemma getSettings_cong: "settings a = settings b \<Longrightarrow> snd (getSettings a) = snd (getSettings b)"
  by (simp add: getSettings_def split: option.splits)

lemma updateSignalStatus_present:
  "map_of (signals st) sid = Some s \<Longrightarrow>
   signals (updateSignalStatus st sid status (Some m)) =
     AList.update sid (s\<lparr> sig_status := status, sig_errorMessage := m \<rparr>) (signals st)"
  by (simp add: updateSignalStatus_def Let_def)

lemma webhook_not_connected:
  assumes "\<not> isDuplicate (getSignals (storage sv) 100) v now"
    and "set_autoTrade (snd (getSettings (storage sv))) = ''true''"
    and "\<not> isMt5Connected (snd (getSettings (storage sv))) now"
  shows "snd (webhook sv v sigUid cmdUid now) = PendingMt5Connection sigUid"
    and "mt5WsClients (fst (webhook sv v sigUid cmdUid now)) = mt5WsClients sv"
    and "delivered (fst (webhook sv v sigUid cmdUid now)) = delivered sv"
    and "mt5Commands (storage (fst (webhook sv v sigUid cmdUid now))) = mt5Commands (storage sv)"
    and "settings (storage (fst (webhook sv v sigUid cmdUid now))) = Some (snd (getSettings (storage sv)))"
    and "signals (storage (fst (webhook sv v sigUid cmdUid now))) =
           AList.update sigUid (ingestedSignal v sigUid now) (signals (storage sv))"
proof -
  let ?st1 = "fst (createSignal (storage sv) v sigUid now)"
  have s: "snd (getSettings ?st1) = snd (getSettings (storage sv))"
    by (rule getSettings_cong) simp
  have w: "webhook sv v sigUid cmdUid now =
      (sv\<lparr> storage := updateSignalStatus (fst (getSettings ?st1)) sigUid ''pending''
            (Some (Some notConnectedText)) \<rparr>, PendingMt5Connection sigUid)"
    using assms
    by (simp add: webhook_def Let_def split_beta s notConnectedText_def)
  show "snd (webhook sv v sigUid cmdUid now) = PendingMt5Connection sigUid"
    and "mt5WsClients (fst (webhook sv v sigUid cmdUid now)) = mt5WsClients sv"
    and "delivered (fst (webhook sv v sigUid cmdUid now)) = delivered sv"
    and "mt5Commands (storage (fst (webhook sv v sigUid cmdUid now))) = mt5Commands (storage sv)"
    and "settings (storage (fst (webhook sv v sigUid cmdUid now))) = Some (snd (getSettings (storage sv)))"
    unfolding w by (simp_all add: s)
  show "signals (storage (fst (webhook sv v sigUid cmdUid now))) =
           AList.update sigUid (ingestedSignal v sigUid now) (signals (storage sv))"
  proof -
    have m: "map_of (signals (fst (getSettings ?st1))) sigUid =
        Some (snd (createSignal emptyStorage v sigUid now))"
      by (simp add: update_conv')
    show ?thesis
      unfolding w
      by (simp add: updateSignalStatus_present [OF m] ingestedSignal_def)
  qed
qed

lemma updateSignalStatus_length [simp]:
  "length (signals (updateSignalStatus st sid status e)) = length (signals st)"
proof -
  have "length (AList.update k v xs) = length xs" if "map_of xs k = Some w"
    for k v w and xs :: "(uuid \<times> Signal) list"
    using that by (induction xs) (auto split: if_splits)
  then show ?thesis
    by (auto simp: updateSignalStatus_def Let_def split: option.splits)
qed

lemma replayLoop_settings [simp]:
  "settings (storage (replayLoop sv now cs)) = settings (storage sv)"
  by (induction cs arbitrary: sv) (simp_all add: Let_def split_beta)

lemma replayLoop_signals_length [simp]:
  "length (signals (storage (replayLoop sv now cs))) = length (signals (storage sv))"
  by (induction cs arbitrary: sv) (simp_all add: Let_def split_beta)

lemma replayLoop_signal_other:
  "\<forall>c\<in>set cs. cmd_signalId c \<noteq> Some sid \<Longrightarrow>
   map_of (signals (storage (replayLoop sv now cs))) sid = map_of (signals (storage sv)) sid"
proof (induction cs arbitrary: sv)
  case Nil
  then show ?case by simp
next
  case (Cons c cs)
  have rest: "\<forall>c\<in>set cs. cmd_signalId c \<noteq> Some sid"
    using Cons.prems by simp
  have "map_of (signals (if truthy (cmd_signalId c)
        then updateSignalStatus st (the (cmd_signalId c)) ''pending''
               (Some (Some ''Executing after MT5 reconnection''))
        else st)) sid = map_of (signals st) sid" for st
  proof (cases "cmd_signalId c")
    case None
    then show ?thesis by simp
  next
    case (Some k)
    then have "k \<noteq> sid" using Cons.prems by auto
    then show ?thesis using Some by (simp add: updateSignalStatus_lookup)
  qed
  then show ?case
    by (simp add: Let_def split_beta Cons.IH [OF rest])
qed

lemma update_length_le: "length (AList.update k v xs) \<le> Suc (length xs)"
  by (induction xs) auto

lemma getPendingSignals_member:
  assumes "map_of (signals st) sid = Some s" and "sig_status s = ''pending''"
    and "length (signals st) \<le> limit"
  shows "s \<in> set (getPendingSignals st limit)"
proof -
  let ?xs = "filter (\<lambda>s. sig_status s = ''pending'') (map snd (signals st))"
  have "s \<in> set ?xs"
    using assms(1,2) by (force dest: map_of_SomeD)
  moreover have "length (newest_first ?xs) \<le> limit"
  proof -
    have "length (newest_first ?xs) = length ?xs"
      by (simp only: newest_first_def length_sort)
    also have "\<dots> \<le> length (map snd (signals st))"
      by (rule length_filter_le)
    also have "\<dots> = length (signals st)"
      by (rule length_map)
    finally show ?thesis using assms(3) by (rule le_trans)
  qed
  ultimately show ?thesis
    by (simp add: getPendingSignals_def newest_first_def)
qed


lemma ingestedSignal_fields [simp]:
  "sig_id (ingestedSignal v sigUid now) = sigUid"
  "sig_status (ingestedSignal v sigUid now) = ''pending''"
  "sig_errorMessage (ingestedSignal v sigUid now) = Some notConnectedText"
  by (simp_all add: ingestedSignal_def createSignal_def Let_def)

lemma retryCommand_fields [simp]:
  "cmd_id (retryCommand signal uid now) = uid"
  "cmd_signalId (retryCommand signal uid now) = Some (sig_id signal)"
  "cmd_action (retryCommand signal uid now) = ''TRADE''"
  "cmd_status (retryCommand signal uid now) = ''pending''"
  by (simp_all add: retryCommand_def enqueueCommand_def tradeInsert_def Let_def)

lemma wireOf_asSent [simp]: "wireOf (asSent c now) pid = wireOf c pid"
  by (simp add: wireOf_def asSent_def)

section \<open>Duplicate signals\<close>

lemma isDuplicate_iff:
  "isDuplicate recent s2 now \<longleftrightarrow> (\<exists>s1\<in>set recent. matches s1 s2 now)"
  by (auto simp: isDuplicate_def matches_def list_ex_iff Let_def)

subsection \<open>The window of the newest signals\<close>

lemma newest_first_sorted: "sorted (map (\<lambda>s. - sig_timestamp s) (newest_first xs))"
  by (simp add: newest_first_def)

lemma newest_first_set [simp]: "set (newest_first xs) = set xs"
  by (simp add: newest_first_def)

lemma newest_first_length [simp]: "length (newest_first xs) = length xs"
  by (simp add: newest_first_def)

lemma newest_first_filter_length:
  "length (filter P (newest_first xs)) = length (filter P xs)"
proof -
  have "length (filter P (sort_key f ys)) = length (filter P ys)"
    for f :: "Signal \<Rightarrow> int" and ys
  proof (induction ys)
    case Nil
    then show ?case by simp
  next
    case (Cons y ys)
    have "length (filter P (insort_key f y zs)) = length (filter P (y # zs))" for zs
      by (induction zs) auto
    then show ?case using Cons by simp
  qed
  then show ?thesis by (simp add: newest_first_def)
qed

text \<open>In a list sorted newest first, the signals from an instant on are a prefix.\<close>

lemma filter_takeWhile_newest:
  "sorted (map (\<lambda>s. - sig_timestamp s) xs) \<Longrightarrow>
   filter (\<lambda>s. c \<le> sig_timestamp s) xs = takeWhile (\<lambda>s. c \<le> sig_timestamp s) xs"
proof (induction xs)
  case Nil
  then show ?case by simp
next
  case (Cons a xs)
  show ?case
  proof (cases "c \<le> sig_timestamp a")
    case True
    then show ?thesis using Cons by simp
  next
    case False
    have "\<forall>y\<in>set xs. sig_timestamp y \<le> sig_timestamp a"
      using Cons.prems by auto
    then have "\<forall>y\<in>set xs. \<not> c \<le> sig_timestamp y"
      using False by auto
    then have "filter (\<lambda>s. c \<le> sig_timestamp s) xs = []"
      by (simp add: filter_empty_conv)
    then show ?thesis using False by simp
  qed
qed

lemma window_prefix:
  "\<exists>n. n = length (filter (\<lambda>s. c \<le> sig_timestamp s) xs) \<and>
       filter (\<lambda>s. c \<le> sig_timestamp s) (newest_first xs) = take n (newest_first xs)"
proof -
  let ?P = "\<lambda>s. c \<le> sig_timestamp s"
  let ?ys = "newest_first xs"
  have "filter ?P ?ys = takeWhile ?P ?ys"
    by (rule filter_takeWhile_newest [OF newest_first_sorted])
  also have "\<dots> = take (length (takeWhile ?P ?ys)) ?ys"
    by (rule takeWhile_eq_take)
  finally have e: "filter ?P ?ys = take (length (takeWhile ?P ?ys)) ?ys" .
  have "length (takeWhile ?P ?ys) = length (filter ?P ?ys)"
    by (simp only: filter_takeWhile_newest [OF newest_first_sorted])
  also have "\<dots> = length (filter ?P xs)"
    by (rule newest_first_filter_length)
  finally show ?thesis using e by simp
qed

text \<open>
  The window holds every signal from an instant on, when there are no more of them than
  the limit.
\<close>

lemma window_covers:
  assumes "s \<in> set xs" and "c \<le> sig_timestamp s"
    and "length (filter (\<lambda>s. c \<le> sig_timestamp s) xs) \<le> limit"
  shows "s \<in> set (take limit (newest_first xs))"
proof -
  let ?P = "\<lambda>s. c \<le> sig_timestamp s"
  obtain n where n: "n = length (filter ?P xs)"
    "filter ?P (newest_first xs) = take n (newest_first xs)"
    using window_prefix by blast
  have "s \<in> set (filter ?P (newest_first xs))"
    using assms(1,2) by simp
  then have "s \<in> set (take n (newest_first xs))"
    by (simp only: n(2))
  moreover have "set (take n (newest_first xs)) \<subseteq> set (take limit (newest_first xs))"
    using assms(3) n(1) by (simp add: set_take_subset_set_take)
  ultimately show ?thesis by blast
qed

text \<open>The window holds only signals from an instant on, when there are that many.\<close>

lemma window_excludes:
  assumes "limit \<le> length (filter (\<lambda>s. c \<le> sig_timestamp s) xs)"
    and "s \<in> set (take limit (newest_first xs))"
  shows "c \<le> sig_timestamp s"
proof -
  let ?P = "\<lambda>s. c \<le> sig_timestamp s"
  obtain n where n: "n = length (filter ?P xs)"
    "filter ?P (newest_first xs) = take n (newest_first xs)"
    using window_prefix by blast
  have "set (take limit (newest_first xs)) \<subseteq> set (take n (newest_first xs))"
    using assms(1) n(1) by (simp add: set_take_subset_set_take)
  then have "s \<in> set (filter ?P (newest_first xs))"
    using assms(2) by (auto simp only: n(2))
  then show ?thesis by simp
qed

text \<open>A stored signal outside the window is no newer than any signal in it.\<close>

lemma window_newest:
  assumes "a \<in> set (take limit (newest_first xs))" and "b \<in> set xs"
    and "b \<notin> set (take limit (newest_first xs))"
  shows "sig_timestamp b \<le> sig_timestamp a"
proof -
  let ?ys = "newest_first xs"
  have "b \<in> set (take limit ?ys @ drop limit ?ys)"
    using assms(2) by simp
  then have b: "b \<in> set (drop limit ?ys)"
    using assms(3) by (simp only: set_append) blast
  have "sorted (map (\<lambda>s. - sig_timestamp s) (take limit ?ys @ drop limit ?ys))"
    using newest_first_sorted [of xs] by simp
  then have "\<forall>x\<in>set (take limit ?ys). \<forall>y\<in>set (drop limit ?ys). - sig_timestamp x \<le> - sig_timestamp y"
    by (simp only: map_append sorted_append set_map) blast
  then show ?thesis using assms(1) b by auto
qed

lemma getSignals_subset: "set (getSignals st limit) \<subseteq> snd ` set (signals st)"
proof -
  have "set (take limit (newest_first (map snd (signals st)))) \<subseteq> set (newest_first (map snd (signals st)))"
    by (rule set_take_subset)
  then show ?thesis by (simp add: getSignals_def)
qed


lemma getSignals_length:
  "length (getSignals st limit) = min limit (length (signals st))"
  by (simp add: getSignals_def)

subsection \<open>The webhook on a duplicate and on a new signal\<close>

lemma webhookEnqueue_signal:
  "map_of (signals (storage (fst (webhookEnqueue sv signal cmdUid now)))) k \<noteq> None
   \<longleftrightarrow> map_of (signals (storage sv)) k \<noteq> None"
  by (simp add: webhookEnqueue_def Let_def split_beta updateSignalStatus_lookup
      enqueueCommand_def split: option.splits)

lemma webhook_creates_signal:
  assumes "\<not> isDuplicate (getSignals (storage sv) 100) s2 now"
  shows "snd (webhook sv s2 sigUid cmdUid now) \<noteq> DuplicateIgnored"
    and "getSignalById (storage (fst (webhook sv s2 sigUid cmdUid now))) sigUid \<noteq> None"
proof -
  show "snd (webhook sv s2 sigUid cmdUid now) \<noteq> DuplicateIgnored"
    using assms
    by (auto simp: webhook_def webhookEnqueue_def Let_def split_beta split: option.splits)
  let ?st2 = "fst (getSettings (fst (createSignal (storage sv) s2 sigUid now)))"
  have present: "map_of (signals ?st2) sigUid \<noteq> None"
    by (simp add: update_conv')
  have e: "map_of (signals (storage (fst (webhookEnqueue (sv\<lparr> storage := ?st2 \<rparr>)
        (snd (createSignal (storage sv) s2 sigUid now)) cmdUid now)))) sigUid \<noteq> None"
    using present by (simp only: webhookEnqueue_signal) simp
  show "getSignalById (storage (fst (webhook sv s2 sigUid cmdUid now))) sigUid \<noteq> None"
    using assms present e
    by (simp add: webhook_def Let_def split_beta getSignalById_def updateSignalStatus_lookup)
qed

text \<open>
  Claim C7, as the code has it. The webhook compares a new signal \<open>S2\<close> with the window
  it reads: at most 100 stored signals, none of the stored signals outside the window
  newer than one inside (the 100 newest). \<open>S2\<close> is classified a duplicate exactly when
  a signal \<open>S1\<close> of the window has the same resolved symbol, the same direction, a
  timestamp at most 60000 ms before the arrival of \<open>S2\<close>, and a status other than failed.
  When at most 100 stored signals have a timestamp within these 60000 ms, \<open>S1\<close> ranges
  over all stored signals. On a duplicate the webhook returns at once and the server
  state is unchanged, so no signal and no command is created; otherwise the new signal
  is stored.
\<close>

theorem webhook_duplicate_classification:
  "(isDuplicate (getSignals (storage sv) 100) s2 now \<longleftrightarrow>
      (\<exists>s1\<in>set (getSignals (storage sv) 100). matches s1 s2 now))
   \<and> set (getSignals (storage sv) 100) \<subseteq> snd ` set (signals (storage sv))
   \<and> length (getSignals (storage sv) 100) = min 100 (length (signals (storage sv)))
   \<and> (\<forall>a\<in>set (getSignals (storage sv) 100). \<forall>b\<in>snd ` set (signals (storage sv)).
         b \<notin> set (getSignals (storage sv) 100) \<longrightarrow> sig_timestamp b \<le> sig_timestamp a)
   \<and> (length (filter (\<lambda>s. now - 60000 \<le> sig_timestamp s) (map snd (signals (storage sv)))) \<le> 100
        \<longrightarrow> (isDuplicate (getSignals (storage sv) 100) s2 now \<longleftrightarrow>
               (\<exists>s1\<in>snd ` set (signals (storage sv)). matches s1 s2 now)))
   \<and> (isDuplicate (getSignals (storage sv) 100) s2 now \<longrightarrow>
        webhook sv s2 sigUid cmdUid now = (sv, DuplicateIgnored))
   \<and> (\<not> isDuplicate (getSignals (storage sv) 100) s2 now \<longrightarrow>
        snd (webhook sv s2 sigUid cmdUid now) \<noteq> DuplicateIgnored
        \<and> getSignalById (storage (fst (webhook sv s2 sigUid cmdUid now))) sigUid \<noteq> None)"
proof -
  let ?all = "map snd (signals (storage sv))"
  let ?W = "getSignals (storage sv) 100"
  have W: "?W = take 100 (newest_first ?all)"
    by (simp add: getSignals_def)
  have a: "isDuplicate ?W s2 now \<longleftrightarrow> (\<exists>s1\<in>set ?W. matches s1 s2 now)"
    by (rule isDuplicate_iff)
  have b: "set ?W \<subseteq> snd ` set (signals (storage sv))"
    by (rule getSignals_subset)
  have c: "length ?W = min 100 (length (signals (storage sv)))"
    by (rule getSignals_length)
  have d: "sig_timestamp y \<le> sig_timestamp x"
    if "x \<in> set ?W" "y \<in> snd ` set (signals (storage sv))" "y \<notin> set ?W" for x y
  proof -
    have y: "y \<in> set ?all" using that(2) by simp
    show ?thesis
      using that(1,3) unfolding W by (rule window_newest [OF _ y])
  qed
  have e: "isDuplicate ?W s2 now \<longleftrightarrow> (\<exists>s1\<in>snd ` set (signals (storage sv)). matches s1 s2 now)"
    if few: "length (filter (\<lambda>s. now - 60000 \<le> sig_timestamp s) ?all) \<le> 100"
  proof
    assume "isDuplicate ?W s2 now"
    then show "\<exists>s1\<in>snd ` set (signals (storage sv)). matches s1 s2 now"
      using a b by blast
  next
    assume "\<exists>s1\<in>snd ` set (signals (storage sv)). matches s1 s2 now"
    then obtain s1 where s1: "s1 \<in> set ?all" "matches s1 s2 now" by auto
    have "now - 60000 \<le> sig_timestamp s1"
      using s1(2) by (simp add: matches_def)
    then have "s1 \<in> set (take 100 (newest_first ?all))"
      using s1(1) few by (intro window_covers)
    then show "isDuplicate ?W s2 now"
      using s1(2) a W by auto
  qed
  have f: "webhook sv s2 sigUid cmdUid now = (sv, DuplicateIgnored)" if "isDuplicate ?W s2 now"
    using that by (simp add: webhook_def Let_def)
  note g = webhook_creates_signal [of sv s2 now sigUid cmdUid]
  show ?thesis
    using a b c d e f g by blast
qed

subsection \<open>The busy minute\<close>

lemma createAll_frame [simp]:
  "settings (createAll st t syms) = settings st"
  "mt5Commands (createAll st t syms) = mt5Commands st"
  by (induction syms arbitrary: st t) simp_all

lemma createAll_signals:
  "distinct syms \<Longrightarrow> set syms \<inter> fst ` set (signals st) = {} \<Longrightarrow>
   signals (createAll st t syms) = signals st @ created t syms"
proof (induction syms arbitrary: st t)
  case Nil
  then show ?case by simp
next
  case (Cons a syms)
  let ?st1 = "fst (createSignal st (exampleSignal\<lparr> ins_symbol := a \<rparr>) a t)"
  have fresh: "a \<notin> fst ` set (signals st)"
    using Cons.prems(2) by auto
  have s1: "signals ?st1 = signals st @
      [(a, snd (createSignal emptyStorage (exampleSignal\<lparr> ins_symbol := a \<rparr>) a t))]"
    using fresh by (simp add: update_fresh)
  have "set syms \<inter> fst ` set (signals ?st1) = {}"
    unfolding s1 using Cons.prems by auto
  then have "signals (createAll ?st1 (t + 10) syms) = signals ?st1 @ created (t + 10) syms"
    using Cons.prems(1) by (intro Cons.IH) simp
  then have "signals (createAll ?st1 (t + 10) syms) =
      (signals st @ [(a, snd (createSignal emptyStorage (exampleSignal\<lparr> ins_symbol := a \<rparr>) a t))])
        @ created (t + 10) syms"
    by (simp only: s1)
  then show ?case by simp
qed

lemma created_fields:
  "(k, s) \<in> set (created t syms) \<Longrightarrow>
   k \<in> set syms \<and> sig_symbol s = k \<and> t \<le> sig_timestamp s"
proof (induction syms arbitrary: t)
  case Nil
  then show ?case by simp
next
  case (Cons a syms)
  show ?case
  proof (cases "(k, s) \<in> set (created (t + 10) syms)")
    case True
    from Cons.IH [OF this] show ?thesis by simp
  next
    case False
    then have "(k, s) = (a, snd (createSignal emptyStorage (exampleSignal\<lparr> ins_symbol := a \<rparr>) a t))"
      using Cons.prems by simp
    then show ?thesis by (simp add: createSignal_def Let_def)
  qed
qed

lemma created_length [simp]: "length (created t syms) = length syms"
  by (induction syms arbitrary: t) simp_all

lemma crowdSymbols_facts:
  "distinct crowdSymbols" "length crowdSymbols = 100"
  "''s1'' \<notin> set crowdSymbols" "''EURUSD'' \<notin> set crowdSymbols"
  by (simp_all add: crowdSymbols_def)

lemma firstSignalServer_signals:
  "signals (storage firstSignalServer) =
     [(''s1'', \<lparr> sig_id = ''s1'', sig_type = ''BUY'', sig_symbol = ''EURUSD'', sig_price = None,
        sig_timestamp = 1000, sig_source = ''tradingview'', sig_status = ''pending'',
        sig_errorMessage = Some ''MT5 not connected - signal will execute when MT5 connects'',
        sig_indicatorType = None, sig_entryPrice = None, sig_stopLoss = Some ''1.08500'',
        sig_takeProfit = Some ''1.08800'' \<rparr>)]"
  "settings (storage firstSignalServer) = Some (defaultSettings None)"
  by (simp_all add: firstSignalServer_def webhook_def emptyServer_def emptyStorage_def
      exampleSignal_def getSignals_def newest_first_def isDuplicate_def createSignal_def
      getSettings_def defaultSettings_def isMt5Connected_def updateSignalStatus_def
      or_default_def Let_def)

lemma crowded_signals:
  "signals (storage crowded) = signals (storage firstSignalServer) @ created 1010 crowdSymbols"
  unfolding crowded_def
  by (simp add: createAll_signals crowdSymbols_facts firstSignalServer_signals)

lemma crowded_not_duplicate:
  "\<not> isDuplicate (getSignals (storage crowded) 100) exampleSignal 3000"
proof
  let ?all = "map snd (signals (storage crowded))"
  assume "isDuplicate (getSignals (storage crowded) 100) exampleSignal 3000"
  then obtain s where s: "s \<in> set (take 100 (newest_first ?all))" "matches s exampleSignal 3000"
    by (auto simp: isDuplicate_iff getSignals_def)
  have new: "\<forall>x\<in>set (map snd (created 1010 crowdSymbols)). 1010 \<le> sig_timestamp x"
    using created_fields by fastforce
  have "filter (\<lambda>x. 1010 \<le> sig_timestamp x) ?all = map snd (created 1010 crowdSymbols)"
    unfolding crowded_signals using new
    by (simp add: firstSignalServer_signals filter_id_conv)
  then have "100 \<le> length (filter (\<lambda>x. 1010 \<le> sig_timestamp x) ?all)"
    by (simp add: crowdSymbols_facts)
  then have ts: "1010 \<le> sig_timestamp s"
    using s(1) by (rule window_excludes)
  have "s \<in> set ?all"
    using s(1) by (meson in_set_takeD newest_first_set [THEN equalityD1, THEN subsetD])
  then have "s \<in> snd ` set (created 1010 crowdSymbols)"
    unfolding crowded_signals using ts by (auto simp: firstSignalServer_signals)
  then have "sig_symbol s \<in> set crowdSymbols"
    using created_fields by fastforce
  moreover have "sig_symbol s = ''EURUSD''"
    using s(2) by (simp add: matches_def exampleSignal_def)
  ultimately show False
    using crowdSymbols_facts(4) by simp
qed

text \<open>
  The scenario's signal, BUY EURUSD, is stored at 1000 ms with status pending, and one
  hundred signals for other symbols follow until 2000 ms. The same BUY EURUSD signal
  arriving at 3000 ms has the stored one as a match on all four conditions, 2000 ms
  earlier, and is not classified a duplicate: a second signal is stored.
\<close>

theorem webhook_duplicate_window_counterexample:
  "map_option (\<lambda>s. (sig_symbol s, sig_type s, sig_timestamp s, sig_status s))
      (getSignalById (storage crowded) ''s1'') = Some (''EURUSD'', ''BUY'', 1000, ''pending'')
   \<and> map_option (\<lambda>s. matches s exampleSignal 3000) (getSignalById (storage crowded) ''s1'')
        = Some True
   \<and> length (signals (storage crowded)) = 101
   \<and> \<not> isDuplicate (getSignals (storage crowded) 100) exampleSignal 3000
   \<and> snd (webhook crowded exampleSignal ''s2'' ''c2'' 3000) = PendingMt5Connection ''s2''
   \<and> getSignalById (storage (fst (webhook crowded exampleSignal ''s2'' ''c2'' 3000))) ''s2'' \<noteq> None"
proof -
  have s1: "getSignalById (storage crowded) ''s1'' =
      Some (snd (hd (signals (storage firstSignalServer))))"
    by (simp add: getSignalById_def crowded_signals firstSignalServer_signals)
  have a: "map_option (\<lambda>s. (sig_symbol s, sig_type s, sig_timestamp s, sig_status s))
      (getSignalById (storage crowded) ''s1'') = Some (''EURUSD'', ''BUY'', 1000, ''pending'')"
    unfolding s1 by (simp add: firstSignalServer_signals)
  have b: "map_option (\<lambda>s. matches s exampleSignal 3000) (getSignalById (storage crowded) ''s1'')
        = Some True"
    unfolding s1 by (simp add: firstSignalServer_signals matches_def exampleSignal_def)
  have c: "length (signals (storage crowded)) = 101"
    by (simp add: crowded_signals firstSignalServer_signals crowdSymbols_facts)
  have auto: "set_autoTrade (snd (getSettings (storage crowded))) = ''true''"
    and stale: "\<not> isMt5Connected (snd (getSettings (storage crowded))) 3000"
    by (simp_all add: crowded_def getSettings_def firstSignalServer_signals defaultSettings_def
        isMt5Connected_def)
  note w = webhook_not_connected [OF crowded_not_duplicate auto stale, of "''s2''" "''c2''"]
  have d: "getSignalById (storage (fst (webhook crowded exampleSignal ''s2'' ''c2'' 3000))) ''s2'' \<noteq> None"
    unfolding getSignalById_def w(6) by (simp add: update_conv')
  show ?thesis
    using a b c crowded_not_duplicate w(1) d by simp
qed

text \<open>
  With only the scenario's signal stored, the same signal arriving 60000 ms after it is
  ignored; 60001 ms after, it is accepted and stored.
\<close>

theorem webhook_duplicate_witness:
  "webhook firstSignalServer exampleSignal ''s2'' ''c2'' 61000 = (firstSignalServer, DuplicateIgnored)
   \<and> snd (webhook firstSignalServer exampleSignal ''s2'' ''c2'' 61001) \<noteq> DuplicateIgnored
   \<and> getSignalById (storage (fst (webhook firstSignalServer exampleSignal ''s2'' ''c2'' 61001))) ''s2''
        \<noteq> None"
proof -
  have few: "length (filter (\<lambda>s. t - 60000 \<le> sig_timestamp s)
      (map snd (signals (storage firstSignalServer)))) \<le> 100" for t :: int
    by (simp add: firstSignalServer_signals)
  have m: "(\<exists>s1\<in>snd ` set (signals (storage firstSignalServer)). matches s1 exampleSignal 61000)"
    by (simp add: firstSignalServer_signals matches_def exampleSignal_def)
  have n: "\<not> (\<exists>s1\<in>snd ` set (signals (storage firstSignalServer)). matches s1 exampleSignal 61001)"
    by (simp add: firstSignalServer_signals matches_def exampleSignal_def)
  have a: "webhook firstSignalServer exampleSignal ''s2'' ''c2'' 61000 = (firstSignalServer, DuplicateIgnored)"
    using webhook_duplicate_classification [of firstSignalServer exampleSignal 61000 "''s2''" "''c2''"]
      few [of 61000] m
    by blast
  have b: "snd (webhook firstSignalServer exampleSignal ''s2'' ''c2'' 61001) \<noteq> DuplicateIgnored
   \<and> getSignalById (storage (fst (webhook firstSignalServer exampleSignal ''s2'' ''c2'' 61001))) ''s2''
        \<noteq> None"
    using webhook_duplicate_classification [of firstSignalServer exampleSignal 61001 "''s2''" "''c2''"]
      few [of 61001] n
    by blast
  show ?thesis using a b by simp
qed

section \<open>Replay on connection: the order of the queue\<close>

lemma queueOrder_update:
  "map_of xs k = Some c \<Longrightarrow> cmd_id c' = cmd_id c \<Longrightarrow> cmd_createdAt c' = cmd_createdAt c \<Longrightarrow>
   queueOrder (AList.update k c' xs) = queueOrder xs"
  by (induction xs) (auto simp: queueOrder_def split: if_splits)

lemma queueOrder_keys:
  "wf_commands st \<Longrightarrow> map fst (queueOrder (mt5Commands st)) = map fst (mt5Commands st)"
proof -
  assume wf: "wf_commands st"
  have "map fst (queueOrder (mt5Commands st)) = map cmd_id (map snd (mt5Commands st))"
    by (simp add: queueOrder_def comp_def)
  also have "\<dots> = map fst (mt5Commands st)"
    using wf by (intro wf_ids) (simp_all add: wf_commands_def)
  finally show ?thesis .
qed

lemma queueOrder_markCommandAsSent [simp]:
  "queueOrder (mt5Commands (markCommandAsSent st cid now)) = queueOrder (mt5Commands st)"
  by (simp add: markCommandAsSent_def queueOrder_update split: option.splits)

lemma queueOrder_markCommandAsAcknowledged [simp]:
  "queueOrder (mt5Commands (markCommandAsAcknowledged st cid now)) = queueOrder (mt5Commands st)"
  by (simp add: markCommandAsAcknowledged_def queueOrder_update split: option.splits)

lemma queueOrder_markCommandAsFailed [simp]:
  "queueOrder (mt5Commands (markCommandAsFailed st cid m)) = queueOrder (mt5Commands st)"
  by (simp add: markCommandAsFailed_def queueOrder_update split: option.splits)

lemma queueOrder_retryLoop:
  "wf_commands st \<Longrightarrow>
   \<forall>c\<in>set cs. \<exists>c'. map_of (mt5Commands st) (cmd_id c) = Some c' \<and>
      cmd_createdAt c' = cmd_createdAt c \<Longrightarrow>
   queueOrder (mt5Commands (retryLoop st cs)) = queueOrder (mt5Commands st)"
proof (induction cs arbitrary: st)
  case Nil
  then show ?case by simp
next
  case (Cons c cs)
  let ?st1 = "st\<lparr> mt5Commands := AList.update (cmd_id c) (failTimedOut c) (mt5Commands st) \<rparr>"
  obtain c' where c': "map_of (mt5Commands st) (cmd_id c) = Some c'"
    "cmd_createdAt c' = cmd_createdAt c"
    using Cons.prems(2) by auto
  have id: "cmd_id c' = cmd_id c"
    by (rule wf_entry [OF Cons.prems(1) c'(1)])
  have q: "queueOrder (mt5Commands ?st1) = queueOrder (mt5Commands st)"
    using c' id by (simp add: queueOrder_update failTimedOut_def)
  have wf1: "wf_commands ?st1"
    by (rule wf_update [OF Cons.prems(1)]) (simp add: failTimedOut_def)
  have rest: "\<forall>d\<in>set cs. \<exists>d'. map_of (mt5Commands ?st1) (cmd_id d) = Some d' \<and>
      cmd_createdAt d' = cmd_createdAt d"
  proof
    fix d assume d: "d \<in> set cs"
    then obtain d' where d': "map_of (mt5Commands st) (cmd_id d) = Some d'"
      "cmd_createdAt d' = cmd_createdAt d"
      using Cons.prems(2) by auto
    show "\<exists>d'. map_of (mt5Commands ?st1) (cmd_id d) = Some d' \<and> cmd_createdAt d' = cmd_createdAt d"
    proof (cases "cmd_id d = cmd_id c")
      case True
      then have "d' = c'" using d'(1) c'(1) by simp
      then show ?thesis using True d'(2) c'(2) by (simp add: update_conv' failTimedOut_def)
    next
      case False
      then show ?thesis using d' by (simp add: update_conv')
    qed
  qed
  have "queueOrder (mt5Commands (retryLoop ?st1 cs)) = queueOrder (mt5Commands ?st1)"
    by (rule Cons.IH [OF wf1 rest])
  then show ?case using q by simp
qed

lemma queueOrder_retryTimedOutCommands:
  assumes "wf_commands st"
  shows "queueOrder (mt5Commands (retryTimedOutCommands st now)) = queueOrder (mt5Commands st)"
proof -
  have "\<exists>c'. map_of (mt5Commands st) (cmd_id c) = Some c' \<and> cmd_createdAt c' = cmd_createdAt c"
    if "c \<in> set (filter (timedOut now) (map snd (mt5Commands st)))" for c
  proof -
    have "c \<in> snd ` set (mt5Commands st)" using that by auto
    then have "map_of (mt5Commands st) (cmd_id c) = Some c"
      by (rule wf_lookup [OF assms])
    then show ?thesis by blast
  qed
  then show ?thesis
    unfolding retryTimedOutCommands_def
    by (intro queueOrder_retryLoop [OF assms]) blast
qed

lemma queueOrder_enqueueCommand:
  "uid \<notin> fst ` set (mt5Commands st) \<Longrightarrow>
   queueOrder (mt5Commands (fst (enqueueCommand st ins uid now)))
     = queueOrder (mt5Commands st) @ [(uid, now)]"
  by (simp add: enqueueCommand_def Let_def update_fresh queueOrder_def)

lemma queueOrder_applyOp:
  assumes "wf_commands st" and "fst ` set (enqueuedBy op) \<inter> fst ` set (mt5Commands st) = {}"
  shows "queueOrder (mt5Commands (applyOp st op)) = queueOrder (mt5Commands st) @ enqueuedBy op"
proof (cases op)
  case (Enqueue ins uid now)
  then have "uid \<notin> fst ` set (mt5Commands st)" using assms(2) by simp
  then show ?thesis using Enqueue by (simp add: queueOrder_enqueueCommand)
next
  case (RetryTimedOut now)
  then show ?thesis by (simp add: queueOrder_retryTimedOutCommands [OF assms(1)])
qed simp_all

text \<open>
  The queue lists the commands in the order of their enqueues, each with the clock
  reading of its enqueue, whatever was marked or swept in between.
\<close>

lemma queueOrder_applyOps:
  "wf_commands st \<Longrightarrow>
   distinct (map fst (mt5Commands st) @ map fst (enqueued ops)) \<Longrightarrow>
   queueOrder (mt5Commands (applyOps st ops)) = queueOrder (mt5Commands st) @ enqueued ops
   \<and> wf_commands (applyOps st ops)"
proof (induction ops arbitrary: st)
  case Nil
  then show ?case by (simp add: applyOps_def enqueued_def)
next
  case (Cons op ops)
  have e: "enqueued (op # ops) = enqueuedBy op @ enqueued ops"
    by (simp add: enqueued_def)
  have disj: "fst ` set (enqueuedBy op) \<inter> fst ` set (mt5Commands st) = {}"
    using Cons.prems(2) unfolding e by auto
  have q1: "queueOrder (mt5Commands (applyOp st op)) = queueOrder (mt5Commands st) @ enqueuedBy op"
    by (rule queueOrder_applyOp [OF Cons.prems(1) disj])
  have wf1: "wf_commands (applyOp st op)"
    by (rule wf_applyOp [OF Cons.prems(1)])
  have "map fst (mt5Commands (applyOp st op)) = map fst (queueOrder (mt5Commands (applyOp st op)))"
    by (simp only: queueOrder_keys [OF wf1])
  also have "\<dots> = map fst (mt5Commands st) @ map fst (enqueuedBy op)"
    unfolding q1 by (simp add: queueOrder_keys [OF Cons.prems(1)])
  finally have k1: "map fst (mt5Commands (applyOp st op)) =
      map fst (mt5Commands st) @ map fst (enqueuedBy op)" .
  have d1: "distinct (map fst (mt5Commands (applyOp st op)) @ map fst (enqueued ops))"
    unfolding k1 using Cons.prems(2) unfolding e by simp
  from Cons.IH [OF wf1 d1]
  have "queueOrder (mt5Commands (applyOps (applyOp st op) ops))
      = queueOrder (mt5Commands (applyOp st op)) @ enqueued ops"
    and "wf_commands (applyOps (applyOp st op) ops)"
    by simp_all
  then show ?case
    unfolding q1 e by (simp add: applyOps_def)
qed

lemma connectionOpen_open: "ws \<in> set (openClients (connectionOpen sv ws now))"
proof -
  have "(ws, True) \<in> set (AList.update ws True cl)" for cl :: "(nat \<times> bool) list"
    by (induction cl) auto
  then have "(ws, True) \<in> set (filter snd (AList.update ws True (mt5WsClients sv)))"
    by simp
  then show ?thesis
    unfolding openClients_def connectionOpen_def by force
qed

text \<open>
  Claim C5, as the code has it. The queue of the store is the result of a sequence of
  queue operations (enqueue, the three marks, the timeout sweep) on the empty store, each
  enqueue under a new identifier. When the agent connects, the replay pass takes exactly
  the commands whose status is pending at that time, in the order of the queue, which is
  the order in which they were enqueued; this is ascending creation time when the clock
  readings of the enqueues never decrease. Each of them is sent once to every open
  client, the new one among them, as the message that carries its identifier, action,
  symbol, direction, parsed volume, stop and target, and position identifier. None of
  them has status sent, so no sent command is sent again. After the pass every command
  that was pending is sent, with the connection time as its sent time, and every other
  command is unchanged.
\<close>

theorem connection_replay_queue_order:
  assumes history: "mt5Commands (storage sv) = mt5Commands (applyOps emptyStorage ops)"
    and fresh: "distinct (map fst (enqueued ops))"
  shows "let sv0 = connectionOpen sv ws now;
             queue = map snd (mt5Commands (storage sv));
             pending = filter (\<lambda>c. cmd_status c = ''pending'') queue;
             sv1 = replayLoop sv0 now (commandsToResend (storage sv0))
         in commandsToResend (storage sv0) = pending
          \<and> map (\<lambda>c. (cmd_id c, cmd_createdAt c)) queue = enqueued ops
          \<and> (sorted (map snd (enqueued ops)) \<longrightarrow> sorted (map cmd_createdAt pending))
          \<and> ws \<in> set (openClients sv0)
          \<and> delivered sv1 = delivered sv @
              concat (map (\<lambda>c. map (\<lambda>client. (client,
                  \<lparr> w_id = cmd_id c, w_action = cmd_action c, w_symbol = cmd_symbol c,
                    w_type = cmd_type c, w_volume = parseIfTruthy (cmd_volume c),
                    w_stopLoss = parseIfTruthy (cmd_stopLoss c),
                    w_takeProfit = parseIfTruthy (cmd_takeProfit c),
                    w_positionId = cmd_positionId c \<rparr>)) (openClients sv0)) pending)
          \<and> list_all (\<lambda>c. cmd_status c \<noteq> ''sent'') pending
          \<and> list_all (\<lambda>c. getCommandById (storage sv1) (cmd_id c) =
                (if cmd_status c = ''pending''
                 then Some (c\<lparr> cmd_status := ''sent'', cmd_sentAt := Some now \<rparr>)
                 else Some c)) queue"
proof -
  let ?sv0 = "connectionOpen sv ws now"
  let ?cmds = "map snd (mt5Commands (storage sv))"
  let ?pending = "filter (\<lambda>c. cmd_status c = ''pending'') ?cmds"
  let ?sv1 = "replayLoop ?sv0 now (commandsToResend (storage ?sv0))"
  have empty: "wf_commands emptyStorage" "mt5Commands emptyStorage = []"
    by (simp_all add: wf_commands_def emptyStorage_def)
  have "distinct (map fst (mt5Commands emptyStorage) @ map fst (enqueued ops))"
    using fresh by (simp add: empty(2))
  from queueOrder_applyOps [OF empty(1) this]
  have q: "queueOrder (mt5Commands (storage sv)) = enqueued ops"
    and "wf_commands (applyOps emptyStorage ops)"
    unfolding history by (simp_all add: empty(2) queueOrder_def)
  then have wf: "wf_commands (storage sv)"
    by (simp add: wf_commands_def history)
  have a: "commandsToResend (storage ?sv0) = ?pending"
    by (simp add: commandsToResend_eq)
  have o: "map (\<lambda>c. (cmd_id c, cmd_createdAt c)) ?cmds = enqueued ops"
    using q by (simp add: queueOrder_def)
  have c: "sorted (map cmd_createdAt ?pending)" if "sorted (map snd (enqueued ops))"
  proof -
    have "map cmd_createdAt ?cmds = map snd (map (\<lambda>c. (cmd_id c, cmd_createdAt c)) ?cmds)"
      by (simp add: comp_def)
    then have "sorted (map cmd_createdAt ?cmds)"
      using that by (simp only: o)
    then show ?thesis by (rule sorted_filter)
  qed
  have b: "delivered ?sv1 = delivered sv @
              concat (map (\<lambda>c. map (\<lambda>client. (client,
                  \<lparr> w_id = cmd_id c, w_action = cmd_action c, w_symbol = cmd_symbol c,
                    w_type = cmd_type c, w_volume = parseIfTruthy (cmd_volume c),
                    w_stopLoss = parseIfTruthy (cmd_stopLoss c),
                    w_takeProfit = parseIfTruthy (cmd_takeProfit c),
                    w_positionId = cmd_positionId c \<rparr>)) (openClients ?sv0)) ?pending)"
    by (simp add: a replayLoop_delivered wireOf_def)
  have d: "list_all (\<lambda>c. cmd_status c \<noteq> ''sent'') ?pending"
    by (simp add: list_all_iff)
  have e: "getCommandById (storage ?sv1) (cmd_id c) =
      (if cmd_status c = ''pending''
       then Some (c\<lparr> cmd_status := ''sent'', cmd_sentAt := Some now \<rparr>) else Some c)"
    if "c \<in> set ?cmds" for c
  proof -
    have l: "map_of (mt5Commands (storage sv)) (cmd_id c) = Some c"
      by (rule wf_lookup [OF wf]) (use that in simp)
    have m: "cmd_id c \<in> cmd_id ` set ?pending \<longleftrightarrow> cmd_status c = ''pending''"
    proof
      assume "cmd_id c \<in> cmd_id ` set ?pending"
      then obtain c' where c': "c' \<in> set ?cmds" "cmd_status c' = ''pending''" "cmd_id c' = cmd_id c"
        by force
      have "map_of (mt5Commands (storage sv)) (cmd_id c') = Some c'"
        by (rule wf_lookup [OF wf]) (use c'(1) in simp)
      then have "c' = c" using l c'(3) by (metis option.inject)
      then show "cmd_status c = ''pending''" using c'(2) by simp
    next
      assume "cmd_status c = ''pending''"
      then show "cmd_id c \<in> cmd_id ` set ?pending" using that by auto
    qed
    have "map_of (mt5Commands (storage ?sv1)) (cmd_id c) =
        (if cmd_id c \<in> cmd_id ` set ?pending
         then map_option (\<lambda>c. c\<lparr> cmd_status := ''sent'', cmd_sentAt := Some now \<rparr>)
                (map_of (mt5Commands (storage ?sv0)) (cmd_id c))
         else map_of (mt5Commands (storage ?sv0)) (cmd_id c))"
      by (simp only: replayLoop_lookup a)
    then show ?thesis
      unfolding m getCommandById_def using l by simp
  qed
  have f: "ws \<in> set (openClients ?sv0)"
    by (rule connectionOpen_open)
  show ?thesis
    unfolding Let_def using a o c f b d e by (simp add: list_all_iff)
qed

lemmas replayExample_defs = replayExample_def markCommandAsSent_def enqueueCommand_def
  emptyStorage_def exampleInsert_def Let_def

text \<open>
  The first command was enqueued at 5000 ms and the second at 4000 ms, the clock having
  been set back in between. The replay sends the first before the second, to the client
  that was open and to the new one: not in ascending creation time.
\<close>

theorem connection_replay_clock_counterexample:
  "map (\<lambda>c. (cmd_id c, cmd_createdAt c, cmd_status c))
       (map snd (mt5Commands (storage clockBack)))
     = [(''c1'', 5000, ''pending''), (''c2'', 4000, ''pending'')]
   \<and> map (\<lambda>(k, m). (k, w_id m))
       (delivered (replayLoop (connectionOpen clockBack 7 6000) 6000
          (commandsToResend (storage (connectionOpen clockBack 7 6000)))))
     = [(3, ''c1''), (7, ''c1''), (3, ''c2''), (7, ''c2'')]
   \<and> \<not> sorted (map cmd_createdAt (commandsToResend (storage (connectionOpen clockBack 7 6000))))"
  unfolding replayLoop_delivered commandsToResend_eq
  by (simp add: clockBack_def applyOps_def enqueueCommand_def emptyStorage_def exampleInsert_def
      wireOf_def openClients_def connectionOpen_def updateMt5Heartbeat_def Let_def)

text \<open>
  With the queue c1 (pending), c2 (sent), c3 (pending), enqueued at 0, 10 and 20 ms,
  client 7 receives c1 and then c3.
\<close>

theorem connection_replay_witness:
  "map (\<lambda>(k, m). (k, w_id m, w_action m, w_symbol m))
     (delivered (replayLoop (connectionOpen replayExample 7 5000) 5000
        (commandsToResend (storage (connectionOpen replayExample 7 5000)))))
   = [(7, ''c1'', ''TRADE'', Some ''EURUSD''), (7, ''c3'', ''TRADE'', Some ''EURUSD'')]
   \<and> sorted (map cmd_createdAt
        (filter (\<lambda>c. cmd_status c = ''pending'') (map snd (mt5Commands (storage replayExample)))))"
proof -
  have history: "mt5Commands (storage replayExample) = mt5Commands (applyOps emptyStorage replayHistory)"
    by (simp add: replayExample_defs replayHistory_def applyOps_def)
  have fresh: "distinct (map fst (enqueued replayHistory))"
    by (simp add: enqueued_def replayHistory_def)
  have clock: "sorted (map snd (enqueued replayHistory))"
    by (simp add: enqueued_def replayHistory_def)
  have single: "openClients (connectionOpen replayExample 7 5000) = [7]"
    by (simp add: openClients_def connectionOpen_def replayExample_def)
  note t = connection_replay_queue_order [OF history fresh, of 7 5000, unfolded Let_def single]
  have s: "sorted (map cmd_createdAt
        (filter (\<lambda>c. cmd_status c = ''pending'') (map snd (mt5Commands (storage replayExample)))))"
    using t clock by blast
  have "delivered (replayLoop (connectionOpen replayExample 7 5000) 5000
          (commandsToResend (storage (connectionOpen replayExample 7 5000)))) =
        delivered replayExample @
              concat (map (\<lambda>c. map (\<lambda>client. (client,
                  \<lparr> w_id = cmd_id c, w_action = cmd_action c, w_symbol = cmd_symbol c,
                    w_type = cmd_type c, w_volume = parseIfTruthy (cmd_volume c),
                    w_stopLoss = parseIfTruthy (cmd_stopLoss c),
                    w_takeProfit = parseIfTruthy (cmd_takeProfit c),
                    w_positionId = cmd_positionId c \<rparr>)) [7])
                (filter (\<lambda>c. cmd_status c = ''pending'') (map snd (mt5Commands (storage replayExample)))))"
    using t by blast
  then have "map (\<lambda>(k, m). (k, w_id m, w_action m, w_symbol m))
     (delivered (replayLoop (connectionOpen replayExample 7 5000) 5000
        (commandsToResend (storage (connectionOpen replayExample 7 5000)))))
   = [(7, ''c1'', ''TRADE'', Some ''EURUSD''), (7, ''c3'', ''TRADE'', Some ''EURUSD'')]"
    by (simp add: replayExample_defs)
  then show ?thesis using s by simp
qed

section \<open>A signal that arrives while no client is connected\<close>

subsection \<open>The webhook with a recent heartbeat and no client\<close>

lemma webhook_queued:
  assumes notdup: "\<not> isDuplicate (getSignals (storage sv) 100) v now"
    and auto: "set_autoTrade (snd (getSettings (storage sv))) = ''true''"
    and recent: "isMt5Connected (snd (getSettings (storage sv))) now"
    and valid: "isValidSymbol (ins_symbol v)"
    and noclient: "openClients sv = []"
    and unref: "\<not> list_ex (\<lambda>cmd. cmd_signalId cmd = Some sigUid) (getPendingCommands (storage sv))"
    and cmdfresh: "cmdUid \<notin> fst ` set (mt5Commands (storage sv))"
  shows "snd (webhook sv v sigUid cmdUid now) = Queued sigUid"
    and "delivered (fst (webhook sv v sigUid cmdUid now)) = delivered sv"
    and "mt5Commands (storage (fst (webhook sv v sigUid cmdUid now))) =
           mt5Commands (storage sv) @
             [(cmdUid, newCommand (snd (createSignal emptyStorage v sigUid now)) cmdUid now)]"
    and "getSignalById (storage (fst (webhook sv v sigUid cmdUid now))) sigUid =
           Some ((snd (createSignal emptyStorage v sigUid now))\<lparr> sig_status := ''pending'' \<rparr>)"
proof -
  let ?signal = "snd (createSignal emptyStorage v sigUid now)"
  let ?st1 = "fst (createSignal (storage sv) v sigUid now)"
  let ?st2 = "fst (getSettings ?st1)"
  let ?sv2 = "sv\<lparr> storage := ?st2 \<rparr>"
  have s: "snd (getSettings ?st1) = snd (getSettings (storage sv))"
    by (rule getSettings_cong) simp
  have id: "sig_id ?signal = sigUid" "sig_symbol ?signal = ins_symbol v"
    by (simp_all add: createSignal_def Let_def)
  have w: "webhook sv v sigUid cmdUid now = webhookEnqueue ?sv2 ?signal cmdUid now"
    using notdup auto recent valid
    by (simp add: webhook_def Let_def split_beta s createSignal_snd [of "storage sv"] id)
  have g: "getPendingCommands (updateSignalStatus ?st2 sigUid ''pending'' None)
      = getPendingCommands (storage sv)"
    by (simp add: getPendingCommands_def)
  have none: "find (\<lambda>cmd. cmd_signalId cmd = Some sigUid) (getPendingCommands (storage sv)) = None"
    using unref by (simp add: find_None_list_ex)
  have o: "openClients ?sv2 = []"
    using noclient by simp
  have e: "webhookEnqueue ?sv2 ?signal cmdUid now =
      (fst (sendCommandToMT5
         (?sv2\<lparr> storage := fst (enqueueCommand (updateSignalStatus ?st2 sigUid ''pending'' None)
             (tradeInsert ?signal
                (if truthy (sig_stopLoss ?signal) \<and> truthy (sig_takeProfit ?signal)
                 then sig_stopLoss ?signal else None)
                (if truthy (sig_stopLoss ?signal) \<and> truthy (sig_takeProfit ?signal)
                 then sig_takeProfit ?signal else None)) cmdUid now) \<rparr>)
         (wireOf (newCommand ?signal cmdUid now) None)), Queued sigUid)"
    using none o
    by (simp add: webhookEnqueue_def Let_def split_beta id g newCommand_def enqueueCommand_def)
  show "snd (webhook sv v sigUid cmdUid now) = Queued sigUid"
    unfolding w e by simp
  show "delivered (fst (webhook sv v sigUid cmdUid now)) = delivered sv"
    unfolding w e using noclient by simp
  have fresh2: "cmdUid \<notin> fst ` set (mt5Commands (storage ?sv2))"
    using cmdfresh by simp
  have "mt5Commands (storage (fst (webhookEnqueue ?sv2 ?signal cmdUid now))) =
      mt5Commands (storage ?sv2) @ [(cmdUid, newCommand ?signal cmdUid now)]"
    using unref o unfolding webhookEnqueue_commands [OF fresh2]
    by (simp add: id getPendingCommands_def)
  then show "mt5Commands (storage (fst (webhook sv v sigUid cmdUid now))) =
           mt5Commands (storage sv) @ [(cmdUid, newCommand ?signal cmdUid now)]"
    unfolding w by simp
  have m: "map_of (signals ?st2) sigUid = Some ?signal"
    by (simp add: update_conv')
  show "getSignalById (storage (fst (webhook sv v sigUid cmdUid now))) sigUid =
           Some (?signal\<lparr> sig_status := ''pending'' \<rparr>)"
    unfolding w e getSignalById_def
    by (simp add: enqueueCommand_def Let_def updateSignalStatus_lookup update_conv')
qed

subsection \<open>What the second pass of the connection handler leaves alone\<close>

lemma retrySignalsLoop_extends:
  assumes "\<forall>j\<ge>i. fresh j \<notin> fst ` set (mt5Commands (storage sv))" and "inj fresh"
  shows "\<exists>ys ds. mt5Commands (storage (retrySignalsLoop sv now fresh i L)) =
                    mt5Commands (storage sv) @ ys
                \<and> delivered (retrySignalsLoop sv now fresh i L) = delivered sv @ ds"
  using assms
proof (induction L arbitrary: sv i)
  case Nil
  then show ?case by simp
next
  case (Cons s L)
  let ?sv1 = "retrySignal sv now (fresh i) s"
  have fi: "fresh i \<notin> fst ` set (mt5Commands (storage sv))"
    using Cons.prems(1) by simp
  have cmds: "mt5Commands (storage ?sv1) = mt5Commands (storage sv) @
       [(fresh i, if openClients sv = [] then retryCommand s (fresh i) now
                  else asSent (retryCommand s (fresh i) now) now)]"
    by (rule retrySignal_commands [OF fi])
  have next_fresh: "\<forall>j\<ge>Suc i. fresh j \<notin> fst ` set (mt5Commands (storage ?sv1))"
    unfolding cmds using Cons.prems(1,2) by (auto dest: injD)
  from Cons.IH [OF next_fresh Cons.prems(2)]
  obtain ys ds where
    "mt5Commands (storage (retrySignalsLoop ?sv1 now fresh (Suc i) L)) =
       mt5Commands (storage ?sv1) @ ys"
    "delivered (retrySignalsLoop ?sv1 now fresh (Suc i) L) = delivered ?sv1 @ ds"
    by blast
  then show ?case
    unfolding cmds by simp
qed

lemma map_of_prefix: "map_of xs k = Some v \<Longrightarrow> map_of (xs @ ys) k = Some v"
  by (simp add: map_add_Some_iff)

lemma mt5Connection_extends:
  assumes fresh: "\<forall>j. fresh j \<notin> fst ` set (mt5Commands (storage sv))" and inj: "inj fresh"
  shows "\<exists>ys ds. mt5Commands (storage (mt5Connection sv ws now fresh)) =
           mt5Commands (storage (replayLoop (connectionOpen sv ws now) now
              (commandsToResend (storage (connectionOpen sv ws now))))) @ ys
         \<and> delivered (mt5Connection sv ws now fresh) =
           delivered (replayLoop (connectionOpen sv ws now) now
              (commandsToResend (storage (connectionOpen sv ws now)))) @ ds"
proof -
  let ?sv0 = "connectionOpen sv ws now"
  let ?sv1 = "replayLoop ?sv0 now (commandsToResend (storage ?sv0))"
  let ?sv2 = "?sv1\<lparr> storage := fst (getSettings (storage ?sv1)) \<rparr>"
  have keys: "fst ` set (mt5Commands (storage ?sv2)) = fst ` set (mt5Commands (storage sv))"
  proof -
    have "map fst (mt5Commands (storage ?sv2)) = map fst (mt5Commands (storage sv))"
      by (simp add: replayLoop_keys)
    then show ?thesis by (metis list.set_map)
  qed
  have fresh2: "\<forall>j\<ge>0. fresh j \<notin> fst ` set (mt5Commands (storage ?sv2))"
    unfolding keys using fresh by simp
  have "\<exists>ys ds. mt5Commands (storage (retrySignalsLoop ?sv2 now fresh 0 L)) =
                    mt5Commands (storage ?sv2) @ ys
                \<and> delivered (retrySignalsLoop ?sv2 now fresh 0 L) = delivered ?sv2 @ ds" for L
    by (rule retrySignalsLoop_extends [OF fresh2 inj])
  then show ?thesis
    by (simp add: mt5Connection_def Let_def split_beta)
qed

subsection \<open>The pending command on connection\<close>

lemma connection_replays_command:
  assumes cmd: "getCommandById (storage sv) cid = Some c"
    and pending: "cmd_status c = ''pending''" and cid: "cmd_id c = cid"
    and fresh: "\<forall>j. fresh j \<notin> fst ` set (mt5Commands (storage sv))" and inj: "inj fresh"
  shows "getCommandById (storage (mt5Connection sv ws now fresh)) cid =
           Some (c\<lparr> cmd_status := ''sent'', cmd_sentAt := Some now \<rparr>)"
    and "(ws, wireOf c (cmd_positionId c)) \<in> set (delivered (mt5Connection sv ws now fresh))"
proof -
  let ?sv0 = "connectionOpen sv ws now"
  let ?pending = "commandsToResend (storage ?sv0)"
  let ?sv1 = "replayLoop ?sv0 now ?pending"
  have "(cid, c) \<in> set (mt5Commands (storage sv))"
    using cmd by (auto simp: getCommandById_def dest: map_of_SomeD)
  then have "c \<in> snd ` set (mt5Commands (storage sv))" by force
  then have inP: "c \<in> set ?pending"
    using pending by (simp add: commandsToResend_eq)
  then have "cid \<in> cmd_id ` set ?pending" using cid by force
  then have l1: "map_of (mt5Commands (storage ?sv1)) cid =
      Some (c\<lparr> cmd_status := ''sent'', cmd_sentAt := Some now \<rparr>)"
    using cmd by (simp add: replayLoop_lookup getCommandById_def)
  have "(ws, wireOf c (cmd_positionId c)) \<in> set (delivered ?sv1)"
    using inP connectionOpen_open [of ws sv now]
    by (auto simp: replayLoop_delivered)
  moreover obtain ys ds where e:
    "mt5Commands (storage (mt5Connection sv ws now fresh)) = mt5Commands (storage ?sv1) @ ys"
    "delivered (mt5Connection sv ws now fresh) = delivered ?sv1 @ ds"
    using mt5Connection_extends [OF fresh inj] by blast
  ultimately show "(ws, wireOf c (cmd_positionId c)) \<in> set (delivered (mt5Connection sv ws now fresh))"
    by simp
  show "getCommandById (storage (mt5Connection sv ws now fresh)) cid =
           Some (c\<lparr> cmd_status := ''sent'', cmd_sentAt := Some now \<rparr>)"
    unfolding getCommandById_def e(1) by (rule map_of_prefix [OF l1])
qed

subsection \<open>The pending signal on connection\<close>

lemma timestamps_update:
  "map_of xs k = Some s \<Longrightarrow> sig_timestamp s' = sig_timestamp s \<Longrightarrow>
   map (\<lambda>x. sig_timestamp (snd x)) (AList.update k s' xs) = map (\<lambda>x. sig_timestamp (snd x)) xs"
  by (induction xs) (auto split: if_splits)

lemma updateSignalStatus_timestamps [simp]:
  "map (\<lambda>x. sig_timestamp (snd x)) (signals (updateSignalStatus st sid status e))
     = map (\<lambda>x. sig_timestamp (snd x)) (signals st)"
  by (simp add: updateSignalStatus_def Let_def timestamps_update split: option.splits)

lemma replayLoop_timestamps [simp]:
  "map (\<lambda>x. sig_timestamp (snd x)) (signals (storage (replayLoop sv now cs)))
     = map (\<lambda>x. sig_timestamp (snd x)) (signals (storage sv))"
  by (induction cs arbitrary: sv) (simp_all add: Let_def split_beta)

lemma recent_count:
  "length (filter (\<lambda>x. c \<le> sig_timestamp x) (map snd xs))
     = length (filter (\<lambda>t. c \<le> t) (map (\<lambda>x. sig_timestamp (snd x)) xs))"
  by (induction xs) simp_all

lemma getPendingSignals_window:
  assumes "map_of (signals st) sid = Some s" and "sig_status s = ''pending''"
    and "length (filter (\<lambda>x. sig_timestamp s \<le> sig_timestamp x) (map snd (signals st))) \<le> limit"
  shows "s \<in> set (getPendingSignals st limit)"
proof -
  let ?P = "\<lambda>x. sig_timestamp s \<le> sig_timestamp x"
  let ?xs = "filter (\<lambda>s. sig_status s = ''pending'') (map snd (signals st))"
  have "s \<in> set ?xs"
    using assms(1,2) by (force dest: map_of_SomeD)
  moreover have "length (filter ?P ?xs) \<le> limit"
  proof -
    have "filter ?P ?xs = filter (\<lambda>s. sig_status s = ''pending'') (filter ?P (map snd (signals st)))"
      by (simp add: conj_commute)
    then have "length (filter ?P ?xs) \<le> length (filter ?P (map snd (signals st)))"
      by (simp only: length_filter_le)
    then show ?thesis using assms(3) by (rule le_trans)
  qed
  ultimately have "s \<in> set (take limit (newest_first ?xs))"
    by (intro window_covers [where c = "sig_timestamp s"]) simp_all
  then show ?thesis by (simp add: getPendingSignals_def)
qed

lemma parseIfTruthy_or_else [simp]: "parseIfTruthy (or_else a None) = parseIfTruthy a"
  by (cases a) (simp_all add: parseIfTruthy_def or_else_def)

lemma parseIfTruthy_volume: "parseIfTruthy (Some ''0.01'') = Some (parseFloat ''0.01'')"
  by (simp add: parseIfTruthy_def)

lemma connection_creates_command:
  assumes sig: "getSignalById (storage sv) sid = Some s"
    and pending: "sig_status s = ''pending''" and sid: "sig_id s = sid"
    and window: "length (filter (\<lambda>x. sig_timestamp s \<le> sig_timestamp x)
                    (map snd (signals (storage sv)))) \<le> 100"
    and unref: "\<not> list_ex (\<lambda>cmd. cmd_signalId cmd = Some sid) (getPendingCommands (storage sv))"
    and auto: "set_autoTrade (snd (getSettings (storage sv))) = ''true''"
    and fresh: "\<forall>j. fresh j \<notin> fst ` set (mt5Commands (storage sv))" and inj: "inj fresh"
  shows "\<exists>c\<in>snd ` set (mt5Commands (storage (mt5Connection sv ws now fresh))).
           cmd_signalId c = Some sid \<and> cmd_action c = ''TRADE'' \<and> cmd_status c = ''sent''
         \<and> cmd_sentAt c = Some now \<and> cmd_createdAt c = now
         \<and> (ws, \<lparr> w_id = cmd_id c, w_action = ''TRADE'', w_symbol = Some (sig_symbol s),
                  w_type = Some (sig_type s), w_volume = Some (parseFloat ''0.01''),
                  w_stopLoss = parseIfTruthy (sig_stopLoss s),
                  w_takeProfit = parseIfTruthy (sig_takeProfit s), w_positionId = None \<rparr>)
             \<in> set (delivered (mt5Connection sv ws now fresh))"
proof -
  let ?sv0 = "connectionOpen sv ws now"
  let ?all = "getPendingCommands (storage ?sv0)"
  let ?sv1 = "replayLoop ?sv0 now (commandsToResend (storage ?sv0))"
  let ?L = "filter (\<lambda>signal. \<not> list_ex (\<lambda>cmd. cmd_signalId cmd = Some (sig_id signal)) ?all)
              (getPendingSignals (storage ?sv1) 100)"
  let ?sv2 = "?sv1\<lparr> storage := fst (getSettings (storage ?sv1)) \<rparr>"
  have all: "?all = getPendingCommands (storage sv)"
    by (simp add: getPendingCommands_def)
  have open0: "ws \<in> set (openClients ?sv0)"
    by (rule connectionOpen_open)
  have replayed: "\<forall>c\<in>set (commandsToResend (storage ?sv0)). cmd_signalId c \<noteq> Some sid"
    using unref by (auto simp: commandsToResend_def all list_ex_iff)
  have sig1: "map_of (signals (storage ?sv1)) sid = Some s"
    using replayLoop_signal_other [OF replayed] sig by (simp add: getSignalById_def)
  have "length (filter (\<lambda>x. sig_timestamp s \<le> sig_timestamp x) (map snd (signals (storage ?sv1))))
      = length (filter (\<lambda>x. sig_timestamp s \<le> sig_timestamp x) (map snd (signals (storage sv))))"
    by (simp only: recent_count replayLoop_timestamps connectionOpen_frame)
  then have "length (filter (\<lambda>x. sig_timestamp s \<le> sig_timestamp x)
      (map snd (signals (storage ?sv1)))) \<le> 100"
    using window by simp
  then have inP: "s \<in> set (getPendingSignals (storage ?sv1) 100)"
    by (rule getPendingSignals_window [OF sig1 pending])
  have "\<not> list_ex (\<lambda>cmd. cmd_signalId cmd = Some (sig_id s)) ?all"
    using unref sid by (simp add: all)
  then have inL: "s \<in> set ?L" using inP by simp
  have auto1: "set_autoTrade (snd (getSettings (storage ?sv1))) = ''true''"
    using auto
    by (simp add: getSettings_def connectionOpen_def updateMt5Heartbeat_def defaultSettings_def
        split: option.splits)
  have conn: "mt5Connection sv ws now fresh = retrySignalsLoop ?sv2 now fresh 0 ?L"
    using auto1 inL
    by (simp add: mt5Connection_def Let_def split_beta del: set_filter)
  have keys: "fst ` set (mt5Commands (storage ?sv2)) = fst ` set (mt5Commands (storage sv))"
  proof -
    have "map fst (mt5Commands (storage ?sv2)) = map fst (mt5Commands (storage sv))"
      by (simp add: replayLoop_keys)
    then show ?thesis by (metis list.set_map)
  qed
  have fresh2: "\<forall>j\<ge>0. fresh j \<notin> fst ` set (mt5Commands (storage ?sv2))"
    unfolding keys using fresh by simp
  have open2: "ws \<in> set (openClients ?sv2)"
    using open0 by (simp add: openClients_def)
  then have nonempty: "openClients ?sv2 \<noteq> []"
    by (metis empty_iff empty_set)
  from retrySignalsLoop_creates [OF fresh2 inj inL, of now]
  obtain j where
    c: "(fresh j, asSent (retryCommand s (fresh j) now) now)
          \<in> set (mt5Commands (storage (retrySignalsLoop ?sv2 now fresh 0 ?L)))"
    and d: "(ws, wireOf (retryCommand s (fresh j) now) None)
          \<in> set (delivered (retrySignalsLoop ?sv2 now fresh 0 ?L))"
    using open2 nonempty by auto
  let ?c = "asSent (retryCommand s (fresh j) now) now"
  have "?c \<in> snd ` set (mt5Commands (storage (mt5Connection sv ws now fresh)))"
    unfolding conn using c by force
  moreover have "cmd_signalId ?c = Some sid \<and> cmd_action ?c = ''TRADE'' \<and> cmd_status ?c = ''sent''
      \<and> cmd_sentAt ?c = Some now \<and> cmd_createdAt ?c = now"
    using sid by (simp add: asSent_def retryCommand_def enqueueCommand_def tradeInsert_def Let_def)
  moreover have "wireOf (retryCommand s (fresh j) now) None =
      \<lparr> w_id = cmd_id ?c, w_action = ''TRADE'', w_symbol = Some (sig_symbol s),
        w_type = Some (sig_type s), w_volume = Some (parseFloat ''0.01''),
        w_stopLoss = parseIfTruthy (sig_stopLoss s),
        w_takeProfit = parseIfTruthy (sig_takeProfit s), w_positionId = None \<rparr>"
    by (simp add: wireOf_def asSent_def retryCommand_def enqueueCommand_def tradeInsert_def
        parseIfTruthy_volume Let_def)
  ultimately show ?thesis
    using d unfolding conn by metis
qed


text \<open>
  Claim C6, as the code has it. A valid, non-duplicate signal is ingested with auto-trade
  enabled while no client is open.

  \<^item> When the agent's last heartbeat is missing or at least 90000 ms old, the webhook
    stores the signal in status pending with the reason that the agent is not connected,
    creates no command and sends nothing. When the agent connects later, and the signal
    is then still pending, no pending or sent command refers to it, auto-trade is enabled
    and at most 100 stored signals are at least as recent as it (the handler reads the
    100 newest pending signals), the connection handler enqueues a TRADE command for the
    signal, sends it to the new client and marks it sent, all at connection time.

  \<^item> When the last heartbeat is less than 90000 ms old, the webhook enqueues a TRADE
    command for the signal, which stays pending, and sends nothing; the signal is stored
    in status pending and no reason is recorded. When the agent connects later and the
    command is then still pending, the replay pass sends it to the new client and marks
    it sent.

  The identifiers drawn are new ones.
\<close>

theorem signal_without_open_client:
  assumes notdup: "\<not> isDuplicate (getSignals (storage sv) 100) v now"
    and auto: "set_autoTrade (snd (getSettings (storage sv))) = ''true''"
    and noclient: "openClients sv = []"
  shows
   "(\<not> isMt5Connected (snd (getSettings (storage sv))) now \<longrightarrow>
        snd (webhook sv v sigUid cmdUid now) = PendingMt5Connection sigUid
      \<and> mt5Commands (storage (fst (webhook sv v sigUid cmdUid now))) = mt5Commands (storage sv)
      \<and> delivered (fst (webhook sv v sigUid cmdUid now)) = delivered sv
      \<and> map_option (\<lambda>s. (sig_id s, sig_status s, sig_errorMessage s))
           (getSignalById (storage (fst (webhook sv v sigUid cmdUid now))) sigUid)
         = Some (sigUid, ''pending'',
                 Some ''MT5 not connected - signal will execute when MT5 connects''))
    \<and> (isMt5Connected (snd (getSettings (storage sv))) now \<and> isValidSymbol (ins_symbol v)
        \<and> \<not> list_ex (\<lambda>cmd. cmd_signalId cmd = Some sigUid) (getPendingCommands (storage sv))
        \<and> cmdUid \<notin> fst ` set (mt5Commands (storage sv)) \<longrightarrow>
        snd (webhook sv v sigUid cmdUid now) = Queued sigUid
      \<and> (\<exists>c. mt5Commands (storage (fst (webhook sv v sigUid cmdUid now)))
                = mt5Commands (storage sv) @ [(cmdUid, c)]
            \<and> cmd_id c = cmdUid \<and> cmd_action c = ''TRADE'' \<and> cmd_symbol c = Some (ins_symbol v)
            \<and> cmd_type c = Some (ins_type v) \<and> cmd_signalId c = Some sigUid
            \<and> cmd_status c = ''pending'' \<and> cmd_createdAt c = now \<and> cmd_sentAt c = None)
      \<and> delivered (fst (webhook sv v sigUid cmdUid now)) = delivered sv
      \<and> map_option (\<lambda>s. (sig_id s, sig_status s, sig_errorMessage s))
           (getSignalById (storage (fst (webhook sv v sigUid cmdUid now))) sigUid)
         = Some (sigUid, ''pending'', ins_errorMessage v))
    \<and> (getSignalById (storage sv') sigUid = Some s \<and> sig_id s = sigUid
        \<and> sig_status s = ''pending''
        \<and> \<not> list_ex (\<lambda>cmd. cmd_signalId cmd = Some sigUid) (getPendingCommands (storage sv'))
        \<and> set_autoTrade (snd (getSettings (storage sv'))) = ''true''
        \<and> length (filter (\<lambda>x. sig_timestamp s \<le> sig_timestamp x)
             (map snd (signals (storage sv')))) \<le> 100
        \<and> (\<forall>j. fresh j \<notin> fst ` set (mt5Commands (storage sv'))) \<and> inj fresh \<longrightarrow>
        (\<exists>c\<in>snd ` set (mt5Commands (storage (mt5Connection sv' ws later fresh))).
           cmd_signalId c = Some sigUid \<and> cmd_action c = ''TRADE'' \<and> cmd_status c = ''sent''
         \<and> cmd_sentAt c = Some later \<and> cmd_createdAt c = later
         \<and> (ws, \<lparr> w_id = cmd_id c, w_action = ''TRADE'', w_symbol = Some (sig_symbol s),
                  w_type = Some (sig_type s), w_volume = Some (parseFloat ''0.01''),
                  w_stopLoss = parseIfTruthy (sig_stopLoss s),
                  w_takeProfit = parseIfTruthy (sig_takeProfit s), w_positionId = None \<rparr>)
             \<in> set (delivered (mt5Connection sv' ws later fresh))))
    \<and> (getCommandById (storage sv') cmdUid = Some c \<and> cmd_id c = cmdUid
        \<and> cmd_status c = ''pending''
        \<and> (\<forall>j. fresh j \<notin> fst ` set (mt5Commands (storage sv'))) \<and> inj fresh \<longrightarrow>
        getCommandById (storage (mt5Connection sv' ws later fresh)) cmdUid
          = Some (c\<lparr> cmd_status := ''sent'', cmd_sentAt := Some later \<rparr>)
      \<and> (ws, \<lparr> w_id = cmdUid, w_action = cmd_action c, w_symbol = cmd_symbol c,
               w_type = cmd_type c, w_volume = parseIfTruthy (cmd_volume c),
               w_stopLoss = parseIfTruthy (cmd_stopLoss c),
               w_takeProfit = parseIfTruthy (cmd_takeProfit c),
               w_positionId = cmd_positionId c \<rparr>)
          \<in> set (delivered (mt5Connection sv' ws later fresh)))"
proof -
  let ?sv1 = "fst (webhook sv v sigUid cmdUid now)"
  have a: "snd (webhook sv v sigUid cmdUid now) = PendingMt5Connection sigUid
      \<and> mt5Commands (storage ?sv1) = mt5Commands (storage sv)
      \<and> delivered ?sv1 = delivered sv
      \<and> map_option (\<lambda>s. (sig_id s, sig_status s, sig_errorMessage s))
           (getSignalById (storage ?sv1) sigUid)
         = Some (sigUid, ''pending'',
                 Some ''MT5 not connected - signal will execute when MT5 connects'')"
    if stale: "\<not> isMt5Connected (snd (getSettings (storage sv))) now"
  proof -
    note w = webhook_not_connected [OF notdup auto stale, of sigUid cmdUid]
    have "getSignalById (storage ?sv1) sigUid = Some (ingestedSignal v sigUid now)"
      unfolding getSignalById_def w(6) by (simp add: update_conv')
    then show ?thesis
      using w(1,3,4) by (simp add: notConnectedText_def)
  qed
  have b: "snd (webhook sv v sigUid cmdUid now) = Queued sigUid
      \<and> (\<exists>c. mt5Commands (storage ?sv1) = mt5Commands (storage sv) @ [(cmdUid, c)]
            \<and> cmd_id c = cmdUid \<and> cmd_action c = ''TRADE'' \<and> cmd_symbol c = Some (ins_symbol v)
            \<and> cmd_type c = Some (ins_type v) \<and> cmd_signalId c = Some sigUid
            \<and> cmd_status c = ''pending'' \<and> cmd_createdAt c = now \<and> cmd_sentAt c = None)
      \<and> delivered ?sv1 = delivered sv
      \<and> map_option (\<lambda>s. (sig_id s, sig_status s, sig_errorMessage s))
           (getSignalById (storage ?sv1) sigUid)
         = Some (sigUid, ''pending'', ins_errorMessage v)"
    if recent: "isMt5Connected (snd (getSettings (storage sv))) now"
      and valid: "isValidSymbol (ins_symbol v)"
      and unref: "\<not> list_ex (\<lambda>cmd. cmd_signalId cmd = Some sigUid) (getPendingCommands (storage sv))"
      and cmdfresh: "cmdUid \<notin> fst ` set (mt5Commands (storage sv))"
  proof -
    note w = webhook_queued [OF notdup auto recent valid noclient unref cmdfresh]
    let ?c = "newCommand (snd (createSignal emptyStorage v sigUid now)) cmdUid now"
    have "cmd_id ?c = cmdUid \<and> cmd_action ?c = ''TRADE'' \<and> cmd_symbol ?c = Some (ins_symbol v)
            \<and> cmd_type ?c = Some (ins_type v) \<and> cmd_signalId ?c = Some sigUid
            \<and> cmd_status ?c = ''pending'' \<and> cmd_createdAt ?c = now \<and> cmd_sentAt ?c = None"
      by (simp add: newCommand_def enqueueCommand_def tradeInsert_def createSignal_def Let_def)
    then have "\<exists>c. mt5Commands (storage ?sv1) = mt5Commands (storage sv) @ [(cmdUid, c)]
            \<and> cmd_id c = cmdUid \<and> cmd_action c = ''TRADE'' \<and> cmd_symbol c = Some (ins_symbol v)
            \<and> cmd_type c = Some (ins_type v) \<and> cmd_signalId c = Some sigUid
            \<and> cmd_status c = ''pending'' \<and> cmd_createdAt c = now \<and> cmd_sentAt c = None"
      using w(3) by blast
    moreover have "map_option (\<lambda>s. (sig_id s, sig_status s, sig_errorMessage s))
           (getSignalById (storage ?sv1) sigUid)
         = Some (sigUid, ''pending'', ins_errorMessage v)"
      unfolding w(4) by (simp add: createSignal_def Let_def)
    ultimately show ?thesis using w(1,2) by simp
  qed
  have c: "\<exists>c\<in>snd ` set (mt5Commands (storage (mt5Connection sv' ws later fresh))).
           cmd_signalId c = Some sigUid \<and> cmd_action c = ''TRADE'' \<and> cmd_status c = ''sent''
         \<and> cmd_sentAt c = Some later \<and> cmd_createdAt c = later
         \<and> (ws, \<lparr> w_id = cmd_id c, w_action = ''TRADE'', w_symbol = Some (sig_symbol s),
                  w_type = Some (sig_type s), w_volume = Some (parseFloat ''0.01''),
                  w_stopLoss = parseIfTruthy (sig_stopLoss s),
                  w_takeProfit = parseIfTruthy (sig_takeProfit s), w_positionId = None \<rparr>)
             \<in> set (delivered (mt5Connection sv' ws later fresh))"
    if "getSignalById (storage sv') sigUid = Some s" "sig_id s = sigUid"
      "sig_status s = ''pending''"
      "\<not> list_ex (\<lambda>cmd. cmd_signalId cmd = Some sigUid) (getPendingCommands (storage sv'))"
      "set_autoTrade (snd (getSettings (storage sv'))) = ''true''"
      "length (filter (\<lambda>x. sig_timestamp s \<le> sig_timestamp x)
             (map snd (signals (storage sv')))) \<le> 100"
      "\<forall>j. fresh j \<notin> fst ` set (mt5Commands (storage sv'))" "inj fresh"
    by (rule connection_creates_command [OF that(1,3,2,6,4,5,7,8)])
  have d: "getCommandById (storage (mt5Connection sv' ws later fresh)) cmdUid
          = Some (c\<lparr> cmd_status := ''sent'', cmd_sentAt := Some later \<rparr>)
      \<and> (ws, \<lparr> w_id = cmdUid, w_action = cmd_action c, w_symbol = cmd_symbol c,
               w_type = cmd_type c, w_volume = parseIfTruthy (cmd_volume c),
               w_stopLoss = parseIfTruthy (cmd_stopLoss c),
               w_takeProfit = parseIfTruthy (cmd_takeProfit c),
               w_positionId = cmd_positionId c \<rparr>)
          \<in> set (delivered (mt5Connection sv' ws later fresh))"
    if "getCommandById (storage sv') cmdUid = Some c" "cmd_id c = cmdUid"
      "cmd_status c = ''pending''"
      "\<forall>j. fresh j \<notin> fst ` set (mt5Commands (storage sv'))" "inj fresh"
    using connection_replays_command [OF that(1,3,2,4,5), of ws later] that(2)
    by (simp add: wireOf_def)
  show ?thesis
    using a b c d by blast
qed

lemma fresh_inj: "inj (\<lambda>i. replicate (Suc i) CHR ''u'')"
proof (rule injI)
  fix x y :: nat
  assume "replicate (Suc x) CHR ''u'' = replicate (Suc y) CHR ''u''"
  then have "length (replicate (Suc x) CHR ''u'') = length (replicate (Suc y) CHR ''u'')"
    by (rule arg_cong)
  then show "x = y" by simp
qed

lemmas scenario_defs = scenarioIngested_def scenarioConnected_def webhook_def emptyServer_def
  emptyStorage_def exampleSignal_def getSignals_def newest_first_def isDuplicate_def
  createSignal_def or_default_def getSettings_def defaultSettings_def isMt5Connected_def
  updateSignalStatus_def Let_def

text \<open>
  The scenario: BUY EURUSD with stop 1.08500 and target 1.08800 arrives with no agent
  connected and no heartbeat on record. No command exists after the webhook.
\<close>

theorem signal_without_agent_counterexample:
  "snd (webhook emptyServer exampleSignal ''s1'' ''c0'' 1000) = PendingMt5Connection ''s1''
   \<and> mt5Commands (storage scenarioIngested) = []
   \<and> delivered scenarioIngested = []"
  by (simp add: scenario_defs)

lemma scenarioIngested_eval:
  "scenarioIngested =
     \<lparr> storage =
         \<lparr> signals = [(''s1'', ingestedSignal exampleSignal ''s1'' 1000)],
           trades = [], settings = Some (defaultSettings None), mt5Commands = [],
           mt5ExecutionResults = [] \<rparr>,
       mt5WsClients = [], delivered = [] \<rparr>"
  by (simp add: scenario_defs ingestedSignal_def notConnectedText_def)

lemma droppedIngested_eval:
  "droppedIngested =
     \<lparr> storage =
         \<lparr> signals = [(''s1'', (snd (createSignal emptyStorage exampleSignal ''s1'' 1000))
                                 \<lparr> sig_status := ''pending'' \<rparr>)],
           trades = [], settings = Some (defaultSettings (Some 500)),
           mt5Commands = [(''c1'',
              newCommand (snd (createSignal emptyStorage exampleSignal ''s1'' 1000)) ''c1'' 1000)],
           mt5ExecutionResults = [] \<rparr>,
       mt5WsClients = [], delivered = [] \<rparr>"
  by (simp add: droppedIngested_def droppedServer_def emptyServer_def
      emptyStorage_def updateMt5Heartbeat_def webhook_def getSignals_def newest_first_def
      isDuplicate_def createSignal_def exampleSignal_def or_default_def getSettings_def
      defaultSettings_def isMt5Connected_def isValidSymbol_def symbolChar_def
      webhookEnqueue_def updateSignalStatus_def getPendingCommands_def enqueueCommand_def
      tradeInsert_def sendCommandToMT5_def openClients_def wireOf_def
      newCommand_def Let_def)

text \<open>
  The two scenarios continued. With no heartbeat on record, the signal is pending and
  the connection at 5000 ms creates its command and sends it. With the last heartbeat at
  500 ms, the webhook answers that the command is queued, the command is pending, and
  the connection at 5000 ms sends it to client 7.
\<close>

theorem signal_without_open_client_witness:
  "list_ex (\<lambda>(k, c). cmd_signalId c = Some ''s1'' \<and> cmd_status c = ''sent'')
     (mt5Commands (storage scenarioConnected))
   \<and> map_option sig_status (getSignalById (storage scenarioIngested) ''s1'') = Some ''pending''
   \<and> snd (webhook droppedServer exampleSignal ''s1'' ''c1'' 1000) = Queued ''s1''
   \<and> map (\<lambda>(k, c). (k, cmd_status c)) (mt5Commands (storage droppedIngested)) = [(''c1'', ''pending'')]
   \<and> map_option (\<lambda>c. (cmd_status c, cmd_sentAt c)) (getCommandById (storage droppedConnected) ''c1'')
        = Some (''sent'', Some 5000)
   \<and> list_ex (\<lambda>(k, m). k = 7 \<and> w_id m = ''c1'' \<and> w_symbol m = Some ''EURUSD'')
        (delivered droppedConnected)"
proof -
  let ?fresh = "\<lambda>i. replicate (Suc i) CHR ''u''"
  have notdup: "\<not> isDuplicate (getSignals (storage emptyServer) 100) exampleSignal 1000"
    and auto: "set_autoTrade (snd (getSettings (storage emptyServer))) = ''true''"
    and stale: "\<not> isMt5Connected (snd (getSettings (storage emptyServer))) 1000"
    and noclient: "openClients emptyServer = []"
    by (simp_all add: emptyServer_def emptyStorage_def getSignals_def newest_first_def
        isDuplicate_def getSettings_def defaultSettings_def isMt5Connected_def openClients_def)
  let ?s = "ingestedSignal exampleSignal ''s1'' 1000"
  have later: "getSignalById (storage scenarioIngested) ''s1'' = Some ?s \<and> sig_id ?s = ''s1''
        \<and> sig_status ?s = ''pending''
        \<and> \<not> list_ex (\<lambda>cmd. cmd_signalId cmd = Some ''s1'')
              (getPendingCommands (storage scenarioIngested))
        \<and> set_autoTrade (snd (getSettings (storage scenarioIngested))) = ''true''
        \<and> length (filter (\<lambda>x. sig_timestamp ?s \<le> sig_timestamp x)
             (map snd (signals (storage scenarioIngested)))) \<le> 100
        \<and> (\<forall>j. ?fresh j \<notin> fst ` set (mt5Commands (storage scenarioIngested))) \<and> inj ?fresh"
    using fresh_inj
    by (simp add: scenarioIngested_eval getSignalById_def getPendingCommands_def getSettings_def
        defaultSettings_def)
  note t = signal_without_open_client [where sv = emptyServer and v = exampleSignal
      and now = 1000 and sigUid = "''s1''" and cmdUid = "''c0''" and sv' = scenarioIngested
      and s = ?s and fresh = ?fresh and ws = 7 and later = 5000,
      OF notdup auto noclient, folded scenarioIngested_def, folded scenarioConnected_def]
  have a: "list_ex (\<lambda>(k, c). cmd_signalId c = Some ''s1'' \<and> cmd_status c = ''sent'')
     (mt5Commands (storage scenarioConnected))"
    using t later by (fastforce simp: list_ex_iff)
  have b: "map_option sig_status (getSignalById (storage scenarioIngested) ''s1'') = Some ''pending''"
    using later by simp
  have notdup': "\<not> isDuplicate (getSignals (storage droppedServer) 100) exampleSignal 1000"
    and auto': "set_autoTrade (snd (getSettings (storage droppedServer))) = ''true''"
    and noclient': "openClients droppedServer = []"
    and recent: "isMt5Connected (snd (getSettings (storage droppedServer))) 1000
        \<and> isValidSymbol (ins_symbol exampleSignal)
        \<and> \<not> list_ex (\<lambda>cmd. cmd_signalId cmd = Some ''s1'') (getPendingCommands (storage droppedServer))
        \<and> ''c1'' \<notin> fst ` set (mt5Commands (storage droppedServer))"
    by (simp_all add: droppedServer_def emptyServer_def emptyStorage_def getSignals_def
        newest_first_def isDuplicate_def getSettings_def defaultSettings_def isMt5Connected_def
        openClients_def updateMt5Heartbeat_def getPendingCommands_def exampleSignal_def
        isValidSymbol_def symbolChar_def)
  let ?c = "newCommand (snd (createSignal emptyStorage exampleSignal ''s1'' 1000)) ''c1'' 1000"
  have later': "getCommandById (storage droppedIngested) ''c1'' = Some ?c \<and> cmd_id ?c = ''c1''
        \<and> cmd_status ?c = ''pending''
        \<and> (\<forall>j. ?fresh j \<notin> fst ` set (mt5Commands (storage droppedIngested))) \<and> inj ?fresh"
    using fresh_inj
    by (simp add: droppedIngested_eval getCommandById_def)
  note u = signal_without_open_client [where sv = droppedServer and v = exampleSignal
      and now = 1000 and sigUid = "''s1''" and cmdUid = "''c1''" and sv' = droppedIngested
      and c = ?c and fresh = ?fresh and ws = 7 and later = 5000,
      OF notdup' auto' noclient', folded droppedIngested_def, folded droppedConnected_def]
  have c: "snd (webhook droppedServer exampleSignal ''s1'' ''c1'' 1000) = Queued ''s1''"
    using u recent by blast
  have d: "map (\<lambda>(k, c). (k, cmd_status c)) (mt5Commands (storage droppedIngested)) = [(''c1'', ''pending'')]"
    by (simp add: droppedIngested_eval)
  have e: "getCommandById (storage droppedConnected) ''c1''
          = Some (?c\<lparr> cmd_status := ''sent'', cmd_sentAt := Some 5000 \<rparr>)"
    and f: "(7, \<lparr> w_id = ''c1'', w_action = cmd_action ?c, w_symbol = cmd_symbol ?c,
               w_type = cmd_type ?c, w_volume = parseIfTruthy (cmd_volume ?c),
               w_stopLoss = parseIfTruthy (cmd_stopLoss ?c),
               w_takeProfit = parseIfTruthy (cmd_takeProfit ?c),
               w_positionId = cmd_positionId ?c \<rparr>) \<in> set (delivered droppedConnected)"
    using u later' by blast+
  have g: "list_ex (\<lambda>(k, m). k = 7 \<and> w_id m = ''c1'' \<and> w_symbol m = Some ''EURUSD'')
        (delivered droppedConnected)"
    unfolding list_ex_iff
    by (rule bexI [OF _ f])
      (simp add: newCommand_def enqueueCommand_def tradeInsert_def createSignal_def
        exampleSignal_def Let_def)
  show ?thesis
    using a b c d e g by simp
qed


end
